theory Spec2Isabelle
  imports Complex_Main
begin

section \<open>JavaScript values and thrown errors\<close>

text \<open>
  Values of type \<open>any\<close> (HTTP response bodies, tokens, events, tasks) are modelled by a
  small JSON datatype. \<open>JUndefined\<close> stands for a missing property.
\<close>

datatype json =
    JUndefined
  | JNull
  | JBool bool
  | JNum int
  | JStr string
  | JArr "json list"
  | JObj "(string \<times> json) list"

text \<open>
  A thrown value: an \<open>Error\<close> with its message and the \<open>status\<close> field that the HTTP
  client attaches to a failed response, a \<open>ServiceError\<close> (message, serviceName,
  originalError), or the value \<open>undefined\<close> itself.
\<close>

datatype js_error =
    JsError string "int option"
  | ServiceError string string "js_error option"
  | ThrownUndefined

fun message :: "js_error \<Rightarrow> string" where
  "message (JsError m st) = m"
| "message (ServiceError m sn orig) = m"
| "message ThrownUndefined = ''undefined''"

fun status :: "js_error \<Rightarrow> int option" where
  "status (JsError m st) = st"
| "status (ServiceError m sn orig) = None"
| "status ThrownUndefined = None"

text \<open>\<open>error instanceof Error ? error : new Error(String(error))\<close>\<close>

fun toError :: "js_error \<Rightarrow> js_error" where
  "toError ThrownUndefined = JsError ''undefined'' None"
| "toError e = e"

text \<open>\<open>error instanceof Error ? error : undefined\<close>\<close>

fun instanceofError :: "js_error \<Rightarrow> js_error option" where
  "instanceofError ThrownUndefined = None"
| "instanceofError e = Some e"

section \<open>base-service.ts: withRetry\<close>

text \<open>
  \<open>RetryConfig\<close> has only optional fields; \<open>{ ...DEFAULT_RETRY_CONFIG, ...config }\<close>
  fills the missing ones. A field is absent, \<open>None\<close>, or has a value of its declared
  type; a key that is present with the value \<open>undefined\<close>, which the spread would copy
  over the default, is not modelled. Numbers are reals (rounding of IEEE doubles is not
  modelled); \<open>maxRetries\<close> and the attempt counter are integers.
\<close>

record RetryConfig =
  cfg_maxRetries :: "int option"
  cfg_initialDelay :: "real option"
  cfg_backoffMultiplier :: "real option"
  cfg_maxDelay :: "real option"
  cfg_useJitter :: "bool option"
  cfg_isRetryable :: "(js_error \<Rightarrow> bool) option"

record FinalConfig =
  maxRetries :: int
  initialDelay :: real
  backoffMultiplier :: real
  maxDelay :: real
  useJitter :: bool
  isRetryable :: "js_error \<Rightarrow> bool"

text \<open>\<open>String.prototype.toLowerCase\<close> and \<open>includes\<close>, on ASCII strings.\<close>

definition lowerChar :: "char \<Rightarrow> char" where
  "lowerChar c =
     (let n = (of_char c :: nat) in if 65 \<le> n \<and> n \<le> 90 then char_of (n + 32) else c)"

definition toLowerCase :: "string \<Rightarrow> string" where
  "toLowerCase s = map lowerChar s"

fun startsWith :: "string \<Rightarrow> string \<Rightarrow> bool" where
  "startsWith s [] = True"
| "startsWith [] (p # ps) = False"
| "startsWith (c # cs) (p # ps) = (c = p \<and> startsWith cs ps)"

fun includesStr :: "string \<Rightarrow> string \<Rightarrow> bool" where
  "includesStr [] p = (p = [])"
| "includesStr (c # cs) p = (startsWith (c # cs) p \<or> includesStr cs p)"

definition defaultIsRetryable :: "js_error \<Rightarrow> bool" where
  "defaultIsRetryable error =
     (let m = toLowerCase (message error) in
        includesStr m ''network'' \<or> includesStr m ''timeout'' \<or> includesStr m ''econnreset'' \<or>
        includesStr m ''enotfound'' \<or> includesStr m ''rate limit'' \<or> includesStr m ''429'' \<or>
        includesStr m ''500'' \<or> includesStr m ''502'' \<or> includesStr m ''503'' \<or> includesStr m ''504'')"

definition DEFAULT_RETRY_CONFIG :: FinalConfig where
  "DEFAULT_RETRY_CONFIG =
     \<lparr>maxRetries = 3, initialDelay = 1000, backoffMultiplier = 2, maxDelay = 30000,
      useJitter = True, isRetryable = defaultIsRetryable\<rparr>"

definition orDefault :: "'a option \<Rightarrow> 'a \<Rightarrow> 'a" where
  "orDefault x d = (case x of None \<Rightarrow> d | Some v \<Rightarrow> v)"

definition finalConfig :: "RetryConfig \<Rightarrow> FinalConfig" where
  "finalConfig config =
     \<lparr>maxRetries = orDefault (cfg_maxRetries config) (maxRetries DEFAULT_RETRY_CONFIG),
      initialDelay = orDefault (cfg_initialDelay config) (initialDelay DEFAULT_RETRY_CONFIG),
      backoffMultiplier =
        orDefault (cfg_backoffMultiplier config) (backoffMultiplier DEFAULT_RETRY_CONFIG),
      maxDelay = orDefault (cfg_maxDelay config) (maxDelay DEFAULT_RETRY_CONFIG),
      useJitter = orDefault (cfg_useJitter config) (useJitter DEFAULT_RETRY_CONFIG),
      isRetryable = orDefault (cfg_isRetryable config) (isRetryable DEFAULT_RETRY_CONFIG)\<rparr>"

text \<open>
  The result of a run of \<open>withRetry\<close>: what it returned or threw, how many times it
  invoked \<open>fn\<close>, the delays it slept (in order), and the state of the world that \<open>fn\<close>
  acts on. \<open>fn\<close> is a state transformer that returns or throws. \<open>rnd k\<close> is the value
  that \<open>Math.random()\<close> gives for the \<open>k\<close>-th sleep. The loop carries the attempt number,
  \<open>lastError\<close>, the number of invocations so far and the delays slept so far.
\<close>

record ('a, 's) retry_result =
  outcome :: "js_error + 'a"
  calls :: nat
  delays :: "real list"
  final :: 's

function withRetry_loop ::
  "FinalConfig \<Rightarrow> (nat \<Rightarrow> real) \<Rightarrow> ('s \<Rightarrow> (js_error + 'a) \<times> 's) \<Rightarrow>
     int \<Rightarrow> js_error \<Rightarrow> nat \<Rightarrow> real list \<Rightarrow> 's \<Rightarrow> ('a, 's) retry_result" where
  "withRetry_loop cfg rnd fn attempt lastError n ds s =
     (if attempt \<le> maxRetries cfg then
        (case fn s of
           (Inr v, s') \<Rightarrow> \<lparr>outcome = Inr v, calls = Suc n, delays = ds, final = s'\<rparr>
         | (Inl error, s') \<Rightarrow>
             if attempt \<ge> maxRetries cfg then
               \<lparr>outcome = Inl (toError error), calls = Suc n, delays = ds, final = s'\<rparr>
             else if \<not> isRetryable cfg (toError error) then
               \<lparr>outcome = Inl (toError error), calls = Suc n, delays = ds, final = s'\<rparr>
             else
               let baseDelay =
                     min (initialDelay cfg * backoffMultiplier cfg ^ nat attempt) (maxDelay cfg);
                   delay =
                     (if useJitter cfg then baseDelay * (0.5 + rnd (length ds) * 0.5)
                      else baseDelay)
               in withRetry_loop cfg rnd fn (attempt + 1) (toError error) (Suc n)
                    (ds @ [delay]) s')
      else \<lparr>outcome = Inl lastError, calls = n, delays = ds, final = s\<rparr>)"
  by pat_completeness auto
termination
  by (relation "measure (\<lambda>(cfg, rnd, fn, attempt, lastError, n, ds, s).
        nat (maxRetries cfg + 1 - attempt))") auto

definition withRetry ::
  "(nat \<Rightarrow> real) \<Rightarrow> ('s \<Rightarrow> (js_error + 'a) \<times> 's) \<Rightarrow> RetryConfig \<Rightarrow> 's \<Rightarrow>
     ('a, 's) retry_result" where
  "withRetry rnd fn config s =
     withRetry_loop (finalConfig config) rnd fn 0 ThrownUndefined 0 [] s"

section \<open>JavaScript operators and runtime library\<close>

fun truthy :: "json \<Rightarrow> bool" where
  "truthy JUndefined = False"
| "truthy JNull = False"
| "truthy (JBool b) = b"
| "truthy (JNum n) = (n \<noteq> 0)"
| "truthy (JStr s) = (s \<noteq> [])"
| "truthy (JArr xs) = True"
| "truthy (JObj kvs) = True"

text \<open>\<open>a || b\<close>\<close>

definition orElse :: "json \<Rightarrow> json \<Rightarrow> json" where
  "orElse a b = (if truthy a then a else b)"

fun nullish :: "json \<Rightarrow> bool" where
  "nullish JUndefined = True"
| "nullish JNull = True"
| "nullish v = False"

text \<open>
  Reading a property. An object is a list of bindings, the first binding of a key being
  the current one; a value that is not an object has none of the properties read here.
\<close>

fun readProp :: "json \<Rightarrow> string \<Rightarrow> json" where
  "readProp (JObj kvs) k = (case map_of kvs k of None \<Rightarrow> JUndefined | Some v \<Rightarrow> v)"
| "readProp v k = JUndefined"

definition TypeError :: js_error where
  "TypeError = JsError ''TypeError'' None"

definition RangeError :: js_error where
  "RangeError = JsError ''RangeError: Invalid time value'' None"

text \<open>\<open>o.k\<close> throws a TypeError on \<open>null\<close> and \<open>undefined\<close>; \<open>o?.k\<close> gives \<open>undefined\<close>.\<close>

definition getProp :: "json \<Rightarrow> string \<Rightarrow> js_error + json" where
  "getProp v k = (if nullish v then Inl TypeError else Inr (readProp v k))"

definition optProp :: "json \<Rightarrow> string \<Rightarrow> json" where
  "optProp v k = (if nullish v then JUndefined else readProp v k)"

text \<open>\<open>xs.map(f)\<close> and \<open>xs.filter(p)\<close> with a callback that may throw.\<close>

fun mapE :: "('a \<Rightarrow> js_error + 'b) \<Rightarrow> 'a list \<Rightarrow> js_error + 'b list" where
  "mapE f [] = Inr []"
| "mapE f (x # xs) =
     (case f x of
        Inl e \<Rightarrow> Inl e
      | Inr y \<Rightarrow> (case mapE f xs of Inl e \<Rightarrow> Inl e | Inr ys \<Rightarrow> Inr (y # ys)))"

fun filterE :: "('a \<Rightarrow> js_error + bool) \<Rightarrow> 'a list \<Rightarrow> js_error + 'a list" where
  "filterE p [] = Inr []"
| "filterE p (x # xs) =
     (case p x of
        Inl e \<Rightarrow> Inl e
      | Inr b \<Rightarrow>
          (case filterE p xs of Inl e \<Rightarrow> Inl e | Inr ys \<Rightarrow> Inr (if b then x # ys else ys)))"

text \<open>
  The library functions of the JavaScript runtime that the code calls are parameters of
  the model. A \<open>Date\<close> is its time value in milliseconds, \<open>None\<close> for an invalid date
  (whose time value is NaN): \<open>parseDate v\<close> is \<open>new Date(v)\<close>, \<open>startOfDay\<close> is
  \<open>setHours(0, 0, 0, 0)\<close>, \<open>endOfDay\<close> is \<open>setHours(23, 59, 59, 999)\<close>, \<open>minusDays d n\<close> is
  \<open>setDate(getDate() - n)\<close> (all three in the local time zone), \<open>toStr\<close> is the
  conversion to a string of a template literal, and \<open>searchParams\<close> is
  \<open>new URLSearchParams(...).toString()\<close>.
\<close>

record js_runtime =
  parseDate :: "json \<Rightarrow> int option"
  startOfDay :: "int \<Rightarrow> int"
  endOfDay :: "int \<Rightarrow> int"
  minusDays :: "int \<Rightarrow> int \<Rightarrow> int"
  toISOString :: "int \<Rightarrow> string"
  toStr :: "json \<Rightarrow> string"
  searchParams :: "(string \<times> string) list \<Rightarrow> string"

text \<open>\<open>a <= b\<close> on dates: false as soon as one of them is invalid.\<close>

fun dateLe :: "int option \<Rightarrow> int option \<Rightarrow> bool" where
  "dateLe (Some a) (Some b) = (a \<le> b)"
| "dateLe a b = False"

section \<open>google-calendar-api.ts: GoogleCalendarAPI\<close>

record GoogleCalendarCredentials =
  clientId :: string
  clientSecret :: string
  accessToken :: json
  refreshToken :: json

datatype http_body = NoBody | JsonBody json | FormBody string

record http_request =
  url :: string
  httpMethod :: string
  headers :: "(string \<times> string) list"
  body :: http_body

text \<open>
  The network: what \<open>requestUrl(req)\<close> followed by \<open>.json\<close> gives (the parsed body, or
  the error thrown, which carries the HTTP status), as a function of the requests made
  before. The state of the client is its credentials, the optional listener
  \<open>onTokensUpdated\<close> given to the constructor (a call of it returns, \<open>None\<close>, or throws
  an error), the requests it has sent and the token objects it has handed to the
  listener.
\<close>

type_synonym http_server = "http_request list \<Rightarrow> http_request \<Rightarrow> js_error + json"

record api_state =
  credentials :: GoogleCalendarCredentials
  onTokensUpdated :: "(json \<Rightarrow> js_error option) option"
  requests :: "http_request list"
  tokenUpdates :: "json list"

definition requestUrl ::
  "http_server \<Rightarrow> http_request \<Rightarrow> api_state \<Rightarrow> (js_error + json) \<times> api_state" where
  "requestUrl srv req st = (srv (requests st) req, st\<lparr>requests := requests st @ [req]\<rparr>)"

definition CALENDAR_API_BASE :: string where
  "CALENDAR_API_BASE = ''https://www.googleapis.com/calendar/v3''"

definition TASKS_API_BASE :: string where
  "TASKS_API_BASE = ''https://www.googleapis.com/tasks/v1''"

text \<open>The request that \<open>makeRequest\<close> builds; a falsy \<open>body\<close> is not sent.\<close>

definition apiRequest :: "js_runtime \<Rightarrow> string \<Rightarrow> string \<Rightarrow> json \<Rightarrow> json \<Rightarrow> http_request" where
  "apiRequest rt u m token b =
     \<lparr>url = u, httpMethod = m,
      headers = [(''Authorization'', ''Bearer '' @ toStr rt token),
                 (''Content-Type'', ''application/json'')],
      body = (if truthy b then JsonBody b else NoBody)\<rparr>"

definition refreshRequest :: "js_runtime \<Rightarrow> GoogleCalendarCredentials \<Rightarrow> http_request" where
  "refreshRequest rt c =
     \<lparr>url = ''https://oauth2.googleapis.com/token'', httpMethod = ''POST'',
      headers = [(''Content-Type'', ''application/x-www-form-urlencoded'')],
      body = FormBody (searchParams rt
        [(''client_id'', clientId c), (''client_secret'', clientSecret c),
         (''refresh_token'', toStr rt (refreshToken c)), (''grant_type'', ''refresh_token'')])\<rparr>"

text \<open>
  \<open>refreshAccessToken\<close>: the access token of the response is assigned, then the listener
  is called with the response, both inside the \<open>try\<close> block whose \<open>catch\<close> throws the
  error again. The refresh token of the credentials is read and never assigned.
\<close>

definition refreshAccessToken ::
  "js_runtime \<Rightarrow> http_server \<Rightarrow> api_state \<Rightarrow> (js_error + unit) \<times> api_state" where
  "refreshAccessToken rt srv st =
     (if \<not> truthy (refreshToken (credentials st)) then
        (Inl (JsError ''No refresh token available'' None), st)
      else
        (case requestUrl srv (refreshRequest rt (credentials st)) st of
           (Inl error, st1) \<Rightarrow> (Inl error, st1)
         | (Inr tokens, st1) \<Rightarrow>
             (case getProp tokens ''access_token'' of
                Inl error \<Rightarrow> (Inl error, st1)
              | Inr access_token \<Rightarrow>
                  if truthy access_token then
                    (let st2 = st1\<lparr>credentials := (credentials st1)\<lparr>accessToken := access_token\<rparr>\<rparr>
                     in case onTokensUpdated st2 of
                          None \<Rightarrow> (Inr (), st2)
                        | Some listener \<Rightarrow>
                            (case listener tokens of
                               None \<Rightarrow> (Inr (), st2\<lparr>tokenUpdates := tokenUpdates st2 @ [tokens]\<rparr>)
                             | Some error \<Rightarrow>
                                 (Inl error, st2\<lparr>tokenUpdates := tokenUpdates st2 @ [tokens]\<rparr>)))
                  else (Inr (), st1))))"

definition makeRequest ::
  "js_runtime \<Rightarrow> http_server \<Rightarrow> string \<Rightarrow> string \<Rightarrow> json \<Rightarrow> api_state \<Rightarrow>
     (js_error + json) \<times> api_state" where
  "makeRequest rt srv u m b st =
     (if \<not> truthy (accessToken (credentials st)) then
        (Inl (JsError ''No access token available'' None), st)
      else
        (case requestUrl srv (apiRequest rt u m (accessToken (credentials st)) b) st of
           (Inr response, st1) \<Rightarrow> (Inr response, st1)
         | (Inl error, st1) \<Rightarrow>
             if status error = Some 401 then
               (case refreshAccessToken rt srv st1 of
                  (Inl error', st2) \<Rightarrow> (Inl error', st2)
                | (Inr u', st2) \<Rightarrow>
                    requestUrl srv (apiRequest rt u m (accessToken (credentials st2)) b) st2)
             else (Inl error, st1)))"

definition credentialsConfigured :: "api_state \<Rightarrow> bool" where
  "credentialsConfigured st =
     (clientId (credentials st) \<noteq> [] \<and> clientSecret (credentials st) \<noteq> [])"

definition eventsUrl :: "js_runtime \<Rightarrow> int \<Rightarrow> int \<Rightarrow> string" where
  "eventsUrl rt tMin tMax =
     CALENDAR_API_BASE @ ''/calendars/primary/events?'' @
       searchParams rt [(''timeMin'', toISOString rt tMin), (''timeMax'', toISOString rt tMax),
                        (''singleEvents'', ''true''), (''orderBy'', ''startTime'')]"

text \<open>
  The fetch operations catch every error and return \<open>null\<close>. \<open>toISOString\<close> throws a
  RangeError on an invalid date, inside the \<open>try\<close>.
\<close>

definition getEventsForDate ::
  "js_runtime \<Rightarrow> http_server \<Rightarrow> string \<Rightarrow> api_state \<Rightarrow> (js_error + json) \<times> api_state" where
  "getEventsForDate rt srv date st =
     (if \<not> credentialsConfigured st then (Inr JNull, st)
      else
        (case parseDate rt (JStr date) of
           None \<Rightarrow> (Inr JNull, st)
         | Some d \<Rightarrow>
             (case makeRequest rt srv (eventsUrl rt (startOfDay rt d) (endOfDay rt d)) ''GET''
                     JUndefined st of
                (Inl error, st1) \<Rightarrow> (Inr JNull, st1)
              | (Inr response, st1) \<Rightarrow> (Inr response, st1))))"

definition getEventsForDateRange ::
  "js_runtime \<Rightarrow> http_server \<Rightarrow> string \<Rightarrow> string \<Rightarrow> api_state \<Rightarrow>
     (js_error + json) \<times> api_state" where
  "getEventsForDateRange rt srv startDate endDate st =
     (if \<not> credentialsConfigured st then (Inr JNull, st)
      else
        (case (parseDate rt (JStr startDate), parseDate rt (JStr endDate)) of
           (Some s, Some e) \<Rightarrow>
             (case makeRequest rt srv (eventsUrl rt (startOfDay rt s) (endOfDay rt e)) ''GET''
                     JUndefined st of
                (Inl error, st1) \<Rightarrow> (Inr JNull, st1)
              | (Inr response, st1) \<Rightarrow> (Inr response, st1))
         | _ \<Rightarrow> (Inr JNull, st)))"

definition getTasks ::
  "js_runtime \<Rightarrow> http_server \<Rightarrow> api_state \<Rightarrow> (js_error + json) \<times> api_state" where
  "getTasks rt srv st =
     (if \<not> credentialsConfigured st then (Inr JNull, st)
      else
        (case makeRequest rt srv (TASKS_API_BASE @ ''/lists/@default/tasks?maxResults=100'')
                ''GET'' JUndefined st of
           (Inl error, st1) \<Rightarrow> (Inr JNull, st1)
         | (Inr response, st1) \<Rightarrow> (Inr response, st1)))"

text \<open>
  The filter callback of \<open>getTasksForDate\<close> and \<open>getTasksForDateRange\<close>: a task without
  \<open>due\<close> is kept; otherwise \<open>taskDueDate >= lo && taskDueDate <= hi\<close>.
\<close>

definition dueInWindow :: "js_runtime \<Rightarrow> int option \<Rightarrow> int option \<Rightarrow> json \<Rightarrow> js_error + bool" where
  "dueInWindow rt lo hi task =
     (case getProp task ''due'' of
        Inl error \<Rightarrow> Inl error
      | Inr due \<Rightarrow>
          if \<not> truthy due then Inr True
          else Inr (dateLe lo (parseDate rt due) \<and> dateLe (parseDate rt due) hi))"

definition tasksUrl :: "js_runtime \<Rightarrow> json \<Rightarrow> string" where
  "tasksUrl rt listId =
     TASKS_API_BASE @ ''/lists/'' @ toStr rt listId @ ''/tasks?'' @
       searchParams rt [(''showCompleted'', ''false''), (''maxResults'', ''100'')]"

text \<open>
  The callback mapped over the task lists. Reading \<open>taskList.id\<close> is outside its \<open>try\<close>;
  every error inside the \<open>try\<close> gives the empty list.
\<close>

definition tasksOfList ::
  "js_runtime \<Rightarrow> http_server \<Rightarrow> int option \<Rightarrow> int option \<Rightarrow> json \<Rightarrow> api_state \<Rightarrow>
     (js_error + json list) \<times> api_state" where
  "tasksOfList rt srv lo hi taskList st =
     (case getProp taskList ''id'' of
        Inl error \<Rightarrow> (Inl error, st)
      | Inr listId \<Rightarrow>
          if \<not> truthy listId then (Inr [], st)
          else
            (case makeRequest rt srv (tasksUrl rt listId) ''GET'' JUndefined st of
               (Inl error, st1) \<Rightarrow> (Inr [], st1)
             | (Inr response, st1) \<Rightarrow>
                 (case getProp response ''items'' of
                    Inl error \<Rightarrow> (Inr [], st1)
                  | Inr items \<Rightarrow>
                      (case orElse items (JArr []) of
                         JArr tasks \<Rightarrow>
                           (case filterE (dueInWindow rt lo hi) tasks of
                              Inl error \<Rightarrow> (Inr [], st1)
                            | Inr filteredTasks \<Rightarrow> (Inr filteredTasks, st1))
                       | _ \<Rightarrow> (Inr [], st1)))))"

text \<open>
  \<open>Promise.all(taskLists.map(...))\<close>, with the callbacks run one after the other in the
  order of the lists: every callback runs, and the first rejection, if any, is the result.
\<close>

fun promiseAll ::
  "('a \<Rightarrow> 's \<Rightarrow> (js_error + 'b) \<times> 's) \<Rightarrow> 'a list \<Rightarrow> 's \<Rightarrow> (js_error + 'b list) \<times> 's" where
  "promiseAll f [] st = (Inr [], st)"
| "promiseAll f (x # xs) st =
     (case f x st of
        (r, st1) \<Rightarrow>
          (case promiseAll f xs st1 of
             (rs, st2) \<Rightarrow>
               (case r of
                  Inl error \<Rightarrow> (Inl error, st2)
                | Inr y \<Rightarrow> (case rs of Inl error \<Rightarrow> (Inl error, st2) | Inr ys \<Rightarrow> (Inr (y # ys), st2)))))"

definition taskListsUrl :: string where
  "taskListsUrl = TASKS_API_BASE @ ''/users/@me/lists''"

definition getTasksForDate ::
  "js_runtime \<Rightarrow> http_server \<Rightarrow> string \<Rightarrow> api_state \<Rightarrow> (js_error + json) \<times> api_state" where
  "getTasksForDate rt srv date st =
     (if \<not> credentialsConfigured st then (Inr JNull, st)
      else
        (case makeRequest rt srv taskListsUrl ''GET'' JUndefined st of
           (Inl error, st1) \<Rightarrow> (Inr JNull, st1)
         | (Inr taskListsResponse, st1) \<Rightarrow>
             (case getProp taskListsResponse ''items'' of
                Inl error \<Rightarrow> (Inr JNull, st1)
              | Inr items \<Rightarrow>
                  (case orElse items (JArr []) of
                     JArr taskLists \<Rightarrow>
                       let targetDate = map_option (endOfDay rt) (parseDate rt (JStr date));
                           oneYearAgo = map_option (\<lambda>d. minusDays rt d 365) targetDate
                       in (case promiseAll (tasksOfList rt srv oneYearAgo targetDate) taskLists st1 of
                             (Inl error, st2) \<Rightarrow> (Inr JNull, st2)
                           | (Inr taskResults, st2) \<Rightarrow>
                               (Inr (JObj [(''items'', JArr (concat taskResults))]), st2))
                   | _ \<Rightarrow> (Inr JNull, st1)))))"

definition getTasksForDateRange ::
  "js_runtime \<Rightarrow> http_server \<Rightarrow> string \<Rightarrow> string \<Rightarrow> api_state \<Rightarrow>
     (js_error + json) \<times> api_state" where
  "getTasksForDateRange rt srv startDate endDate st =
     (if \<not> credentialsConfigured st then (Inr JNull, st)
      else
        (case makeRequest rt srv taskListsUrl ''GET'' JUndefined st of
           (Inl error, st1) \<Rightarrow> (Inr JNull, st1)
         | (Inr taskListsResponse, st1) \<Rightarrow>
             (case getProp taskListsResponse ''items'' of
                Inl error \<Rightarrow> (Inr JNull, st1)
              | Inr items \<Rightarrow>
                  (case orElse items (JArr []) of
                     JArr taskLists \<Rightarrow>
                       let endDateTime = map_option (endOfDay rt) (parseDate rt (JStr endDate));
                           startDateTime = map_option (startOfDay rt) (parseDate rt (JStr startDate))
                       in (case promiseAll (tasksOfList rt srv startDateTime endDateTime)
                                  taskLists st1 of
                             (Inl error, st2) \<Rightarrow> (Inr JNull, st2)
                           | (Inr taskResults, st2) \<Rightarrow>
                               (Inr (JObj [(''items'', JArr (concat taskResults))]), st2))
                   | _ \<Rightarrow> (Inr JNull, st1)))))"

text \<open>
  The tasks that \<open>getTasksForDate\<close> and \<open>getTasksForDateRange\<close> fetch, before any filter,
  as a reference for the date filter: \<open>unfilteredTasksOfList\<close> is the callback with its
  call of \<open>filter\<close> left out, and \<open>unfilteredTasks\<close> is the function around it, which
  gives the tasks of all lists in the order of the lists, or nothing where the two
  functions return \<open>null\<close>. Both send the same requests as the functions of the source.
\<close>

definition unfilteredTasksOfList ::
  "js_runtime \<Rightarrow> http_server \<Rightarrow> json \<Rightarrow> api_state \<Rightarrow> (js_error + json list) \<times> api_state" where
  "unfilteredTasksOfList rt srv taskList st =
     (case getProp taskList ''id'' of
        Inl error \<Rightarrow> (Inl error, st)
      | Inr listId \<Rightarrow>
          if \<not> truthy listId then (Inr [], st)
          else
            (case makeRequest rt srv (tasksUrl rt listId) ''GET'' JUndefined st of
               (Inl error, st1) \<Rightarrow> (Inr [], st1)
             | (Inr response, st1) \<Rightarrow>
                 (case getProp response ''items'' of
                    Inl error \<Rightarrow> (Inr [], st1)
                  | Inr items \<Rightarrow>
                      (case orElse items (JArr []) of
                         JArr tasks \<Rightarrow> (Inr tasks, st1)
                       | _ \<Rightarrow> (Inr [], st1)))))"

definition unfilteredTasks ::
  "js_runtime \<Rightarrow> http_server \<Rightarrow> api_state \<Rightarrow> json list option \<times> api_state" where
  "unfilteredTasks rt srv st =
     (if \<not> credentialsConfigured st then (None, st)
      else
        (case makeRequest rt srv taskListsUrl ''GET'' JUndefined st of
           (Inl error, st1) \<Rightarrow> (None, st1)
         | (Inr taskListsResponse, st1) \<Rightarrow>
             (case getProp taskListsResponse ''items'' of
                Inl error \<Rightarrow> (None, st1)
              | Inr items \<Rightarrow>
                  (case orElse items (JArr []) of
                     JArr taskLists \<Rightarrow>
                       (case promiseAll (unfilteredTasksOfList rt srv) taskLists st1 of
                          (Inl error, st2) \<Rightarrow> (None, st2)
                        | (Inr taskResults, st2) \<Rightarrow> (Some (concat taskResults), st2))
                   | _ \<Rightarrow> (None, st1)))))"

text \<open>
  \<open>Promise.all\<close> of the two fetches, events first; neither rejects, so the \<open>catch\<close> that
  returns \<open>null\<close> is reached only if one did.
\<close>

definition getEventsAndTasksForDate ::
  "js_runtime \<Rightarrow> http_server \<Rightarrow> string \<Rightarrow> api_state \<Rightarrow> (js_error + json) \<times> api_state" where
  "getEventsAndTasksForDate rt srv date st =
     (case getEventsForDate rt srv date st of
        (r1, st1) \<Rightarrow>
          (case getTasksForDate rt srv date st1 of
             (r2, st2) \<Rightarrow>
               (case (r1, r2) of
                  (Inr events, Inr tasks) \<Rightarrow>
                    (Inr (JObj [(''events'', events), (''tasks'', tasks)]), st2)
                | _ \<Rightarrow> (Inr JNull, st2))))"

definition getEventsAndTasksForDateRange ::
  "js_runtime \<Rightarrow> http_server \<Rightarrow> string \<Rightarrow> string \<Rightarrow> api_state \<Rightarrow>
     (js_error + json) \<times> api_state" where
  "getEventsAndTasksForDateRange rt srv startDate endDate st =
     (case getEventsForDateRange rt srv startDate endDate st of
        (r1, st1) \<Rightarrow>
          (case getTasksForDateRange rt srv startDate endDate st1 of
             (r2, st2) \<Rightarrow>
               (case (r1, r2) of
                  (Inr events, Inr tasks) \<Rightarrow>
                    (Inr (JObj [(''events'', events), (''tasks'', tasks)]), st2)
                | _ \<Rightarrow> (Inr JNull, st2))))"

text \<open>The create, update and delete operations log the error and throw it again.\<close>

definition notConfigured :: js_error where
  "notConfigured = JsError ''Google Calendar API credentials not configured'' None"

definition createEvent ::
  "js_runtime \<Rightarrow> http_server \<Rightarrow> json \<Rightarrow> string \<Rightarrow> api_state \<Rightarrow> (js_error + json) \<times> api_state" where
  "createEvent rt srv event calendarId st =
     (if \<not> credentialsConfigured st then (Inl notConfigured, st)
      else makeRequest rt srv (CALENDAR_API_BASE @ ''/calendars/'' @ calendarId @ ''/events'')
             ''POST'' event st)"

definition updateEvent ::
  "js_runtime \<Rightarrow> http_server \<Rightarrow> string \<Rightarrow> json \<Rightarrow> string \<Rightarrow> api_state \<Rightarrow>
     (js_error + json) \<times> api_state" where
  "updateEvent rt srv eventId event calendarId st =
     (if \<not> credentialsConfigured st then (Inl notConfigured, st)
      else makeRequest rt srv
             (CALENDAR_API_BASE @ ''/calendars/'' @ calendarId @ ''/events/'' @ eventId)
             ''PUT'' event st)"

definition deleteEvent ::
  "js_runtime \<Rightarrow> http_server \<Rightarrow> string \<Rightarrow> string \<Rightarrow> api_state \<Rightarrow> (js_error + json) \<times> api_state" where
  "deleteEvent rt srv eventId calendarId st =
     (if \<not> credentialsConfigured st then (Inl notConfigured, st)
      else
        (case makeRequest rt srv
                (CALENDAR_API_BASE @ ''/calendars/'' @ calendarId @ ''/events/'' @ eventId)
                ''DELETE'' JUndefined st of
           (Inl error, st1) \<Rightarrow> (Inl error, st1)
         | (Inr response, st1) \<Rightarrow> (Inr JUndefined, st1)))"

definition createTask ::
  "js_runtime \<Rightarrow> http_server \<Rightarrow> json \<Rightarrow> string \<Rightarrow> api_state \<Rightarrow> (js_error + json) \<times> api_state" where
  "createTask rt srv task taskListId st =
     (if \<not> credentialsConfigured st then (Inl notConfigured, st)
      else makeRequest rt srv (TASKS_API_BASE @ ''/lists/'' @ taskListId @ ''/tasks'')
             ''POST'' task st)"

definition updateTask ::
  "js_runtime \<Rightarrow> http_server \<Rightarrow> string \<Rightarrow> json \<Rightarrow> string \<Rightarrow> api_state \<Rightarrow>
     (js_error + json) \<times> api_state" where
  "updateTask rt srv taskId task taskListId st =
     (if \<not> credentialsConfigured st then (Inl notConfigured, st)
      else makeRequest rt srv
             (TASKS_API_BASE @ ''/lists/'' @ taskListId @ ''/tasks/'' @ taskId) ''PUT'' task st)"

definition deleteTask ::
  "js_runtime \<Rightarrow> http_server \<Rightarrow> string \<Rightarrow> string \<Rightarrow> api_state \<Rightarrow> (js_error + json) \<times> api_state" where
  "deleteTask rt srv taskId taskListId st =
     (if \<not> credentialsConfigured st then (Inl notConfigured, st)
      else
        (case makeRequest rt srv
                (TASKS_API_BASE @ ''/lists/'' @ taskListId @ ''/tasks/'' @ taskId)
                ''DELETE'' JUndefined st of
           (Inl error, st1) \<Rightarrow> (Inl error, st1)
         | (Inr response, st1) \<Rightarrow> (Inr JUndefined, st1)))"

section \<open>GoogleCalendarProvider.ts\<close>

text \<open>\<open>isConfigured()\<close> reads the credentials of the provider's API client.\<close>

definition isConfigured :: "api_state \<Rightarrow> bool" where
  "isConfigured st = (clientId (credentials st) \<noteq> [] \<and> clientSecret (credentials st) \<noteq> [])"

section \<open>google-calendar-facade.ts and google-tasks-facade.ts\<close>

text \<open>
  The facades are built on an API object given to the constructor (the tests give a
  mock), so the model takes the operations of the API as a record of state transformers
  on the state \<open>'w\<close> of that object.
\<close>

record 'w calendar_api =
  api_getEventsAndTasksForDateRange :: "string \<Rightarrow> string \<Rightarrow> 'w \<Rightarrow> (js_error + json) \<times> 'w"
  api_getEventsAndTasksForDate :: "string \<Rightarrow> 'w \<Rightarrow> (js_error + json) \<times> 'w"
  api_createEvent :: "json \<Rightarrow> string \<Rightarrow> 'w \<Rightarrow> (js_error + json) \<times> 'w"
  api_updateEvent :: "string \<Rightarrow> json \<Rightarrow> string \<Rightarrow> 'w \<Rightarrow> (js_error + json) \<times> 'w"
  api_deleteEvent :: "string \<Rightarrow> string \<Rightarrow> 'w \<Rightarrow> (js_error + json) \<times> 'w"
  api_createTask :: "json \<Rightarrow> string \<Rightarrow> 'w \<Rightarrow> (js_error + json) \<times> 'w"
  api_updateTask :: "string \<Rightarrow> json \<Rightarrow> string \<Rightarrow> 'w \<Rightarrow> (js_error + json) \<times> 'w"
  api_deleteTask :: "string \<Rightarrow> string \<Rightarrow> 'w \<Rightarrow> (js_error + json) \<times> 'w"

definition GoogleCalendarAPI :: "js_runtime \<Rightarrow> http_server \<Rightarrow> api_state calendar_api" where
  "GoogleCalendarAPI rt srv =
     \<lparr>api_getEventsAndTasksForDateRange = getEventsAndTasksForDateRange rt srv,
      api_getEventsAndTasksForDate = getEventsAndTasksForDate rt srv,
      api_createEvent = createEvent rt srv,
      api_updateEvent = updateEvent rt srv,
      api_deleteEvent = deleteEvent rt srv,
      api_createTask = createTask rt srv,
      api_updateTask = updateTask rt srv,
      api_deleteTask = deleteTask rt srv\<rparr>"

text \<open>
  The state of a facade: whether an API object was given, \<open>_isReady\<close>, and the cache.
  \<open>_isInitializing\<close> is false whenever a method is entered by a single caller, so it is
  left out, and with it the polling of \<open>waitForReady\<close>.
\<close>

record cache_entry =
  data :: "json list"
  timestamp :: int

record facade_state =
  hasApi :: bool
  isReady :: bool
  cache :: "string \<rightharpoonup> cache_entry"

definition CACHE_TTL :: int where
  "CACHE_TTL = 60000"

definition initialize :: "string \<Rightarrow> facade_state \<Rightarrow> (js_error + unit) \<times> facade_state" where
  "initialize serviceName fs =
     (if isReady fs then (Inr (), fs)
      else if \<not> hasApi fs then
        (Inl (ServiceError ''Google Calendar API not provided'' serviceName None),
         fs\<lparr>isReady := False\<rparr>)
      else (Inr (), fs\<lparr>isReady := True\<rparr>))"

definition ensureReady :: "string \<Rightarrow> facade_state \<Rightarrow> (js_error + unit) \<times> facade_state" where
  "ensureReady serviceName fs =
     (if \<not> isReady fs then initialize serviceName fs else (Inr (), fs))"

definition clearCache :: "facade_state \<Rightarrow> facade_state" where
  "clearCache fs = fs\<lparr>cache := Map.empty\<rparr>"

text \<open>\<open>now\<close> is the value of \<open>Date.now()\<close> at the call.\<close>

definition getFromCache ::
  "int \<Rightarrow> string \<Rightarrow> facade_state \<Rightarrow> json list option \<times> facade_state" where
  "getFromCache now key fs =
     (case cache fs key of
        None \<Rightarrow> (None, fs)
      | Some cached \<Rightarrow>
          if now - timestamp cached > CACHE_TTL
          then (None, fs\<lparr>cache := (cache fs)(key := None)\<rparr>)
          else (Some (data cached), fs))"

definition setCache :: "int \<Rightarrow> string \<Rightarrow> json list \<Rightarrow> facade_state \<Rightarrow> facade_state" where
  "setCache now key d fs = fs\<lparr>cache := (cache fs)(key \<mapsto> \<lparr>data = d, timestamp = now\<rparr>)\<rparr>"

text \<open>\<open>s || d\<close> and the truth value of an optional string.\<close>

definition strOr :: "string option \<Rightarrow> string \<Rightarrow> string" where
  "strOr s d = (case s of None \<Rightarrow> d | Some v \<Rightarrow> if v = [] then d else v)"

definition present :: "string option \<Rightarrow> bool" where
  "present s = (case s of None \<Rightarrow> False | Some v \<Rightarrow> v \<noteq> [])"

text \<open>
  A facade method returns what it returned or threw, the number of invocations of the
  API made on the way, the state of the facade and the state of the API object.

  The create, update and delete methods of both facades have one body: after
  \<open>ensureReady\<close>, inside the \<open>try\<close>, the request object is built from the argument, the
  API is called through \<open>withRetry\<close>, the cache is cleared and the result is transformed;
  the \<open>catch\<close> wraps an error of any of these steps into a \<open>ServiceError\<close>.
\<close>

definition mutate ::
  "string \<Rightarrow> string \<Rightarrow> (json \<Rightarrow> js_error + json) \<Rightarrow> RetryConfig \<Rightarrow> (nat \<Rightarrow> real) \<Rightarrow>
     (js_error + json) \<Rightarrow> (json \<Rightarrow> 'w \<Rightarrow> (js_error + json) \<times> 'w) \<Rightarrow>
     facade_state \<times> 'w \<Rightarrow> (js_error + json) \<times> nat \<times> facade_state \<times> 'w" where
  "mutate serviceName failure transform retryConfig rnd request call fw =
     (case fw of (fs, w) \<Rightarrow>
      (case ensureReady serviceName fs of
         (Inl error, fs1) \<Rightarrow> (Inl error, 0, fs1, w)
       | (Inr u, fs1) \<Rightarrow>
           (case request of
              Inl error \<Rightarrow>
                (Inl (ServiceError failure serviceName (instanceofError error)), 0, fs1, w)
            | Inr apiObject \<Rightarrow>
                let r = withRetry rnd (call apiObject) retryConfig w
                in (case outcome r of
                      Inl error \<Rightarrow>
                        (Inl (ServiceError failure serviceName (instanceofError error)),
                         calls r, fs1, final r)
                    | Inr result \<Rightarrow>
                        (case transform result of
                           Inl error \<Rightarrow>
                             (Inl (ServiceError failure serviceName (instanceofError error)),
                              calls r, clearCache fs1, final r)
                         | Inr v \<Rightarrow> (Inr v, calls r, clearCache fs1, final r))))))"

text \<open>The object literal \<open>{k: v.k, ...}\<close>; reading from \<open>null\<close> or \<open>undefined\<close> throws.\<close>

definition pick :: "string list \<Rightarrow> json \<Rightarrow> js_error + json" where
  "pick keys v =
     (if nullish v then Inl TypeError else Inr (JObj (map (\<lambda>k. (k, readProp v k)) keys)))"

subsection \<open>GoogleCalendarFacade\<close>

record FetchEventsOptions =
  startDate :: string
  endDate :: string
  maxResults :: "int option"
  calendarId :: "string option"

definition getCacheKey :: "FetchEventsOptions \<Rightarrow> string" where
  "getCacheKey options =
     startDate options @ ''-'' @ endDate options @ ''-'' @ strOr (calendarId options) ''primary''"

definition transformEvent :: "json \<Rightarrow> js_error + json" where
  "transformEvent event =
     (if nullish event then Inl TypeError
      else Inr (JObj
        [(''id'', orElse (readProp event ''id'') (JStr [])),
         (''summary'', orElse (readProp event ''summary'') (JStr ''Untitled'')),
         (''description'', readProp event ''description''),
         (''start'', orElse (readProp event ''start'') (JObj [])),
         (''end'', orElse (readProp event ''end'') (JObj [])),
         (''location'', readProp event ''location''),
         (''attendees'', readProp event ''attendees''),
         (''recurrence'', readProp event ''recurrence''),
         (''status'', readProp event ''status'')]))"

text \<open>\<open>events.map(...)\<close> throws a TypeError when \<open>events\<close> is not an array.\<close>

definition transformEvents :: "json \<Rightarrow> js_error + json list" where
  "transformEvents events =
     (case events of JArr xs \<Rightarrow> mapE transformEvent xs | _ \<Rightarrow> Inl TypeError)"

text \<open>
  \<open>tLookup\<close> and \<open>tStore\<close> are the values of \<open>Date.now()\<close> in \<open>getFromCache\<close> and in
  \<open>setCache\<close>.
\<close>

definition fetchEvents ::
  "'w calendar_api \<Rightarrow> RetryConfig \<Rightarrow> (nat \<Rightarrow> real) \<Rightarrow> FetchEventsOptions \<Rightarrow> int \<Rightarrow> int \<Rightarrow>
     facade_state \<times> 'w \<Rightarrow> (js_error + json list) \<times> nat \<times> facade_state \<times> 'w" where
  "fetchEvents api retryConfig rnd options tLookup tStore fw =
     (case fw of (fs, w) \<Rightarrow>
      (case ensureReady ''GoogleCalendarFacade'' fs of
         (Inl error, fs1) \<Rightarrow> (Inl error, 0, fs1, w)
       | (Inr u, fs1) \<Rightarrow>
           (case getFromCache tLookup (getCacheKey options) fs1 of
              (Some cached, fs2) \<Rightarrow> (Inr cached, 0, fs2, w)
            | (None, fs2) \<Rightarrow>
                let r = withRetry rnd
                          (api_getEventsAndTasksForDateRange api (startDate options)
                             (endDate options))
                          retryConfig w
                in (case outcome r of
                      Inl error \<Rightarrow>
                        (Inl (ServiceError ''Failed to fetch events'' ''GoogleCalendarFacade''
                                (instanceofError error)),
                         calls r, fs2, final r)
                    | Inr result \<Rightarrow>
                        (case transformEvents
                                (orElse (optProp (optProp result ''events'') ''items'') (JArr [])) of
                           Inl error \<Rightarrow>
                             (Inl (ServiceError ''Failed to fetch events'' ''GoogleCalendarFacade''
                                     (instanceofError error)),
                              calls r, fs2, final r)
                         | Inr events \<Rightarrow>
                             (Inr events, calls r,
                              setCache tStore (getCacheKey options) events fs2, final r))))))"

text \<open>The \<open>apiEvent\<close> objects built by \<open>createEvent\<close> and \<open>updateEvent\<close>.\<close>

definition createEventBody :: "json \<Rightarrow> js_error + json" where
  "createEventBody event =
     pick [''summary'', ''description'', ''start'', ''end'', ''location'', ''attendees'',
           ''recurrence''] event"

definition updateEventBody :: "json \<Rightarrow> js_error + json" where
  "updateEventBody updates =
     pick [''summary'', ''description'', ''start'', ''end'', ''location'', ''attendees'',
           ''recurrence'', ''status''] updates"

definition facadeCreateEvent ::
  "'w calendar_api \<Rightarrow> RetryConfig \<Rightarrow> (nat \<Rightarrow> real) \<Rightarrow> json \<Rightarrow> string \<Rightarrow>
     facade_state \<times> 'w \<Rightarrow> (js_error + json) \<times> nat \<times> facade_state \<times> 'w" where
  "facadeCreateEvent api retryConfig rnd event calId =
     mutate ''GoogleCalendarFacade'' ''Failed to create event'' transformEvent retryConfig rnd
       (createEventBody event)
       (\<lambda>apiEvent. api_createEvent api apiEvent calId)"

definition facadeUpdateEvent ::
  "'w calendar_api \<Rightarrow> RetryConfig \<Rightarrow> (nat \<Rightarrow> real) \<Rightarrow> string \<Rightarrow> json \<Rightarrow> string \<Rightarrow>
     facade_state \<times> 'w \<Rightarrow> (js_error + json) \<times> nat \<times> facade_state \<times> 'w" where
  "facadeUpdateEvent api retryConfig rnd eventId updates calId =
     mutate ''GoogleCalendarFacade'' ''Failed to update event'' transformEvent retryConfig rnd
       (updateEventBody updates)
       (\<lambda>apiEvent. api_updateEvent api eventId apiEvent calId)"

definition facadeDeleteEvent ::
  "'w calendar_api \<Rightarrow> RetryConfig \<Rightarrow> (nat \<Rightarrow> real) \<Rightarrow> string \<Rightarrow> string \<Rightarrow>
     facade_state \<times> 'w \<Rightarrow> (js_error + json) \<times> nat \<times> facade_state \<times> 'w" where
  "facadeDeleteEvent api retryConfig rnd eventId calId =
     mutate ''GoogleCalendarFacade'' ''Failed to delete event'' (\<lambda>result. Inr JUndefined)
       retryConfig rnd (Inr JUndefined) (\<lambda>none. api_deleteEvent api eventId calId)"

subsection \<open>GoogleTasksFacade\<close>

record FetchTasksOptions =
  t_startDate :: "string option"
  t_endDate :: "string option"
  t_showCompleted :: "bool option"
  t_maxResults :: "int option"
  taskListId :: "string option"

definition getTasksCacheKey :: "FetchTasksOptions \<Rightarrow> string" where
  "getTasksCacheKey options =
     strOr (t_startDate options) ''all'' @ ''-'' @ strOr (t_endDate options) ''all'' @ ''-'' @
       strOr (taskListId options) ''default''"

definition transformTask :: "json \<Rightarrow> js_error + json" where
  "transformTask task =
     (if nullish task then Inl TypeError
      else Inr (JObj
        [(''id'', orElse (readProp task ''id'') (JStr [])),
         (''title'', orElse (readProp task ''title'') (JStr ''Untitled'')),
         (''notes'', readProp task ''notes''),
         (''status'', orElse (readProp task ''status'') (JStr ''needsAction'')),
         (''due'', readProp task ''due''),
         (''completed'', readProp task ''completed''),
         (''parent'', readProp task ''parent''),
         (''position'', readProp task ''position''),
         (''links'', readProp task ''links'')]))"

definition transformTasks :: "json \<Rightarrow> js_error + json list" where
  "transformTasks tasks =
     (case tasks of JArr xs \<Rightarrow> mapE transformTask xs | _ \<Rightarrow> Inl TypeError)"

text \<open>
  The three branches of \<open>fetchTasks\<close>: both dates, a start date only, and neither (or an
  end date only), where the source has a TODO and no call of the API. The first two
  have the same continuation, \<open>fetchedTasks\<close>.
\<close>

definition fetchedTasks ::
  "int \<Rightarrow> string \<Rightarrow> facade_state \<Rightarrow> (json, 'w) retry_result \<Rightarrow>
     (js_error + json list) \<times> nat \<times> facade_state \<times> 'w" where
  "fetchedTasks tStore cacheKey fs r =
     (case outcome r of
        Inl error \<Rightarrow>
          (Inl (ServiceError ''Failed to fetch tasks'' ''GoogleTasksFacade'' (instanceofError error)),
           calls r, fs, final r)
      | Inr result \<Rightarrow>
          (case transformTasks (orElse (optProp (optProp result ''tasks'') ''items'') (JArr [])) of
             Inl error \<Rightarrow>
               (Inl (ServiceError ''Failed to fetch tasks'' ''GoogleTasksFacade''
                       (instanceofError error)),
                calls r, fs, final r)
           | Inr tasks \<Rightarrow> (Inr tasks, calls r, setCache tStore cacheKey tasks fs, final r)))"

definition fetchTasks ::
  "'w calendar_api \<Rightarrow> RetryConfig \<Rightarrow> (nat \<Rightarrow> real) \<Rightarrow> FetchTasksOptions \<Rightarrow> int \<Rightarrow> int \<Rightarrow>
     facade_state \<times> 'w \<Rightarrow> (js_error + json list) \<times> nat \<times> facade_state \<times> 'w" where
  "fetchTasks api retryConfig rnd options tLookup tStore fw =
     (case fw of (fs, w) \<Rightarrow>
      (case ensureReady ''GoogleTasksFacade'' fs of
         (Inl error, fs1) \<Rightarrow> (Inl error, 0, fs1, w)
       | (Inr u, fs1) \<Rightarrow>
           (case getFromCache tLookup (getTasksCacheKey options) fs1 of
              (Some cached, fs2) \<Rightarrow> (Inr cached, 0, fs2, w)
            | (None, fs2) \<Rightarrow>
                if present (t_startDate options) \<and> present (t_endDate options) then
                  fetchedTasks tStore (getTasksCacheKey options) fs2
                    (withRetry rnd
                       (api_getEventsAndTasksForDateRange api (the (t_startDate options))
                          (the (t_endDate options)))
                       retryConfig w)
                else if present (t_startDate options) then
                  fetchedTasks tStore (getTasksCacheKey options) fs2
                    (withRetry rnd (api_getEventsAndTasksForDate api (the (t_startDate options)))
                       retryConfig w)
                else (Inr [], 0, setCache tStore (getTasksCacheKey options) [] fs2, w))))"

text \<open>The \<open>apiTask\<close> objects built by \<open>createTask\<close> and \<open>updateTask\<close>.\<close>

definition createTaskBody :: "json \<Rightarrow> js_error + json" where
  "createTaskBody task = pick [''title'', ''notes'', ''status'', ''due''] task"

definition updateTaskBody :: "json \<Rightarrow> js_error + json" where
  "updateTaskBody updates = pick [''title'', ''notes'', ''status'', ''due'', ''completed''] updates"

definition facadeCreateTask ::
  "'w calendar_api \<Rightarrow> RetryConfig \<Rightarrow> (nat \<Rightarrow> real) \<Rightarrow> json \<Rightarrow> string \<Rightarrow>
     facade_state \<times> 'w \<Rightarrow> (js_error + json) \<times> nat \<times> facade_state \<times> 'w" where
  "facadeCreateTask api retryConfig rnd task listId =
     mutate ''GoogleTasksFacade'' ''Failed to create task'' transformTask retryConfig rnd
       (createTaskBody task)
       (\<lambda>apiTask. api_createTask api apiTask listId)"

definition facadeUpdateTask ::
  "'w calendar_api \<Rightarrow> RetryConfig \<Rightarrow> (nat \<Rightarrow> real) \<Rightarrow> string \<Rightarrow> json \<Rightarrow> string \<Rightarrow>
     facade_state \<times> 'w \<Rightarrow> (js_error + json) \<times> nat \<times> facade_state \<times> 'w" where
  "facadeUpdateTask api retryConfig rnd taskId updates listId =
     mutate ''GoogleTasksFacade'' ''Failed to update task'' transformTask retryConfig rnd
       (updateTaskBody updates)
       (\<lambda>apiTask. api_updateTask api taskId apiTask listId)"

definition facadeDeleteTask ::
  "'w calendar_api \<Rightarrow> RetryConfig \<Rightarrow> (nat \<Rightarrow> real) \<Rightarrow> string \<Rightarrow> string \<Rightarrow>
     facade_state \<times> 'w \<Rightarrow> (js_error + json) \<times> nat \<times> facade_state \<times> 'w" where
  "facadeDeleteTask api retryConfig rnd taskId listId =
     mutate ''GoogleTasksFacade'' ''Failed to delete task'' (\<lambda>result. Inr JUndefined)
       retryConfig rnd (Inr JUndefined) (\<lambda>none. api_deleteTask api taskId listId)"

text \<open>\<open>nowIso\<close> is \<open>new Date().toISOString()\<close> at the call.\<close>

definition facadeCompleteTask ::
  "'w calendar_api \<Rightarrow> RetryConfig \<Rightarrow> (nat \<Rightarrow> real) \<Rightarrow> string \<Rightarrow> string \<Rightarrow>
     facade_state \<times> 'w \<Rightarrow> (js_error + json) \<times> nat \<times> facade_state \<times> 'w" where
  "facadeCompleteTask api retryConfig rnd taskId nowIso =
     facadeUpdateTask api retryConfig rnd taskId
       (JObj [(''status'', JStr ''completed''), (''completed'', JStr nowIso)]) ''@default''"

section \<open>oauth-server.ts: OAuthServer\<close>

record OAuthCredentials =
  oauthClientId :: string
  oauthClientSecret :: string

text \<open>The state of the promise that \<open>startOAuthFlow\<close> returns.\<close>

datatype settlement = Pending | Resolved json | Rejected js_error

text \<open>
  An \<open>http.Server\<close> object is named by the number of the flow that created it. The state
  holds the field \<open>this.server\<close>, the server that is bound to the port (if any), the
  servers on which \<open>close()\<close> has been called (in order), the promise of every flow, the
  number of flows started, the status codes of the pages sent to the browser, and the
  HTTP requests sent to the token endpoint.
\<close>

record oauth_state =
  server :: "nat option"
  listening :: "nat option"
  closeCalls :: "nat list"
  promises :: "nat \<rightharpoonup> settlement"
  started :: nat
  pages :: "int list"
  exchanges :: "http_request list"

text \<open>
  A request received by the listener: \<open>req.url\<close>, and the path and the query that
  \<open>url.parse(req.url, true)\<close> finds in it.
\<close>

record incoming_message =
  req_url :: string
  pathname :: string
  query :: "(string \<times> json) list"

definition closeServer :: "oauth_state \<Rightarrow> oauth_state" where
  "closeServer st =
     (case server st of
        None \<Rightarrow> st
      | Some h \<Rightarrow>
          st\<lparr>closeCalls := closeCalls st @ [h],
             listening := (if listening st = Some h then None else listening st),
             server := None\<rparr>)"

text \<open>\<open>resolve\<close> and \<open>reject\<close> of the promise of flow \<open>h\<close>: only the first call settles it.\<close>

definition settle :: "nat \<Rightarrow> settlement \<Rightarrow> oauth_state \<Rightarrow> oauth_state" where
  "settle h v st =
     (if promises st h = Some Pending then st\<lparr>promises := (promises st)(h \<mapsto> v)\<rparr> else st)"

definition exchangeRequest :: "js_runtime \<Rightarrow> OAuthCredentials \<Rightarrow> json \<Rightarrow> http_request" where
  "exchangeRequest rt c code =
     \<lparr>url = ''https://oauth2.googleapis.com/token'', httpMethod = ''POST'',
      headers = [(''Content-Type'', ''application/x-www-form-urlencoded'')],
      body = FormBody (searchParams rt
        [(''code'', toStr rt code), (''client_id'', oauthClientId c),
         (''client_secret'', oauthClientSecret c),
         (''redirect_uri'', ''http://localhost:8080/callback''),
         (''grant_type'', ''authorization_code'')])\<rparr>"

definition exchangeCodeForTokens ::
  "js_runtime \<Rightarrow> http_server \<Rightarrow> OAuthCredentials \<Rightarrow> json \<Rightarrow> oauth_state \<Rightarrow>
     (js_error + json) \<times> oauth_state" where
  "exchangeCodeForTokens rt srv c code st =
     (srv (exchanges st) (exchangeRequest rt c code),
      st\<lparr>exchanges := exchanges st @ [exchangeRequest rt c code]\<rparr>)"

text \<open>
  \<open>handleCallback\<close> in the server of flow \<open>h\<close>; the exchange of the code is run to its
  end, and its result settles the promise.
\<close>

definition handleCallback ::
  "js_runtime \<Rightarrow> http_server \<Rightarrow> OAuthCredentials \<Rightarrow> nat \<Rightarrow> incoming_message \<Rightarrow>
     oauth_state \<Rightarrow> oauth_state" where
  "handleCallback rt srv c h req st =
     (if req_url req = [] then st
      else
        let code = (case map_of (query req) ''code'' of None \<Rightarrow> JUndefined | Some v \<Rightarrow> v);
            error = (case map_of (query req) ''error'' of None \<Rightarrow> JUndefined | Some v \<Rightarrow> v)
        in if truthy error then
             settle h (Rejected (JsError (''Authorization failed: '' @ toStr rt error) None))
               (closeServer (st\<lparr>pages := pages st @ [400]\<rparr>))
           else if truthy code then
             (case exchangeCodeForTokens rt srv c code
                     (closeServer (st\<lparr>pages := pages st @ [200]\<rparr>)) of
                (Inr tokens, st1) \<Rightarrow> settle h (Resolved tokens) st1
              | (Inl err, st1) \<Rightarrow> settle h (Rejected err) st1)
           else
             settle h (Rejected (JsError ''No authorization code received'' None))
               (closeServer (st\<lparr>pages := pages st @ [400]\<rparr>)))"

text \<open>The request listener given to \<open>http.createServer\<close>.\<close>

definition requestListener ::
  "js_runtime \<Rightarrow> http_server \<Rightarrow> OAuthCredentials \<Rightarrow> nat \<Rightarrow> incoming_message \<Rightarrow>
     oauth_state \<Rightarrow> oauth_state" where
  "requestListener rt srv c h req st =
     (if req_url req \<noteq> [] \<and> pathname req = ''/callback'' then handleCallback rt srv c h req st
      else st)"

text \<open>
  \<open>startOAuthFlow\<close> creates the server, stores it in \<open>this.server\<close> and calls \<open>listen\<close>;
  when the port is taken, the \<open>error\<close> handler calls \<open>closeServer\<close> and throws, and the
  promise stays pending.
\<close>

definition startOAuthFlow :: "oauth_state \<Rightarrow> oauth_state" where
  "startOAuthFlow st =
     (let h = started st;
          st1 = st\<lparr>server := Some h, started := Suc h, promises := (promises st)(h \<mapsto> Pending)\<rparr>
      in if listening st1 = None then st1\<lparr>listening := Some h\<rparr> else closeServer st1)"

definition settled :: "oauth_state \<Rightarrow> nat \<Rightarrow> bool" where
  "settled st h = (case promises st h of Some (Resolved v) \<Rightarrow> True | Some (Rejected e) \<Rightarrow> True
                   | _ \<Rightarrow> False)"

text \<open>
  What the date filter is claimed to keep: a task without \<open>due\<close>, or one whose due instant
  lies between \<open>lo\<close> and \<open>hi\<close>, both included.
\<close>

abbreviation dueWithin :: "js_runtime \<Rightarrow> int option \<Rightarrow> int option \<Rightarrow> json \<Rightarrow> bool" where
  "dueWithin rt lo hi task \<equiv>
     \<not> truthy (readProp task ''due'') \<or>
     (dateLe lo (parseDate rt (readProp task ''due'')) \<and>
      dateLe (parseDate rt (readProp task ''due'')) hi)"

text \<open>
  The two states of a single flow \<open>h\<close>, started when the servers in \<open>closed0\<close> had been
  closed: waiting for the callback with the listener bound, or settled with the
  listener closed once and the port free.
\<close>

definition flowState :: "nat list \<Rightarrow> nat \<Rightarrow> oauth_state \<Rightarrow> bool" where
  "flowState closed0 h s =
     (started s = Suc h \<and>
      (promises s h = Some Pending \<and> server s = Some h \<and> listening s = Some h \<and>
         closeCalls s = closed0
       \<or> settled s h \<and> server s = None \<and> listening s = None \<and>
         closeCalls s = closed0 @ [h]))"

definition isCallback :: "incoming_message \<Rightarrow> bool" where
  "isCallback req = (req_url req \<noteq> [] \<and> pathname req = ''/callback'')"

text \<open>The requests that reach the server of flow \<open>h\<close>, in order.\<close>

definition deliver ::
  "js_runtime \<Rightarrow> http_server \<Rightarrow> OAuthCredentials \<Rightarrow> nat \<Rightarrow> incoming_message list \<Rightarrow>
     oauth_state \<Rightarrow> oauth_state" where
  "deliver rt srv c h reqs st = foldl (\<lambda>s req. requestListener rt srv c h req s) st reqs"

text \<open>The \<open>code\<close> and \<open>error\<close> parameters that \<open>handleCallback\<close> reads from the query.\<close>

definition queryParam :: "incoming_message \<Rightarrow> string \<Rightarrow> json" where
  "queryParam req k = (case map_of (query req) k of None \<Rightarrow> JUndefined | Some v \<Rightarrow> v)"

section \<open>Example inputs\<close>

text \<open>
  A runtime in the UTC time zone that knows the date strings of the examples, a client
  state, and three servers: one that answers 401 to every API request and rejects the
  refresh, one that accepts the refreshed access token only and rotates the refresh
  token, and one with a single task list of five tasks and one event on 2024-01-10.
\<close>

fun joinParams :: "(string \<times> string) list \<Rightarrow> string" where
  "joinParams [] = []"
| "joinParams [(k, v)] = k @ ''='' @ v"
| "joinParams ((k, v) # kv # kvs) = k @ ''='' @ v @ ''&'' @ joinParams (kv # kvs)"

definition exampleDates :: "(string \<times> int) list" where
  "exampleDates =
     [(''2024-01-09T00:00:00.000Z'', 1704758400000),
      (''2024-01-10'', 1704844800000),
      (''2024-01-10T00:00:00.000Z'', 1704844800000),
      (''2024-01-10T23:59:59.999Z'', 1704931199999),
      (''2024-01-11T00:00:00.000Z'', 1704931200000)]"

definition exampleRuntime :: js_runtime where
  "exampleRuntime =
     \<lparr>parseDate = (\<lambda>v. case v of JNum n \<Rightarrow> Some n | JStr s \<Rightarrow> map_of exampleDates s | _ \<Rightarrow> None),
      startOfDay = (\<lambda>t. t - t mod 86400000),
      endOfDay = (\<lambda>t. t - t mod 86400000 + 86399999),
      minusDays = (\<lambda>t n. t - n * 86400000),
      toISOString = (\<lambda>t. case map_of (map (\<lambda>(s, t). (t, s)) exampleDates) t of
                           None \<Rightarrow> ''?'' | Some s \<Rightarrow> s),
      toStr = (\<lambda>v. case v of JStr s \<Rightarrow> s | _ \<Rightarrow> ''?''),
      searchParams = joinParams\<rparr>"

definition exampleCredentials :: "json \<Rightarrow> json \<Rightarrow> GoogleCalendarCredentials" where
  "exampleCredentials a r =
     \<lparr>clientId = ''client-id'', clientSecret = ''client-secret'', accessToken = a,
      refreshToken = r\<rparr>"

definition exampleState :: "json \<Rightarrow> json \<Rightarrow> api_state" where
  "exampleState a r =
     \<lparr>credentials = exampleCredentials a r, onTokensUpdated = Some (\<lambda>tokens. None),
      requests = [], tokenUpdates = []\<rparr>"

definition rejectingServer :: http_server where
  "rejectingServer sent req =
     (if url req = ''https://oauth2.googleapis.com/token''
      then Inl (JsError ''invalid_grant'' (Some 400))
      else Inl (JsError ''Unauthorized'' (Some 401)))"

definition rotatingServer :: http_server where
  "rotatingServer sent req =
     (if url req = ''https://oauth2.googleapis.com/token''
      then Inr (JObj [(''access_token'', JStr ''new-access''), (''refresh_token'', JStr ''rotated'')])
      else if headers req = [(''Authorization'', ''Bearer new-access''),
                             (''Content-Type'', ''application/json'')]
      then Inr (JObj [(''items'', JArr [])])
      else Inl (JsError ''Unauthorized'' (Some 401)))"

definition exampleTasks :: "json list" where
  "exampleTasks =
     [JObj [(''id'', JStr ''no-due'')],
      JObj [(''id'', JStr ''day-before''), (''due'', JStr ''2024-01-09T00:00:00.000Z'')],
      JObj [(''id'', JStr ''first-instant''), (''due'', JStr ''2024-01-10T00:00:00.000Z'')],
      JObj [(''id'', JStr ''last-instant''), (''due'', JStr ''2024-01-10T23:59:59.999Z'')],
      JObj [(''id'', JStr ''day-after''), (''due'', JStr ''2024-01-11T00:00:00.000Z'')]]"

definition googleServer :: http_server where
  "googleServer sent req =
     (if url req = taskListsUrl then Inr (JObj [(''items'', JArr [JObj [(''id'', JStr ''list1'')]])])
      else if url req = tasksUrl exampleRuntime (JStr ''list1'')
      then Inr (JObj [(''items'', JArr exampleTasks)])
      else if url req = eventsUrl exampleRuntime 1704844800000 1704931199999
      then Inr (JObj [(''items'', JArr [JObj [(''id'', JStr ''e1''), (''summary'', JStr ''Standup'')]])])
      else Inl (JsError ''Not Found'' (Some 404)))"

text \<open>
  The retry configuration that the constructors of the facades use by default, a facade
  just constructed, and options for the examples.
\<close>

definition defaultFacadeRetryConfig :: RetryConfig where
  "defaultFacadeRetryConfig =
     \<lparr>cfg_maxRetries = Some 3, cfg_initialDelay = Some 1000, cfg_backoffMultiplier = Some 2,
      cfg_maxDelay = Some 30000, cfg_useJitter = Some True, cfg_isRetryable = None\<rparr>"

definition newFacade :: facade_state where
  "newFacade = \<lparr>hasApi = True, isReady = False, cache = Map.empty\<rparr>"

definition noDates :: FetchTasksOptions where
  "noDates = \<lparr>t_startDate = None, t_endDate = None, t_showCompleted = None,
              t_maxResults = None, taskListId = None\<rparr>"

definition tenthOfJanuary :: FetchEventsOptions where
  "tenthOfJanuary = \<lparr>startDate = ''2024-01-10'', endDate = ''2024-01-10'', maxResults = None,
                     calendarId = None\<rparr>"

definition tasksOfTenthOfJanuary :: FetchTasksOptions where
  "tasksOfTenthOfJanuary =
     \<lparr>t_startDate = Some ''2024-01-10'', t_endDate = Some ''2024-01-10'', t_showCompleted = None,
      t_maxResults = None, taskListId = None\<rparr>"


text \<open>
  A server that accepts every request and answers with a new object, a server that is
  unavailable, and a facade that is ready and holds a cached entry stored at time 0 for
  each of the two keys of the examples.
\<close>

definition newOAuthServer :: oauth_state where
  "newOAuthServer =
     \<lparr>server = None, listening = None, closeCalls = [], promises = Map.empty, started = 0,
      pages = [], exchanges = []\<rparr>"

definition exampleOAuthCredentials :: OAuthCredentials where
  "exampleOAuthCredentials = \<lparr>oauthClientId = ''client-id'', oauthClientSecret = ''client-secret''\<rparr>"

definition browserRequests :: "incoming_message list" where
  "browserRequests =
     [\<lparr>req_url = ''/favicon.ico'', pathname = ''/favicon.ico'', query = []\<rparr>,
      \<lparr>req_url = ''/callback?code=abc'', pathname = ''/callback'', query = [(''code'', JStr ''abc'')]\<rparr>,
      \<lparr>req_url = ''/callback?code=abc'', pathname = ''/callback'', query = [(''code'', JStr ''abc'')]\<rparr>]"

definition acceptingServer :: http_server where
  "acceptingServer sent req = Inr (JObj [(''id'', JStr ''created'')])"

definition unavailableServer :: http_server where
  "unavailableServer sent req = Inl (JsError ''Request failed, status 503'' (Some 503))"

definition warmFacade :: facade_state where
  "warmFacade =
     \<lparr>hasApi = True, isReady = True,
      cache = [getCacheKey tenthOfJanuary \<mapsto> \<lparr>data = [JStr ''cached''], timestamp = 0\<rparr>,
               getTasksCacheKey tasksOfTenthOfJanuary \<mapsto>
                 \<lparr>data = [JStr ''cached''], timestamp = 0\<rparr>]\<rparr>"

section \<open>Properties of withRetry\<close>

declare withRetry_loop.simps [simp del]

lemma loop_exit:
  "\<not> attempt \<le> maxRetries cfg \<Longrightarrow>
   withRetry_loop cfg rnd fn attempt le n ds s =
     \<lparr>outcome = Inl le, calls = n, delays = ds, final = s\<rparr>"
  by (subst withRetry_loop.simps) simp

lemma loop_return:
  "attempt \<le> maxRetries cfg \<Longrightarrow> fn s = (Inr v, s') \<Longrightarrow>
   withRetry_loop cfg rnd fn attempt le n ds s =
     \<lparr>outcome = Inr v, calls = Suc n, delays = ds, final = s'\<rparr>"
  by (subst withRetry_loop.simps) simp

lemma loop_throw:
  "attempt \<le> maxRetries cfg \<Longrightarrow> fn s = (Inl e, s') \<Longrightarrow>
   attempt \<ge> maxRetries cfg \<or> \<not> isRetryable cfg (toError e) \<Longrightarrow>
   withRetry_loop cfg rnd fn attempt le n ds s =
     \<lparr>outcome = Inl (toError e), calls = Suc n, delays = ds, final = s'\<rparr>"
  by (subst withRetry_loop.simps) auto

lemma loop_retry:
  "attempt < maxRetries cfg \<Longrightarrow> fn s = (Inl e, s') \<Longrightarrow> isRetryable cfg (toError e) \<Longrightarrow>
   withRetry_loop cfg rnd fn attempt le n ds s =
     withRetry_loop cfg rnd fn (attempt + 1) (toError e) (Suc n)
       (ds @ [if useJitter cfg
              then min (initialDelay cfg * backoffMultiplier cfg ^ nat attempt) (maxDelay cfg) *
                     (0.5 + rnd (length ds) * 0.5)
              else min (initialDelay cfg * backoffMultiplier cfg ^ nat attempt) (maxDelay cfg)]) s'"
  by (subst withRetry_loop.simps) (simp add: Let_def)

lemma loop_always_failing:
  assumes fail: "\<forall>s. \<exists>e. fst (fn s) = Inl e \<and> isRetryable cfg (toError e)"
  shows "k = nat (maxRetries cfg - attempt) \<Longrightarrow> attempt \<le> maxRetries cfg \<Longrightarrow>
     calls (withRetry_loop cfg rnd fn attempt le n ds s) = n + k + 1
   \<and> final (withRetry_loop cfg rnd fn attempt le n ds s) = ((snd \<circ> fn) ^^ (k + 1)) s
   \<and> (\<exists>e. fst (fn (((snd \<circ> fn) ^^ k) s)) = Inl e
          \<and> outcome (withRetry_loop cfg rnd fn attempt le n ds s) = Inl (toError e))"
proof (induction k arbitrary: attempt le n ds s)
  case 0
  then have eq: "attempt \<ge> maxRetries cfg" by simp
  obtain e where e: "fst (fn s) = Inl e" using fail by blast
  then obtain s' where fs: "fn s = (Inl e, s')" by (cases "fn s") auto
  have "withRetry_loop cfg rnd fn attempt le n ds s =
      \<lparr>outcome = Inl (toError e), calls = Suc n, delays = ds, final = s'\<rparr>"
    using "0.prems"(2) fs eq by (intro loop_throw) auto
  then show ?case using fs by simp
next
  case (Suc k)
  define f where "f = snd \<circ> fn"
  from Suc.prems have lt: "attempt < maxRetries cfg" by simp
  obtain e where e: "fst (fn s) = Inl e" "isRetryable cfg (toError e)" using fail by blast
  then obtain s' where fs: "fn s = (Inl e, s')" by (cases "fn s") auto
  have k: "k = nat (maxRetries cfg - (attempt + 1))" using Suc.prems by simp
  have le': "attempt + 1 \<le> maxRetries cfg" using lt by simp
  have s': "s' = f s" using fs by (simp add: f_def)
  have shift: "(f ^^ m) s' = (f ^^ Suc m) s" for m
    unfolding s' by (simp only: funpow_Suc_right o_apply)
  let ?d = "if useJitter cfg
              then min (initialDelay cfg * backoffMultiplier cfg ^ nat attempt) (maxDelay cfg) *
                     (0.5 + rnd (length ds) * 0.5)
              else min (initialDelay cfg * backoffMultiplier cfg ^ nat attempt) (maxDelay cfg)"
  let ?r = "withRetry_loop cfg rnd fn (attempt + 1) (toError e) (Suc n) (ds @ [?d]) s'"
  have unf: "withRetry_loop cfg rnd fn attempt le n ds s = ?r"
    using lt fs e(2) by (intro loop_retry) auto
  from Suc.IH [OF k le', of "toError e" "Suc n" "ds @ [?d]" s', folded f_def]
  have c: "calls ?r = Suc n + k + 1"
    and fi: "final ?r = (f ^^ (k + 1)) s'"
    and ex: "\<exists>e. fst (fn ((f ^^ k) s')) = Inl e \<and> outcome ?r = Inl (toError e)"
    by blast+
  have c': "calls ?r = n + Suc k + 1" using c by simp
  have fi': "final ?r = (f ^^ (Suc k + 1)) s" using fi shift [of "k + 1"] by (simp only: Suc_eq_plus1)
  have ex': "\<exists>e. fst (fn ((f ^^ Suc k) s)) = Inl e \<and> outcome ?r = Inl (toError e)"
    using ex by (simp only: shift)
  show ?case unfolding unf f_def [symmetric] using c' fi' ex' by blast
qed

lemma loop_delays:
  "attempt = int (length ds) \<Longrightarrow>
   (\<forall>i < length ds. ds ! i = D i) \<Longrightarrow>
   (\<And>i. D i = (if useJitter cfg
                then min (initialDelay cfg * backoffMultiplier cfg ^ i) (maxDelay cfg) *
                       (0.5 + rnd i * 0.5)
                else min (initialDelay cfg * backoffMultiplier cfg ^ i) (maxDelay cfg))) \<Longrightarrow>
   i < length (delays (withRetry_loop cfg rnd fn attempt le n ds s)) \<Longrightarrow>
   delays (withRetry_loop cfg rnd fn attempt le n ds s) ! i = D i"
proof (induction cfg rnd fn attempt le n ds s rule: withRetry_loop.induct)
  case (1 cfg rnd fn attempt lastError n ds s)
  show ?case
  proof (cases "attempt \<le> maxRetries cfg")
    case False
    then show ?thesis using "1.prems"(2,4) by (simp add: loop_exit)
  next
    case True
    obtain r s' where fs: "fn s = (r, s')" by (cases "fn s")
    show ?thesis
    proof (cases r)
      case (Inr v)
      then show ?thesis using "1.prems"(2,4) True fs by (simp add: loop_return)
    next
      case (Inl e)
      show ?thesis
      proof (cases "attempt \<ge> maxRetries cfg \<or> \<not> isRetryable cfg (toError e)")
        case stop: True
        have fs': "fn s = (Inl e, s')" using fs Inl by simp
        have "withRetry_loop cfg rnd fn attempt lastError n ds s =
            \<lparr>outcome = Inl (toError e), calls = Suc n, delays = ds, final = s'\<rparr>"
          using True fs' stop by (intro loop_throw) auto
        then show ?thesis using "1.prems"(2,4) by simp
      next
        case False
        let ?d = "if useJitter cfg
                        then min (initialDelay cfg * backoffMultiplier cfg ^ nat attempt)
                               (maxDelay cfg) * (0.5 + rnd (length ds) * 0.5)
                        else min (initialDelay cfg * backoffMultiplier cfg ^ nat attempt)
                               (maxDelay cfg)"
        have fs': "fn s = (Inl e, s')" using fs Inl by simp
        have unf: "withRetry_loop cfg rnd fn attempt lastError n ds s =
            withRetry_loop cfg rnd fn (attempt + 1) (toError e) (Suc n) (ds @ [?d]) s'"
          using False fs' by (intro loop_retry) auto
        have a: "attempt + 1 = int (length (ds @ [?d]))" using "1.prems"(1) by simp
        have dd: "?d = D (length ds)" using "1.prems"(1) by (simp add: "1.prems"(3))
        have b: "\<forall>i<length (ds @ [?d]). (ds @ [?d]) ! i = D i"
          using "1.prems"(2) dd by (auto simp: nth_append less_Suc_eq)
        have c: "i < length (delays (withRetry_loop cfg rnd fn (attempt + 1) (toError e) (Suc n) (ds @ [?d]) s'))"
          using "1.prems"(4) unf by simp
        have "delays (withRetry_loop cfg rnd fn (attempt + 1) (toError e) (Suc n) (ds @ [?d]) s') ! i = D i"
          by (rule "1.IH" [of r s' e]) (use True fs Inl False a b c "1.prems"(3) in auto)
        then show ?thesis using unf by simp
      qed
    qed
  qed
qed

lemma loop_length_delays:
  "n = length ds \<Longrightarrow> attempt \<le> maxRetries cfg \<or> n = 0 \<Longrightarrow>
   length (delays (withRetry_loop cfg rnd fn attempt le n ds s))
     = calls (withRetry_loop cfg rnd fn attempt le n ds s) - 1"
proof (induction cfg rnd fn attempt le n ds s rule: withRetry_loop.induct)
  case (1 cfg rnd fn attempt lastError n ds s)
  show ?case
  proof (cases "attempt \<le> maxRetries cfg")
    case False
    then show ?thesis using "1.prems" by (simp add: loop_exit)
  next
    case True
    obtain r s' where fs: "fn s = (r, s')" by (cases "fn s")
    show ?thesis
    proof (cases r)
      case (Inr v)
      then show ?thesis using "1.prems" True fs by (simp add: loop_return)
    next
      case (Inl e)
      have fs': "fn s = (Inl e, s')" using fs Inl by simp
      show ?thesis
      proof (cases "attempt \<ge> maxRetries cfg \<or> \<not> isRetryable cfg (toError e)")
        case stop: True
        have "withRetry_loop cfg rnd fn attempt lastError n ds s =
            \<lparr>outcome = Inl (toError e), calls = Suc n, delays = ds, final = s'\<rparr>"
          using True fs' stop by (intro loop_throw) auto
        then show ?thesis using "1.prems" by simp
      next
        case False
        let ?d = "if useJitter cfg
                        then min (initialDelay cfg * backoffMultiplier cfg ^ nat attempt)
                               (maxDelay cfg) * (0.5 + rnd (length ds) * 0.5)
                        else min (initialDelay cfg * backoffMultiplier cfg ^ nat attempt)
                               (maxDelay cfg)"
        let ?r = "withRetry_loop cfg rnd fn (attempt + 1) (toError e) (Suc n) (ds @ [?d]) s'"
        have unf: "withRetry_loop cfg rnd fn attempt lastError n ds s = ?r"
          using False fs' by (intro loop_retry) auto
        have "length (delays ?r) = calls ?r - 1"
          by (rule "1.IH" [of r s' e]) (use True fs Inl False "1.prems" in auto)
        then show ?thesis using unf by simp
      qed
    qed
  qed
qed

lemma finalConfig_fields:
  "maxRetries (finalConfig config) = orDefault (cfg_maxRetries config) 3"
  "initialDelay (finalConfig config) = orDefault (cfg_initialDelay config) 1000"
  "backoffMultiplier (finalConfig config) = orDefault (cfg_backoffMultiplier config) 2"
  "maxDelay (finalConfig config) = orDefault (cfg_maxDelay config) 30000"
  "useJitter (finalConfig config) = orDefault (cfg_useJitter config) True"
  "isRetryable (finalConfig config) = orDefault (cfg_isRetryable config) defaultIsRetryable"
  by (simp_all add: finalConfig_def DEFAULT_RETRY_CONFIG_def)

text \<open>
  C1. For a configuration passed to \<open>withRetry\<close> whose \<open>maxRetries\<close> is \<open>n \<ge> 0\<close> and a
  function that fails on every invocation with an error that the \<open>isRetryable\<close> of the
  configuration accepts (the default predicate, when the configuration has none),
  \<open>withRetry\<close> invokes the function exactly \<open>n + 1\<close> times (the state has been advanced
  by \<open>n + 1\<close> invocations) and then throws the error of the last invocation.
\<close>

theorem withRetry_always_failing:
  assumes "cfg_maxRetries config = Some n" and "0 \<le> n"
    and "\<forall>s. \<exists>e. fst (fn s) = Inl e
            \<and> orDefault (cfg_isRetryable config) defaultIsRetryable (toError e)"
  shows "calls (withRetry rnd fn config s) = nat n + 1
     \<and> final (withRetry rnd fn config s) = ((snd \<circ> fn) ^^ (nat n + 1)) s
     \<and> (\<exists>e. fst (fn (((snd \<circ> fn) ^^ nat n) s)) = Inl e
            \<and> outcome (withRetry rnd fn config s) = Inl (toError e))"
proof -
  have m: "maxRetries (finalConfig config) = n"
    using assms(1) by (simp add: finalConfig_fields orDefault_def)
  have fail: "\<forall>s. \<exists>e. fst (fn s) = Inl e \<and> isRetryable (finalConfig config) (toError e)"
    using assms(3) by (simp add: finalConfig_fields)
  have k: "nat n = nat (maxRetries (finalConfig config) - 0)" using m by simp
  have le: "0 \<le> maxRetries (finalConfig config)" using m assms(2) by simp
  show ?thesis
    unfolding withRetry_def
    using loop_always_failing [OF fail k le, of rnd ThrownUndefined 0 "[]" s] by simp
qed

text \<open>
  A configuration with \<open>maxRetries = 5\<close> and a predicate of its own, which accepts the
  errors of status 503; the default predicate does not accept the error of the example.
  The function is invoked six times.
\<close>

theorem withRetry_always_failing_witness:
  "calls (withRetry (\<lambda>k. 0)
      (\<lambda>k::nat. (Inl (JsError ''unavailable'' (Some 503)) :: js_error + unit, Suc k))
      \<lparr>cfg_maxRetries = Some 5, cfg_initialDelay = None, cfg_backoffMultiplier = None,
       cfg_maxDelay = None, cfg_useJitter = None,
       cfg_isRetryable = Some (\<lambda>e. status e = Some 503)\<rparr> 0) = 6
   \<and> final (withRetry (\<lambda>k. 0)
      (\<lambda>k::nat. (Inl (JsError ''unavailable'' (Some 503)) :: js_error + unit, Suc k))
      \<lparr>cfg_maxRetries = Some 5, cfg_initialDelay = None, cfg_backoffMultiplier = None,
       cfg_maxDelay = None, cfg_useJitter = None,
       cfg_isRetryable = Some (\<lambda>e. status e = Some 503)\<rparr> 0) = 6
   \<and> outcome (withRetry (\<lambda>k. 0)
      (\<lambda>k::nat. (Inl (JsError ''unavailable'' (Some 503)) :: js_error + unit, Suc k))
      \<lparr>cfg_maxRetries = Some 5, cfg_initialDelay = None, cfg_backoffMultiplier = None,
       cfg_maxDelay = None, cfg_useJitter = None,
       cfg_isRetryable = Some (\<lambda>e. status e = Some 503)\<rparr> 0)
       = Inl (JsError ''unavailable'' (Some 503))
   \<and> \<not> defaultIsRetryable (JsError ''unavailable'' (Some 503))"
  using withRetry_always_failing [of
      "\<lparr>cfg_maxRetries = Some 5, cfg_initialDelay = None, cfg_backoffMultiplier = None,
       cfg_maxDelay = None, cfg_useJitter = None,
       cfg_isRetryable = Some (\<lambda>e. status e = Some 503)\<rparr>" 5
      "\<lambda>k::nat. (Inl (JsError ''unavailable'' (Some 503)) :: js_error + unit, Suc k)" "\<lambda>k. 0" 0]
  by (simp add: orDefault_def defaultIsRetryable_def toLowerCase_def lowerChar_def
      numeral_eq_Suc)

text \<open>
  C2. The delay slept after the failed attempt \<open>i\<close> (counted from 0) is computed from
  the configuration passed to \<open>withRetry\<close>, a field that it does not give taking the
  default (1000 ms, multiplier 2, at most 30000 ms, jitter on): it is
  \<open>min (initialDelay * backoffMultiplier ^ i) maxDelay\<close> without jitter, and that base
  delay times the factor \<open>0.5 + Math.random() * 0.5\<close>, which lies in \<open>[0.5, 1]\<close>, with
  jitter. There is one delay between any two consecutive invocations.
\<close>

theorem withRetry_backoff_delay:
  assumes "\<forall>k. 0 \<le> rnd k \<and> rnd k < 1"
    and "i < length (delays (withRetry rnd fn config s))"
  shows "length (delays (withRetry rnd fn config s)) = calls (withRetry rnd fn config s) - 1
    \<and> (\<not> orDefault (cfg_useJitter config) True \<longrightarrow>
         delays (withRetry rnd fn config s) ! i =
           min (orDefault (cfg_initialDelay config) 1000 *
                  orDefault (cfg_backoffMultiplier config) 2 ^ i)
               (orDefault (cfg_maxDelay config) 30000))
    \<and> (orDefault (cfg_useJitter config) True \<longrightarrow>
         delays (withRetry rnd fn config s) ! i =
           min (orDefault (cfg_initialDelay config) 1000 *
                  orDefault (cfg_backoffMultiplier config) 2 ^ i)
               (orDefault (cfg_maxDelay config) 30000) * (0.5 + rnd i * 0.5)
         \<and> 0.5 \<le> 0.5 + rnd i * 0.5 \<and> 0.5 + rnd i * 0.5 \<le> 1)"
proof -
  let ?cfg = "finalConfig config"
  let ?D = "\<lambda>i. if useJitter ?cfg
                then min (initialDelay ?cfg * backoffMultiplier ?cfg ^ i) (maxDelay ?cfg) *
                       (0.5 + rnd i * 0.5)
                else min (initialDelay ?cfg * backoffMultiplier ?cfg ^ i) (maxDelay ?cfg)"
  have len: "length (delays (withRetry rnd fn config s)) = calls (withRetry rnd fn config s) - 1"
    unfolding withRetry_def by (rule loop_length_delays) auto
  have d: "delays (withRetry rnd fn config s) ! i = ?D i"
    unfolding withRetry_def
    by (rule loop_delays [where D = ?D]) (use assms(2) in \<open>auto simp: withRetry_def\<close>)
  have r: "0 \<le> rnd i" "rnd i < 1" using assms(1) by auto
  show ?thesis using len d r by (auto simp: finalConfig_fields)
qed

text \<open>
  Two configurations that differ from the default, run on a function that always fails
  with a network error. Without jitter, 7 ms, multiplier 3, at most 100 ms and five
  retries: the delays are 7, 21, 63, 100 and 100 ms. With jitter, 200 ms, multiplier 4
  and two retries, \<open>Math.random()\<close> giving one half: the delays are three quarters of 200
  and of 800 ms.
\<close>

theorem withRetry_backoff_delay_witness:
  "delays (withRetry (\<lambda>k. 1 / 2)
      (\<lambda>k::nat. (Inl (JsError ''network down'' None) :: js_error + unit, Suc k))
      \<lparr>cfg_maxRetries = Some 5, cfg_initialDelay = Some 7, cfg_backoffMultiplier = Some 3,
       cfg_maxDelay = Some 100, cfg_useJitter = Some False, cfg_isRetryable = None\<rparr> 0)
     = [7, 21, 63, 100, 100]
   \<and> delays (withRetry (\<lambda>k. 1 / 2)
      (\<lambda>k::nat. (Inl (JsError ''network down'' None) :: js_error + unit, Suc k))
      \<lparr>cfg_maxRetries = Some 2, cfg_initialDelay = Some 200, cfg_backoffMultiplier = Some 4,
       cfg_maxDelay = None, cfg_useJitter = Some True, cfg_isRetryable = None\<rparr> 0)
     = [150, 600]"
  using withRetry_backoff_delay [of "\<lambda>k. 1 / 2" 3
      "\<lambda>k::nat. (Inl (JsError ''network down'' None) :: js_error + unit, Suc k)"
      "\<lparr>cfg_maxRetries = Some 5, cfg_initialDelay = Some 7, cfg_backoffMultiplier = Some 3,
       cfg_maxDelay = Some 100, cfg_useJitter = Some False, cfg_isRetryable = None\<rparr>" 0]
    withRetry_backoff_delay [of "\<lambda>k. 1 / 2" 1
      "\<lambda>k::nat. (Inl (JsError ''network down'' None) :: js_error + unit, Suc k)"
      "\<lparr>cfg_maxRetries = Some 2, cfg_initialDelay = Some 200, cfg_backoffMultiplier = Some 4,
       cfg_maxDelay = None, cfg_useJitter = Some True, cfg_isRetryable = None\<rparr>" 0]
  by (simp add: withRetry_def withRetry_loop.simps finalConfig_def orDefault_def
      DEFAULT_RETRY_CONFIG_def defaultIsRetryable_def toLowerCase_def lowerChar_def)

section \<open>Properties of the API client\<close>

lemma refresh_no_token:
  "\<not> truthy (refreshToken (credentials st)) \<Longrightarrow>
   refreshAccessToken rt srv st = (Inl (JsError ''No refresh token available'' None), st)"
  by (simp add: refreshAccessToken_def)

lemma refresh_rejected:
  "truthy (refreshToken (credentials st)) \<Longrightarrow>
   srv (requests st) (refreshRequest rt (credentials st)) = Inl e \<Longrightarrow>
   refreshAccessToken rt srv st =
     (Inl e, st\<lparr>requests := requests st @ [refreshRequest rt (credentials st)]\<rparr>)"
  by (simp add: refreshAccessToken_def requestUrl_def)

lemma refresh_answered:
  "truthy (refreshToken (credentials st)) \<Longrightarrow>
   srv (requests st) (refreshRequest rt (credentials st)) = Inr tokens \<Longrightarrow>
   refreshAccessToken rt srv st =
     (if nullish tokens then
        (Inl TypeError, st\<lparr>requests := requests st @ [refreshRequest rt (credentials st)]\<rparr>)
      else if truthy (readProp tokens ''access_token'') then
        (case onTokensUpdated st of
           None \<Rightarrow>
             (Inr (), st\<lparr>requests := requests st @ [refreshRequest rt (credentials st)],
                         credentials := (credentials st)\<lparr>accessToken := readProp tokens ''access_token''\<rparr>\<rparr>)
         | Some listener \<Rightarrow>
             (case listener tokens of None \<Rightarrow> Inr () | Some error \<Rightarrow> Inl error,
              st\<lparr>requests := requests st @ [refreshRequest rt (credentials st)],
                 credentials := (credentials st)\<lparr>accessToken := readProp tokens ''access_token''\<rparr>,
                 tokenUpdates := tokenUpdates st @ [tokens]\<rparr>))
      else (Inr (), st\<lparr>requests := requests st @ [refreshRequest rt (credentials st)]\<rparr>))"
  by (simp add: refreshAccessToken_def requestUrl_def getProp_def Let_def split: option.split)

lemma refresh_requests:
  "refreshAccessToken rt srv st = (r, st') \<Longrightarrow>
   requests st' = requests st @
     (if truthy (refreshToken (credentials st)) then [refreshRequest rt (credentials st)] else [])"
proof (cases "truthy (refreshToken (credentials st))")
  case False
  assume "refreshAccessToken rt srv st = (r, st')"
  then show ?thesis using False by (auto simp add: refresh_no_token)
next
  case True
  assume a: "refreshAccessToken rt srv st = (r, st')"
  show ?thesis
  proof (cases "srv (requests st) (refreshRequest rt (credentials st))")
    case (Inl e)
    then show ?thesis using a True by (auto simp add: refresh_rejected)
  next
    case (Inr tokens)
    note eq = refresh_answered [of st srv rt tokens, OF True Inr]
    show ?thesis using a True unfolding eq by (auto split: if_splits option.splits)
  qed
qed

lemma refresh_ok_token:
  "refreshAccessToken rt srv st = (Inr x, st') \<Longrightarrow> truthy (refreshToken (credentials st))"
  by (cases "truthy (refreshToken (credentials st))") (auto simp add: refresh_no_token)

text \<open>
  C3 (amended). When an access token is present and the response to a request has status
  401, \<open>refreshAccessToken\<close> is called once. If it succeeds, the same request (url, method,
  body) is sent once more with the access token then current, and the outcome of
  that second request is the outcome of \<open>makeRequest\<close>, whatever it is; the requests sent
  are the first request, the refresh and the second request, and no other. If the
  refresh fails, its error is the outcome and the request is not sent again.
\<close>

theorem makeRequest_unauthorized:
  assumes tok: "truthy (accessToken (credentials st))"
    and first: "srv (requests st) (apiRequest rt u m (accessToken (credentials st)) b) = Inl error"
    and unauth: "status error = Some 401"
    and rf: "refreshAccessToken rt srv
               (st\<lparr>requests := requests st @ [apiRequest rt u m (accessToken (credentials st)) b]\<rparr>)
             = (r, st2)"
  shows "(\<forall>e. r = Inl e \<longrightarrow>
            makeRequest rt srv u m b st = (Inl e, st2)
          \<and> requests st2 = requests st @ [apiRequest rt u m (accessToken (credentials st)) b] @
               (if truthy (refreshToken (credentials st)) then [refreshRequest rt (credentials st)] else []))
       \<and> (r = Inr () \<longrightarrow>
            makeRequest rt srv u m b st =
              (srv (requests st2) (apiRequest rt u m (accessToken (credentials st2)) b),
               st2\<lparr>requests := requests st2 @ [apiRequest rt u m (accessToken (credentials st2)) b]\<rparr>)
          \<and> requests st2 = requests st @ [apiRequest rt u m (accessToken (credentials st)) b,
                                          refreshRequest rt (credentials st)])"
proof -
  let ?req0 = "apiRequest rt u m (accessToken (credentials st)) b"
  let ?st1 = "st\<lparr>requests := requests st @ [?req0]\<rparr>"
  have mk: "makeRequest rt srv u m b st =
      (case r of Inl e \<Rightarrow> (Inl e, st2)
       | Inr x \<Rightarrow> requestUrl srv (apiRequest rt u m (accessToken (credentials st2)) b) st2)"
    using tok first unauth rf by (simp add: makeRequest_def requestUrl_def)
  have reqs: "requests st2 = requests st @ [?req0] @
      (if truthy (refreshToken (credentials st)) then [refreshRequest rt (credentials st)] else [])"
    using refresh_requests [OF rf] by simp
  have ok: "r = Inr () \<Longrightarrow> truthy (refreshToken (credentials st))"
    using refresh_ok_token [of rt srv ?st1 "()" st2] rf by simp
  show ?thesis using mk reqs ok by (auto simp: requestUrl_def)
qed

text \<open>
  An expired access token: the first request is answered 401, the refresh gives a new
  token, and the request sent again with it succeeds.
\<close>

theorem makeRequest_unauthorized_witness:
  "makeRequest exampleRuntime rotatingServer taskListsUrl ''GET''
     JUndefined (exampleState (JStr ''expired'') (JStr ''refresh''))
   = (Inr (JObj [(''items'', JArr [])]),
      \<lparr>credentials = exampleCredentials (JStr ''new-access'') (JStr ''refresh''),
       onTokensUpdated = Some (\<lambda>tokens. None),
       requests =
         [apiRequest exampleRuntime taskListsUrl ''GET''
            (JStr ''expired'') JUndefined,
          refreshRequest exampleRuntime (exampleCredentials (JStr ''expired'') (JStr ''refresh'')),
          apiRequest exampleRuntime taskListsUrl ''GET''
            (JStr ''new-access'') JUndefined],
       tokenUpdates =
         [JObj [(''access_token'', JStr ''new-access''), (''refresh_token'', JStr ''rotated'')]]\<rparr>)"
  using makeRequest_unauthorized [of "exampleState (JStr ''expired'') (JStr ''refresh'')"
      rotatingServer exampleRuntime taskListsUrl "''GET''"
      JUndefined "JsError ''Unauthorized'' (Some 401)" "Inr ()"
      "\<lparr>credentials = exampleCredentials (JStr ''new-access'') (JStr ''refresh''),
       onTokensUpdated = Some (\<lambda>tokens. None),
       requests =
         [apiRequest exampleRuntime taskListsUrl ''GET''
            (JStr ''expired'') JUndefined,
          refreshRequest exampleRuntime (exampleCredentials (JStr ''expired'') (JStr ''refresh''))],
       tokenUpdates =
         [JObj [(''access_token'', JStr ''new-access''), (''refresh_token'', JStr ''rotated'')]]\<rparr>"]
  by (simp add: exampleState_def exampleCredentials_def rotatingServer_def apiRequest_def
      refreshRequest_def exampleRuntime_def refreshAccessToken_def requestUrl_def getProp_def
      taskListsUrl_def TASKS_API_BASE_def)

text \<open>
  C3 as stated fails when the refresh is rejected: the request answered 401 is not sent
  again, and the error of the refresh is the outcome.
\<close>

theorem makeRequest_refresh_failure_counterexample:
  "rejectingServer [] (apiRequest exampleRuntime taskListsUrl ''GET'' (JStr ''expired'') JUndefined)
     = Inl (JsError ''Unauthorized'' (Some 401))
   \<and> makeRequest exampleRuntime rejectingServer taskListsUrl ''GET''
     JUndefined (exampleState (JStr ''expired'') (JStr ''refresh''))
   = (Inl (JsError ''invalid_grant'' (Some 400)),
      \<lparr>credentials = exampleCredentials (JStr ''expired'') (JStr ''refresh''),
       onTokensUpdated = Some (\<lambda>tokens. None),
       requests =
         [apiRequest exampleRuntime taskListsUrl ''GET''
            (JStr ''expired'') JUndefined,
          refreshRequest exampleRuntime (exampleCredentials (JStr ''expired'') (JStr ''refresh''))],
       tokenUpdates = []\<rparr>)"
  by (simp add: makeRequest_def exampleState_def exampleCredentials_def rejectingServer_def apiRequest_def
      refreshRequest_def exampleRuntime_def refreshAccessToken_def requestUrl_def getProp_def
      taskListsUrl_def TASKS_API_BASE_def)


text \<open>
  What a refresh does to the stored credentials: they are unchanged, or the response
  carried an \<open>access_token\<close> and only the stored access token has been replaced by it.
  This holds for a refresh that fails too: a listener that throws fails the refresh after
  the access token has been assigned. No path assigns the stored refresh token.
\<close>

lemma refreshAccessToken_credentials:
  assumes "refreshAccessToken rt srv st = (r, st')"
  shows "credentials st' = credentials st
     \<or> (\<exists>tokens. srv (requests st) (refreshRequest rt (credentials st)) = Inr tokens
          \<and> truthy (readProp tokens ''access_token'')
          \<and> credentials st' = (credentials st)\<lparr>accessToken := readProp tokens ''access_token''\<rparr>)"
proof (cases "truthy (refreshToken (credentials st))")
  case False
  then show ?thesis using assms by (auto simp add: refresh_no_token)
next
  case True
  show ?thesis
  proof (cases "srv (requests st) (refreshRequest rt (credentials st))")
    case (Inl e)
    then show ?thesis using assms True by (auto simp add: refresh_rejected)
  next
    case (Inr tokens)
    note eq = refresh_answered [of st srv rt tokens, OF True Inr]
    show ?thesis
      using assms unfolding eq Inr
      by (cases "nullish tokens"; cases "truthy (readProp tokens ''access_token'')")
         (auto split: option.splits)
  qed
qed

lemma refreshAccessToken_refreshToken:
  assumes "refreshAccessToken rt srv st = (r, st')"
  shows "refreshToken (credentials st') = refreshToken (credentials st)"
  using refreshAccessToken_credentials [OF assms] by auto

lemma refreshAccessToken_success:
  assumes "refreshAccessToken rt srv st = (Inr (), st')"
  shows "\<exists>tokens. srv (requests st) (refreshRequest rt (credentials st)) = Inr tokens \<and>
           (if truthy (readProp tokens ''access_token'')
            then credentials st' = (credentials st)\<lparr>accessToken := readProp tokens ''access_token''\<rparr>
               \<and> tokenUpdates st' =
                   tokenUpdates st @ (if onTokensUpdated st = None then [] else [tokens])
            else credentials st' = credentials st \<and> tokenUpdates st' = tokenUpdates st)"
proof (cases "truthy (refreshToken (credentials st))")
  case False
  then show ?thesis using assms by (auto simp add: refresh_no_token)
next
  case True
  show ?thesis
  proof (cases "srv (requests st) (refreshRequest rt (credentials st))")
    case (Inl e)
    then show ?thesis using assms True by (auto simp add: refresh_rejected)
  next
    case (Inr tokens)
    note eq = refresh_answered [of st srv rt tokens, OF True Inr]
    show ?thesis
      using assms unfolding eq Inr
      by (cases "nullish tokens"; cases "truthy (readProp tokens ''access_token'')")
         (auto split: option.splits)
  qed
qed

text \<open>
  C8. The code does not do what the claim says when the response of the token endpoint
  carries a new refresh token. The client holds the access token \<open>expired\<close> and the
  refresh token \<open>refresh\<close>; the endpoint answers with the access token \<open>new-access\<close> and
  the refresh token \<open>rotated\<close>. The refresh succeeds, the stored access token is
  replaced and the listener receives the response with the new refresh token, but the
  stored refresh token is still \<open>refresh\<close>, and the next refresh of the same client sends
  \<open>refresh\<close> to the endpoint again.
\<close>

theorem refreshAccessToken_keeps_old_refresh_token:
  "rotatingServer [] (refreshRequest exampleRuntime (exampleCredentials (JStr ''expired'') (JStr ''refresh'')))
       = Inr (JObj [(''access_token'', JStr ''new-access''), (''refresh_token'', JStr ''rotated'')])
   \<and> fst (refreshAccessToken exampleRuntime rotatingServer
            (exampleState (JStr ''expired'') (JStr ''refresh''))) = Inr ()
   \<and> credentials (snd (refreshAccessToken exampleRuntime rotatingServer
            (exampleState (JStr ''expired'') (JStr ''refresh''))))
       = exampleCredentials (JStr ''new-access'') (JStr ''refresh'')
   \<and> refreshToken (credentials (snd (refreshAccessToken exampleRuntime rotatingServer
            (exampleState (JStr ''expired'') (JStr ''refresh''))))) \<noteq> JStr ''rotated''
   \<and> tokenUpdates (snd (refreshAccessToken exampleRuntime rotatingServer
            (exampleState (JStr ''expired'') (JStr ''refresh''))))
       = [JObj [(''access_token'', JStr ''new-access''), (''refresh_token'', JStr ''rotated'')]]
   \<and> map body (requests (snd (refreshAccessToken exampleRuntime rotatingServer
        (snd (refreshAccessToken exampleRuntime rotatingServer
            (exampleState (JStr ''expired'') (JStr ''refresh'')))))))
       = [FormBody ''client_id=client-id&client_secret=client-secret&refresh_token=refresh&grant_type=refresh_token'',
          FormBody ''client_id=client-id&client_secret=client-secret&refresh_token=refresh&grant_type=refresh_token'']"
  by (simp add: exampleState_def exampleCredentials_def rotatingServer_def
      refreshRequest_def exampleRuntime_def refreshAccessToken_def requestUrl_def getProp_def)

text \<open>
  A listener that throws: the refresh fails with the error of the listener, and the
  stored access token is already the new one.
\<close>

lemma refreshAccessToken_throwing_listener:
  "refreshAccessToken exampleRuntime rotatingServer
     ((exampleState (JStr ''expired'') (JStr ''refresh''))
        \<lparr>onTokensUpdated := Some (\<lambda>tokens. Some (JsError ''disk full'' None))\<rparr>)
   = (Inl (JsError ''disk full'' None),
      (exampleState (JStr ''new-access'') (JStr ''refresh''))
        \<lparr>onTokensUpdated := Some (\<lambda>tokens. Some (JsError ''disk full'' None)),
         requests := [refreshRequest exampleRuntime
                        (exampleCredentials (JStr ''expired'') (JStr ''refresh''))],
         tokenUpdates :=
           [JObj [(''access_token'', JStr ''new-access''), (''refresh_token'', JStr ''rotated'')]]\<rparr>)"
  by (simp add: exampleState_def exampleCredentials_def rotatingServer_def
      refreshRequest_def exampleRuntime_def refreshAccessToken_def requestUrl_def getProp_def)

lemma makeRequest_no_token:
  "\<not> truthy (accessToken (credentials st)) \<Longrightarrow>
   makeRequest rt srv u m b st = (Inl (JsError ''No access token available'' None), st)"
  by (simp add: makeRequest_def)

lemma no_token_getEventsForDate:
  "credentialsConfigured st \<Longrightarrow> \<not> truthy (accessToken (credentials st)) \<Longrightarrow>
   getEventsForDate rt srv date st = (Inr JNull, st)"
  by (simp add: getEventsForDate_def makeRequest_no_token split: option.split)

lemma no_token_getEventsForDateRange:
  "credentialsConfigured st \<Longrightarrow> \<not> truthy (accessToken (credentials st)) \<Longrightarrow>
   getEventsForDateRange rt srv fromDate toDate st = (Inr JNull, st)"
  by (simp add: getEventsForDateRange_def makeRequest_no_token split: option.split)

lemma no_token_getTasksForDate:
  "credentialsConfigured st \<Longrightarrow> \<not> truthy (accessToken (credentials st)) \<Longrightarrow>
   getTasksForDate rt srv date st = (Inr JNull, st)"
  by (simp add: getTasksForDate_def makeRequest_no_token)

lemma no_token_getTasksForDateRange:
  "credentialsConfigured st \<Longrightarrow> \<not> truthy (accessToken (credentials st)) \<Longrightarrow>
   getTasksForDateRange rt srv fromDate toDate st = (Inr JNull, st)"
  by (simp add: getTasksForDateRange_def makeRequest_no_token)

lemma no_token_getTasks:
  "credentialsConfigured st \<Longrightarrow> \<not> truthy (accessToken (credentials st)) \<Longrightarrow>
   getTasks rt srv st = (Inr JNull, st)"
  by (simp add: getTasks_def makeRequest_no_token)

text \<open>
  C7 (amended). With a client id and a client secret but no access token,
  \<open>isConfigured\<close> is true and \<open>makeRequest\<close> throws \<open>No access token available\<close> without
  sending a request; the fetch operations of the API client catch that error and return
  \<open>null\<close>, the state unchanged.
\<close>

theorem no_access_token_fetch:
  assumes "clientId (credentials st) \<noteq> []" and "clientSecret (credentials st) \<noteq> []"
    and "\<not> truthy (accessToken (credentials st))"
  shows "isConfigured st
     \<and> makeRequest rt srv u m b st = (Inl (JsError ''No access token available'' None), st)
     \<and> getEventsForDate rt srv date st = (Inr JNull, st)
     \<and> getTasksForDate rt srv date st = (Inr JNull, st)
     \<and> getEventsForDateRange rt srv fromDate toDate st = (Inr JNull, st)
     \<and> getTasksForDateRange rt srv fromDate toDate st = (Inr JNull, st)
     \<and> getTasks rt srv st = (Inr JNull, st)
     \<and> getEventsAndTasksForDate rt srv date st =
         (Inr (JObj [(''events'', JNull), (''tasks'', JNull)]), st)
     \<and> getEventsAndTasksForDateRange rt srv fromDate toDate st =
         (Inr (JObj [(''events'', JNull), (''tasks'', JNull)]), st)"
proof -
  have c: "credentialsConfigured st" using assms(1,2) by (simp add: credentialsConfigured_def)
  note n = assms(3)
  show ?thesis
    using assms(1,2)
    by (simp add: isConfigured_def makeRequest_no_token [OF n]
        no_token_getEventsForDate [OF c n] no_token_getEventsForDateRange [OF c n]
        no_token_getTasksForDate [OF c n] no_token_getTasksForDateRange [OF c n]
        no_token_getTasks [OF c n] getEventsAndTasksForDate_def getEventsAndTasksForDateRange_def)
qed

theorem no_access_token_fetch_witness:
  "isConfigured (exampleState JUndefined JUndefined)
   \<and> getTasks exampleRuntime rejectingServer (exampleState JUndefined JUndefined)
       = (Inr JNull, exampleState JUndefined JUndefined)"
  using no_access_token_fetch [of "exampleState JUndefined JUndefined" exampleRuntime rejectingServer]
  by (simp add: exampleState_def exampleCredentials_def)

text \<open>
  C7 as stated fails: without an access token \<open>getEventsForDate\<close> returns \<open>null\<close>; it
  does not fail.
\<close>

theorem no_access_token_counterexample:
  "isConfigured (exampleState JUndefined JUndefined)
   \<and> \<not> truthy (accessToken (credentials (exampleState JUndefined JUndefined)))
   \<and> getEventsForDate exampleRuntime rejectingServer ''2024-01-10'' (exampleState JUndefined JUndefined)
       = (Inr JNull, exampleState JUndefined JUndefined)"
  by (simp add: isConfigured_def exampleState_def exampleCredentials_def getEventsForDate_def
      credentialsConfigured_def exampleRuntime_def exampleDates_def makeRequest_def)

section \<open>Properties of the task date filter\<close>

lemma dueInWindow_object:
  "\<not> nullish task \<Longrightarrow> dueInWindow rt lo hi task = Inr (dueWithin rt lo hi task)"
  by (simp add: dueInWindow_def getProp_def)

lemma dueInWindow_true:
  "dueInWindow rt lo hi task = Inr True \<Longrightarrow> dueWithin rt lo hi task"
  by (cases "nullish task") (auto simp: dueInWindow_def getProp_def split: if_splits)

lemma filterE_total:
  "\<forall>x \<in> set xs. p x = Inr (q x) \<Longrightarrow> filterE p xs = Inr (filter q xs)"
  by (induction xs) auto

lemma filterE_sound:
  "filterE p xs = Inr ys \<Longrightarrow> \<forall>y \<in> set ys. p y = Inr True"
proof (induction xs arbitrary: ys)
  case Nil
  then show ?case by simp
next
  case (Cons x xs)
  then show ?case by (auto split: sum.splits if_splits)
qed

lemma tasksOfList_sound:
  assumes "tasksOfList rt srv lo hi taskList st = (Inr res, st')"
  shows "\<forall>t \<in> set res. dueWithin rt lo hi t"
proof -
  consider (empty) "res = []" | (filtered) tasks where "filterE (dueInWindow rt lo hi) tasks = Inr res"
    using assms
    by (auto simp: tasksOfList_def split: sum.splits if_splits prod.splits json.splits)
  then show ?thesis
  proof cases
    case empty
    then show ?thesis by simp
  next
    case filtered
    then show ?thesis using filterE_sound dueInWindow_true by blast
  qed
qed

lemma promiseAll_sound:
  assumes "\<And>x s r s'. f x s = (Inr r, s') \<Longrightarrow> P r"
  shows "promiseAll f xs st = (Inr rs, st') \<Longrightarrow> \<forall>r \<in> set rs. P r"
proof (induction xs arbitrary: st rs st')
  case Nil
  then show ?case by simp
next
  case (Cons x xs)
  obtain r st1 where fx: "f x st = (r, st1)" by (cases "f x st")
  obtain rs' st2 where rest: "promiseAll f xs st1 = (rs', st2)" by (cases "promiseAll f xs st1")
  from Cons.prems fx rest obtain y ys where
    r: "r = Inr y" and rs': "rs' = Inr ys" and rs: "rs = y # ys"
    by (auto split: sum.splits)
  have "P y" using assms fx r by blast
  moreover have "\<forall>r \<in> set ys. P r" using Cons.IH rest rs' by blast
  ultimately show ?case using rs by simp
qed

lemma getTasksForDateRange_items:
  assumes "getTasksForDateRange rt srv fromDate toDate st = (Inr (JObj [(''items'', JArr out)]), st')"
  shows "\<exists>taskLists st1 taskResults.
           promiseAll (tasksOfList rt srv (map_option (startOfDay rt) (parseDate rt (JStr fromDate)))
                         (map_option (endOfDay rt) (parseDate rt (JStr toDate)))) taskLists st1
             = (Inr taskResults, st')
           \<and> out = concat taskResults"
  using assms
  by (auto simp: getTasksForDateRange_def Let_def split: if_splits prod.splits sum.splits json.splits)

lemma getTasksForDate_items:
  assumes "getTasksForDate rt srv date st = (Inr (JObj [(''items'', JArr out)]), st')"
  shows "\<exists>taskLists st1 taskResults.
           promiseAll (tasksOfList rt srv
                         (map_option (\<lambda>d. minusDays rt d 365)
                            (map_option (endOfDay rt) (parseDate rt (JStr date))))
                         (map_option (endOfDay rt) (parseDate rt (JStr date)))) taskLists st1
             = (Inr taskResults, st')
           \<and> out = concat taskResults"
  using assms
  by (auto simp: getTasksForDate_def Let_def split: if_splits prod.splits sum.splits json.splits)

text \<open>
  Whatever the tasks fetched are, every task that the two functions return has no \<open>due\<close>
  or is due in the window of the function.
\<close>

lemma returned_tasks_due_within:
  "(getTasksForDateRange rt srv fromDate toDate st = (Inr (JObj [(''items'', JArr out)]), st')
      \<longrightarrow> (\<forall>t \<in> set out.
                dueWithin rt (map_option (startOfDay rt) (parseDate rt (JStr fromDate)))
                  (map_option (endOfDay rt) (parseDate rt (JStr toDate))) t))
   \<and> (getTasksForDate rt srv date st = (Inr (JObj [(''items'', JArr out')]), st'')
      \<longrightarrow> (\<forall>t \<in> set out'.
                dueWithin rt
                  (map_option (\<lambda>d. minusDays rt d 365)
                     (map_option (endOfDay rt) (parseDate rt (JStr date))))
                  (map_option (endOfDay rt) (parseDate rt (JStr date))) t))"
proof (intro conjI impI)
  assume a: "getTasksForDateRange rt srv fromDate toDate st = (Inr (JObj [(''items'', JArr out)]), st')"
  let ?lo = "map_option (startOfDay rt) (parseDate rt (JStr fromDate))"
  let ?hi = "map_option (endOfDay rt) (parseDate rt (JStr toDate))"
  from getTasksForDateRange_items [OF a] obtain taskLists st0 taskResults where
    p: "promiseAll (tasksOfList rt srv ?lo ?hi) taskLists st0 = (Inr taskResults, st')"
    and o: "out = concat taskResults" by blast
  have "\<forall>r \<in> set taskResults. \<forall>t \<in> set r. dueWithin rt ?lo ?hi t"
    by (rule promiseAll_sound [OF _ p]) (rule tasksOfList_sound)
  then show "\<forall>t \<in> set out. dueWithin rt ?lo ?hi t" using o by auto
next
  assume a: "getTasksForDate rt srv date st = (Inr (JObj [(''items'', JArr out')]), st'')"
  let ?hi = "map_option (endOfDay rt) (parseDate rt (JStr date))"
  let ?lo = "map_option (\<lambda>d. minusDays rt d 365) ?hi"
  from getTasksForDate_items [OF a] obtain taskLists st0 taskResults where
    p: "promiseAll (tasksOfList rt srv ?lo ?hi) taskLists st0 = (Inr taskResults, st'')"
    and o: "out' = concat taskResults" by blast
  have "\<forall>r \<in> set taskResults. \<forall>t \<in> set r. dueWithin rt ?lo ?hi t"
    by (rule promiseAll_sound [OF _ p]) (rule tasksOfList_sound)
  then show "\<forall>t \<in> set out'. dueWithin rt ?lo ?hi t" using o by auto
qed

lemma tasksOfList_unfiltered:
  assumes "unfilteredTasksOfList rt srv taskList st = (Inr tasks, st1)"
    and "\<forall>t \<in> set tasks. \<not> nullish t"
  shows "tasksOfList rt srv lo hi taskList st = (Inr (filter (dueWithin rt lo hi) tasks), st1)"
proof -
  have flt: "filterE (dueInWindow rt lo hi) tasks = Inr (filter (dueWithin rt lo hi) tasks)"
    using assms(2) by (intro filterE_total) (simp add: dueInWindow_object)
  show ?thesis
    using assms(1) flt
    by (auto simp: tasksOfList_def unfilteredTasksOfList_def
        split: sum.splits if_splits prod.splits json.splits)
qed

lemma promiseAll_filtered:
  assumes step: "\<And>x s ys s'. g x s = (Inr ys, s') \<Longrightarrow> \<forall>t \<in> set ys. ok t \<Longrightarrow>
                   f x s = (Inr (filter P ys), s')"
  shows "promiseAll g xs st = (Inr rs, st') \<Longrightarrow> \<forall>r \<in> set rs. \<forall>t \<in> set r. ok t \<Longrightarrow>
         promiseAll f xs st = (Inr (map (filter P) rs), st')"
proof (induction xs arbitrary: st rs st')
  case Nil
  then show ?case by auto
next
  case (Cons x xs)
  obtain r st1 where gx: "g x st = (r, st1)" by (cases "g x st")
  obtain rs' st2 where rest: "promiseAll g xs st1 = (rs', st2)" by (cases "promiseAll g xs st1")
  from Cons.prems(1) gx rest obtain y ys where
    r: "r = Inr y" and rs': "rs' = Inr ys" and rs: "rs = y # ys" and st': "st' = st2"
    by (auto split: sum.splits)
  have fx: "f x st = (Inr (filter P y), st1)"
    using step [of x st y st1] gx r Cons.prems(2) rs by simp
  have "promiseAll f xs st1 = (Inr (map (filter P) ys), st2)"
    using Cons.IH [of st1 ys st2] rest rs' Cons.prems(2) rs by simp
  then show ?case using fx rs st' by simp
qed

lemma unfilteredTasks_Some:
  assumes "unfilteredTasks rt srv st = (Some fetched, st')"
  shows "\<exists>response st1 items taskLists taskResults.
           credentialsConfigured st
         \<and> makeRequest rt srv taskListsUrl ''GET'' JUndefined st = (Inr response, st1)
         \<and> getProp response ''items'' = Inr items
         \<and> orElse items (JArr []) = JArr taskLists
         \<and> promiseAll (unfilteredTasksOfList rt srv) taskLists st1 = (Inr taskResults, st')
         \<and> fetched = concat taskResults"
  using assms
  by (auto simp: unfilteredTasks_def split: if_splits prod.splits sum.splits json.splits)

lemma filtered_results:
  assumes "promiseAll (unfilteredTasksOfList rt srv) taskLists st1 = (Inr taskResults, st')"
    and "\<forall>t \<in> set (concat taskResults). \<not> nullish t"
  shows "promiseAll (tasksOfList rt srv lo hi) taskLists st1
           = (Inr (map (filter (dueWithin rt lo hi)) taskResults), st')"
proof (rule promiseAll_filtered [where g = "unfilteredTasksOfList rt srv" and ok = "\<lambda>t. \<not> nullish t"])
  show "promiseAll (unfilteredTasksOfList rt srv) taskLists st1 = (Inr taskResults, st')"
    by (rule assms(1))
  show "\<forall>r \<in> set taskResults. \<forall>t \<in> set r. \<not> nullish t" using assms(2) by auto
  show "tasksOfList rt srv lo hi x s = (Inr (filter (dueWithin rt lo hi) ys), s')"
    if "unfilteredTasksOfList rt srv x s = (Inr ys, s')" and "\<forall>t \<in> set ys. \<not> nullish t"
    for x s ys s'
    using that by (rule tasksOfList_unfiltered)
qed

text \<open>
  C6 (amended). Let the requests of the function fetch the tasks \<open>fetched\<close>, those of all
  task lists in the order of the lists, every one of them an object. Then
  \<open>getTasksForDateRange\<close> returns exactly the tasks of \<open>fetched\<close>, in that order, that
  have no \<open>due\<close> or whose due instant lies in
  \<open>[startOfDay(startDate), endOfDay(endDate)]\<close>, both ends included: a task without
  \<open>due\<close> is always returned, and a task with \<open>due\<close> is returned if and only if it is
  due in the window. \<open>getTasksForDate\<close> returns exactly those that have no \<open>due\<close> or
  are due in \<open>[endOfDay(date) - 365 days, endOfDay(date)]\<close>: its window begins one year
  before the end of the date, not at the start of the date. (A \<open>null\<close> among the tasks
  of a list makes the callback of \<open>filter\<close> throw, and that list then gives no task.)
\<close>

theorem task_due_filter:
  assumes "unfilteredTasks rt srv st = (Some fetched, st')"
    and "\<forall>t \<in> set fetched. \<not> nullish t"
  shows "getTasksForDateRange rt srv fromDate toDate st =
           (Inr (JObj [(''items'', JArr (filter
              (dueWithin rt (map_option (startOfDay rt) (parseDate rt (JStr fromDate)))
                            (map_option (endOfDay rt) (parseDate rt (JStr toDate))))
              fetched))]), st')
       \<and> getTasksForDate rt srv date st =
           (Inr (JObj [(''items'', JArr (filter
              (dueWithin rt (map_option (\<lambda>d. minusDays rt (endOfDay rt d) 365) (parseDate rt (JStr date)))
                            (map_option (endOfDay rt) (parseDate rt (JStr date))))
              fetched))]), st')"
proof -
  from unfilteredTasks_Some [OF assms(1)] obtain response st1 items taskLists taskResults where
    c: "credentialsConfigured st"
    and m: "makeRequest rt srv taskListsUrl ''GET'' JUndefined st = (Inr response, st1)"
    and g: "getProp response ''items'' = Inr items"
    and o: "orElse items (JArr []) = JArr taskLists"
    and p: "promiseAll (unfilteredTasksOfList rt srv) taskLists st1 = (Inr taskResults, st')"
    and f: "fetched = concat taskResults"
    by blast
  have wf: "\<forall>t \<in> set (concat taskResults). \<not> nullish t" using assms(2) f by simp
  note fr = filtered_results [OF p wf]
  have cc: "concat (map (filter Q) taskResults) = filter Q fetched" for Q
    unfolding f by (simp add: filter_concat)
  have a: "getTasksForDateRange rt srv fromDate toDate st =
           (Inr (JObj [(''items'', JArr (filter
              (dueWithin rt (map_option (startOfDay rt) (parseDate rt (JStr fromDate)))
                            (map_option (endOfDay rt) (parseDate rt (JStr toDate))))
              fetched))]), st')"
    using c m g o by (simp add: getTasksForDateRange_def Let_def fr cc)
  have b: "getTasksForDate rt srv date st =
           (Inr (JObj [(''items'', JArr (filter
              (dueWithin rt (map_option (\<lambda>d. minusDays rt (endOfDay rt d) 365) (parseDate rt (JStr date)))
                            (map_option (endOfDay rt) (parseDate rt (JStr date))))
              fetched))]), st')"
    using c m g o by (simp add: getTasksForDate_def Let_def fr cc option.map_comp comp_def)
  show ?thesis using a b by simp
qed

lemma example_unfilteredTasks:
  "fst (unfilteredTasks exampleRuntime googleServer (exampleState (JStr ''token'') JUndefined))
     = Some exampleTasks"
  by (simp add: unfilteredTasks_def unfilteredTasksOfList_def credentialsConfigured_def exampleState_def
      exampleCredentials_def makeRequest_def requestUrl_def apiRequest_def googleServer_def
      getProp_def orElse_def
      exampleRuntime_def exampleDates_def taskListsUrl_def tasksUrl_def TASKS_API_BASE_def)

text \<open>
  One task list of five tasks: one without \<open>due\<close>, and tasks due on the day before
  2024-01-10, at its first instant, at its last instant and on the day after.
\<close>

theorem task_due_filter_witness:
  "fst (unfilteredTasks exampleRuntime googleServer (exampleState (JStr ''token'') JUndefined))
     = Some exampleTasks
   \<and> fst (getTasksForDateRange exampleRuntime googleServer ''2024-01-10'' ''2024-01-10''
       (exampleState (JStr ''token'') JUndefined))
     = Inr (JObj [(''items'', JArr [exampleTasks ! 0, exampleTasks ! 2, exampleTasks ! 3])])
   \<and> fst (getTasksForDate exampleRuntime googleServer ''2024-01-10''
       (exampleState (JStr ''token'') JUndefined))
     = Inr (JObj [(''items'',
         JArr [exampleTasks ! 0, exampleTasks ! 1, exampleTasks ! 2, exampleTasks ! 3])])"
proof -
  let ?st = "exampleState (JStr ''token'') JUndefined"
  let ?u = "unfilteredTasks exampleRuntime googleServer ?st"
  have run: "?u = (Some exampleTasks, snd ?u)"
    using example_unfilteredTasks by (simp add: prod_eq_iff)
  have wf: "\<forall>t \<in> set exampleTasks. \<not> nullish t" by (simp add: exampleTasks_def)
  have lo: "map_option (startOfDay exampleRuntime) (parseDate exampleRuntime (JStr ''2024-01-10''))
              = Some 1704844800000"
    by (simp add: exampleRuntime_def exampleDates_def)
  have hi: "map_option (endOfDay exampleRuntime) (parseDate exampleRuntime (JStr ''2024-01-10''))
              = Some 1704931199999"
    by (simp add: exampleRuntime_def exampleDates_def)
  have ago: "map_option (\<lambda>d. minusDays exampleRuntime (endOfDay exampleRuntime d) 365)
                (parseDate exampleRuntime (JStr ''2024-01-10''))
              = Some 1673395199999"
    by (simp add: exampleRuntime_def exampleDates_def)
  have flt: "filter (dueWithin exampleRuntime (Some 1704844800000) (Some 1704931199999)) exampleTasks
      = [exampleTasks ! 0, exampleTasks ! 2, exampleTasks ! 3]"
    by (simp add: exampleTasks_def exampleRuntime_def exampleDates_def)
  have fltd: "filter (dueWithin exampleRuntime (Some 1673395199999) (Some 1704931199999)) exampleTasks
      = [exampleTasks ! 0, exampleTasks ! 1, exampleTasks ! 2, exampleTasks ! 3]"
    by (simp add: exampleTasks_def exampleRuntime_def exampleDates_def)
  note inst = task_due_filter [OF run wf, of "''2024-01-10''" "''2024-01-10''" "''2024-01-10''"]
  show ?thesis
    using inst example_unfilteredTasks unfolding lo hi ago flt fltd by simp
qed

text \<open>
  C6 as stated fails for \<open>getTasksForDate\<close>: a task due on the day before the date, which
  is before \<open>startOfDay(date)\<close>, is returned.
\<close>

theorem getTasksForDate_lookback_counterexample:
  "fst (getTasksForDate exampleRuntime googleServer ''2024-01-10''
       (exampleState (JStr ''token'') JUndefined))
   = Inr (JObj [(''items'',
       JArr [exampleTasks ! 0, exampleTasks ! 1, exampleTasks ! 2, exampleTasks ! 3])])
   \<and> exampleTasks ! 1 =
       JObj [(''id'', JStr ''day-before''), (''due'', JStr ''2024-01-09T00:00:00.000Z'')]
   \<and> parseDate exampleRuntime (JStr ''2024-01-09T00:00:00.000Z'') = Some 1704758400000
   \<and> map_option (startOfDay exampleRuntime) (parseDate exampleRuntime (JStr ''2024-01-10''))
       = Some 1704844800000"
  by (simp add: getTasksForDate_def credentialsConfigured_def exampleState_def
      exampleCredentials_def makeRequest_def requestUrl_def apiRequest_def googleServer_def
      getProp_def orElse_def tasksOfList_def dueInWindow_def exampleTasks_def
      exampleRuntime_def exampleDates_def taskListsUrl_def tasksUrl_def TASKS_API_BASE_def)

section \<open>Properties of the facades\<close>

lemma getFromCache_absent:
  "cache fs key = None \<Longrightarrow> getFromCache now key fs = (None, fs)"
  by (simp add: getFromCache_def)

lemma getFromCache_fresh:
  "cache fs key = Some e \<Longrightarrow> now - timestamp e \<le> CACHE_TTL \<Longrightarrow>
   getFromCache now key fs = (Some (data e), fs)"
  by (simp add: getFromCache_def)

lemma getFromCache_stale:
  "cache fs key = Some e \<Longrightarrow> now - timestamp e > CACHE_TTL \<Longrightarrow>
   getFromCache now key fs = (None, fs\<lparr>cache := (cache fs)(key := None)\<rparr>)"
  by (simp add: getFromCache_def)

lemma getFromCache_Some:
  "fst (getFromCache now key fs) = Some d \<Longrightarrow>
   \<exists>e. cache fs key = Some e \<and> data e = d \<and> now - timestamp e \<le> CACHE_TTL"
  by (auto simp: getFromCache_def split: option.splits if_splits)

lemma getFromCache_None:
  "getFromCache now key fs = (None, fs') \<Longrightarrow>
   cache fs' key = None \<and> isReady fs' = isReady fs \<and> hasApi fs' = hasApi fs"
  by (auto simp: getFromCache_def split: option.splits if_splits)

lemma withRetry_returns:
  "fn w = (Inr v, w') \<Longrightarrow> 0 \<le> maxRetries (finalConfig config) \<Longrightarrow>
   withRetry rnd fn config w = \<lparr>outcome = Inr v, calls = 1, delays = [], final = w'\<rparr>"
  unfolding withRetry_def by (simp add: loop_return)

lemma withRetry_no_attempt:
  "\<not> 0 \<le> maxRetries (finalConfig config) \<Longrightarrow>
   withRetry rnd fn config w = \<lparr>outcome = Inl ThrownUndefined, calls = 0, delays = [], final = w\<rparr>"
  unfolding withRetry_def by (simp add: loop_exit)

lemma loop_calls_ge:
  "attempt \<le> maxRetries cfg \<Longrightarrow> n < calls (withRetry_loop cfg rnd fn attempt le n ds s)"
proof (induction cfg rnd fn attempt le n ds s rule: withRetry_loop.induct)
  case (1 cfg rnd fn attempt lastError n ds s)
  obtain r s' where fs: "fn s = (r, s')" by (cases "fn s")
  show ?case
  proof (cases r)
    case (Inr v)
    then show ?thesis using "1.prems" fs by (simp add: loop_return)
  next
    case (Inl e)
    have fs': "fn s = (Inl e, s')" using fs Inl by simp
    show ?thesis
    proof (cases "attempt \<ge> maxRetries cfg \<or> \<not> isRetryable cfg (toError e)")
      case stop: True
      have "withRetry_loop cfg rnd fn attempt lastError n ds s =
          \<lparr>outcome = Inl (toError e), calls = Suc n, delays = ds, final = s'\<rparr>"
        using "1.prems" fs' stop by (intro loop_throw) auto
      then show ?thesis by simp
    next
      case False
      let ?d = "if useJitter cfg
                then min (initialDelay cfg * backoffMultiplier cfg ^ nat attempt) (maxDelay cfg) *
                       (0.5 + rnd (length ds) * 0.5)
                else min (initialDelay cfg * backoffMultiplier cfg ^ nat attempt) (maxDelay cfg)"
      let ?r = "withRetry_loop cfg rnd fn (attempt + 1) (toError e) (Suc n) (ds @ [?d]) s'"
      have unf: "withRetry_loop cfg rnd fn attempt lastError n ds s = ?r"
        using False fs' by (intro loop_retry) auto
      have "Suc n < calls ?r"
        by (rule "1.IH" [of r s' e]) (use "1.prems" fs Inl False in auto)
      then show ?thesis using unf by simp
    qed
  qed
qed

lemma withRetry_calls_ge:
  "0 \<le> maxRetries (finalConfig config) \<Longrightarrow> 0 < calls (withRetry rnd fn config w)"
  unfolding withRetry_def using loop_calls_ge [of 0 "finalConfig config" 0 rnd fn ThrownUndefined "[]" w]
  by simp

lemma withRetry_Inr_attempted:
  "outcome (withRetry rnd fn config w) = Inr v \<Longrightarrow> 0 \<le> maxRetries (finalConfig config)"
  by (rule ccontr) (simp add: withRetry_no_attempt)

lemma ensureReady_ok:
  "hasApi fs \<or> isReady fs \<Longrightarrow> ensureReady name fs = (Inr (), fs\<lparr>isReady := True\<rparr>)"
  by (auto simp: ensureReady_def initialize_def)

lemma ensureReady_fail:
  "\<not> hasApi fs \<Longrightarrow> \<not> isReady fs \<Longrightarrow>
   ensureReady name fs = (Inl (ServiceError ''Google Calendar API not provided'' name None), fs)"
  by (auto simp: ensureReady_def initialize_def)

lemma getFromCache_ready:
  "getFromCache now key (fs\<lparr>isReady := b\<rparr>) =
     (fst (getFromCache now key fs), (snd (getFromCache now key fs))\<lparr>isReady := b\<rparr>)"
  by (simp add: getFromCache_def split: option.split)

text \<open>The body of a mutation once the facade is ready.\<close>

lemma mutate_ready:
  "hasApi fs \<or> isReady fs \<Longrightarrow>
   mutate name failure transform cfg rnd (Inr a) call (fs, w) =
     (let r = withRetry rnd (call a) cfg w in
      case outcome r of
        Inl error \<Rightarrow>
          (Inl (ServiceError failure name (instanceofError error)), calls r,
           fs\<lparr>isReady := True\<rparr>, final r)
      | Inr result \<Rightarrow>
          (case transform result of
             Inl error \<Rightarrow>
               (Inl (ServiceError failure name (instanceofError error)), calls r,
                clearCache (fs\<lparr>isReady := True\<rparr>), final r)
           | Inr v \<Rightarrow> (Inr v, calls r, clearCache (fs\<lparr>isReady := True\<rparr>), final r)))"
  by (simp add: mutate_def ensureReady_ok)

lemma mutate_success:
  assumes "mutate name failure transform cfg rnd request call (fs, w) = (Inr v, c, fs1, w1)"
  shows "cache fs1 = Map.empty \<and> isReady fs1 \<and> 0 \<le> maxRetries (finalConfig cfg)"
proof (cases "hasApi fs \<or> isReady fs")
  case False
  then show ?thesis using assms by (simp add: mutate_def ensureReady_fail)
next
  case True
  show ?thesis
  proof (cases request)
    case (Inl e)
    then show ?thesis using assms True by (simp add: mutate_def ensureReady_ok)
  next
    case (Inr a)
    let ?r = "withRetry rnd (call a) cfg w"
    from assms have m: "mutate name failure transform cfg rnd (Inr a) call (fs, w) = (Inr v, c, fs1, w1)"
      using Inr by simp
    show ?thesis
    proof (cases "outcome ?r")
      case (Inl e)
      then show ?thesis using m unfolding mutate_ready [OF True] by (simp add: Let_def)
    next
      case res: (Inr result)
      have att: "0 \<le> maxRetries (finalConfig cfg)" using res by (rule withRetry_Inr_attempted)
      show ?thesis
      proof (cases "transform result")
        case (Inl e)
        then show ?thesis using m res unfolding mutate_ready [OF True] by (simp add: Let_def)
      next
        case (Inr v')
        then show ?thesis using m res att unfolding mutate_ready [OF True]
          by (auto simp add: Let_def clearCache_def)
      qed
    qed
  qed
qed

lemma mutate_api_failure:
  assumes "hasApi fs" and "request = Inr a" and "outcome (withRetry rnd (call a) cfg w) = Inl e"
  shows "mutate name failure transform cfg rnd request call (fs, w) =
           (Inl (ServiceError failure name (instanceofError e)),
            calls (withRetry rnd (call a) cfg w), fs\<lparr>isReady := True\<rparr>,
            final (withRetry rnd (call a) cfg w))"
  using assms by (simp add: mutate_ready Let_def)

lemma fetchEvents_ready:
  "hasApi fs \<or> isReady fs \<Longrightarrow>
   fetchEvents api cfg rnd options tLookup tStore (fs, w) =
     (case getFromCache tLookup (getCacheKey options) (fs\<lparr>isReady := True\<rparr>) of
        (Some cached, fs2) \<Rightarrow> (Inr cached, 0, fs2, w)
      | (None, fs2) \<Rightarrow>
          let r = withRetry rnd
                    (api_getEventsAndTasksForDateRange api (startDate options) (endDate options))
                    cfg w
          in (case outcome r of
                Inl error \<Rightarrow>
                  (Inl (ServiceError ''Failed to fetch events'' ''GoogleCalendarFacade''
                          (instanceofError error)),
                   calls r, fs2, final r)
              | Inr result \<Rightarrow>
                  (case transformEvents
                          (orElse (optProp (optProp result ''events'') ''items'') (JArr [])) of
                     Inl error \<Rightarrow>
                       (Inl (ServiceError ''Failed to fetch events'' ''GoogleCalendarFacade''
                               (instanceofError error)),
                        calls r, fs2, final r)
                   | Inr events \<Rightarrow>
                       (Inr events, calls r, setCache tStore (getCacheKey options) events fs2,
                        final r))))"
  by (simp add: fetchEvents_def ensureReady_ok)

lemma fetchEvents_hit:
  assumes "isReady fs" and "cache fs (getCacheKey options) = Some e"
    and "now - timestamp e \<le> CACHE_TTL"
  shows "fetchEvents api cfg rnd options now tStore (fs, w) = (Inr (data e), 0, fs, w)"
proof -
  have "fs\<lparr>isReady := True\<rparr> = fs" using assms(1) by simp
  then show ?thesis
    using assms by (simp add: fetchEvents_ready getFromCache_fresh)
qed

lemma fetchEvents_miss_calls:
  assumes "hasApi fs \<or> isReady fs" and "fst (getFromCache now (getCacheKey options) fs) = None"
  shows "fst (snd (fetchEvents api cfg rnd options now tStore (fs, w))) =
           calls (withRetry rnd
                    (api_getEventsAndTasksForDateRange api (startDate options) (endDate options))
                    cfg w)"
proof -
  obtain fs2 where g: "getFromCache now (getCacheKey options) (fs\<lparr>isReady := True\<rparr>) = (None, fs2)"
    using assms(2) by (simp add: getFromCache_ready)
  show ?thesis
    unfolding fetchEvents_ready [OF assms(1)] g
    by (simp add: Let_def split: sum.split)
qed

lemma fetchEvents_miss_success:
  assumes "fetchEvents api cfg rnd options now tStore (fs, w) = (Inr d, c, fs1, w1)"
    and "fst (getFromCache now (getCacheKey options) fs) = None"
  shows "isReady fs1 \<and> cache fs1 (getCacheKey options) = Some \<lparr>data = d, timestamp = tStore\<rparr>
       \<and> c = calls (withRetry rnd
                (api_getEventsAndTasksForDateRange api (startDate options) (endDate options)) cfg w)
       \<and> 0 \<le> maxRetries (finalConfig cfg)"
proof (cases "hasApi fs \<or> isReady fs")
  case False
  then show ?thesis using assms(1) by (simp add: fetchEvents_def ensureReady_fail)
next
  case True
  let ?r = "withRetry rnd
              (api_getEventsAndTasksForDateRange api (startDate options) (endDate options)) cfg w"
  obtain fs2 where g: "getFromCache now (getCacheKey options) (fs\<lparr>isReady := True\<rparr>) = (None, fs2)"
    using assms(2) by (simp add: getFromCache_ready)
  have r2: "isReady fs2" using getFromCache_None [OF g] by simp
  from assms(1) obtain result where res: "outcome ?r = Inr result"
    unfolding fetchEvents_ready [OF True] g by (cases "outcome ?r") (auto simp: Let_def)
  have att: "0 \<le> maxRetries (finalConfig cfg)" using res by (rule withRetry_Inr_attempted)
  from assms(1) res
  have "c = calls ?r \<and> fs1 = setCache tStore (getCacheKey options) d fs2"
    unfolding fetchEvents_ready [OF True] g by (auto simp: Let_def split: sum.splits)
  then show ?thesis using r2 att by (simp add: setCache_def)
qed

lemma fetchTasks_ready:
  "hasApi fs \<or> isReady fs \<Longrightarrow>
   fetchTasks api cfg rnd options tLookup tStore (fs, w) =
     (case getFromCache tLookup (getTasksCacheKey options) (fs\<lparr>isReady := True\<rparr>) of
        (Some cached, fs2) \<Rightarrow> (Inr cached, 0, fs2, w)
      | (None, fs2) \<Rightarrow>
          if present (t_startDate options) \<and> present (t_endDate options) then
            fetchedTasks tStore (getTasksCacheKey options) fs2
              (withRetry rnd
                 (api_getEventsAndTasksForDateRange api (the (t_startDate options))
                    (the (t_endDate options)))
                 cfg w)
          else if present (t_startDate options) then
            fetchedTasks tStore (getTasksCacheKey options) fs2
              (withRetry rnd (api_getEventsAndTasksForDate api (the (t_startDate options))) cfg w)
          else (Inr [], 0, setCache tStore (getTasksCacheKey options) [] fs2, w))"
  by (simp add: fetchTasks_def ensureReady_ok)

lemma fetchTasks_hit:
  assumes "isReady fs" and "cache fs (getTasksCacheKey options) = Some e"
    and "now - timestamp e \<le> CACHE_TTL"
  shows "fetchTasks api cfg rnd options now tStore (fs, w) = (Inr (data e), 0, fs, w)"
proof -
  have "fs\<lparr>isReady := True\<rparr> = fs" using assms(1) by simp
  then show ?thesis
    using assms by (simp add: fetchTasks_ready getFromCache_fresh)
qed

lemma fetchedTasks_calls: "fst (snd (fetchedTasks tStore key fs r)) = calls r"
  by (simp add: fetchedTasks_def split: sum.split)

lemma fetchedTasks_success:
  "fetchedTasks tStore key fs r = (Inr d, c, fs1, w1) \<Longrightarrow>
   c = calls r \<and> fs1 = setCache tStore key d fs \<and> (\<exists>v. outcome r = Inr v)"
  by (auto simp: fetchedTasks_def split: sum.splits)

text \<open>The API call that \<open>fetchTasks\<close> makes when the options have a start date.\<close>

lemma fetchTasks_miss_calls:
  assumes "hasApi fs \<or> isReady fs"
    and "fst (getFromCache now (getTasksCacheKey options) fs) = None"
    and "present (t_startDate options)"
  shows "fst (snd (fetchTasks api cfg rnd options now tStore (fs, w))) =
           calls (withRetry rnd
                    (if present (t_endDate options)
                     then api_getEventsAndTasksForDateRange api (the (t_startDate options))
                            (the (t_endDate options))
                     else api_getEventsAndTasksForDate api (the (t_startDate options)))
                    cfg w)"
proof -
  obtain fs2 where g: "getFromCache now (getTasksCacheKey options) (fs\<lparr>isReady := True\<rparr>) = (None, fs2)"
    using assms(2) by (simp add: getFromCache_ready)
  show ?thesis
    unfolding fetchTasks_ready [OF assms(1)] g using assms(3)
    by (simp add: fetchedTasks_calls)
qed

lemma fetchTasks_miss_success:
  assumes "fetchTasks api cfg rnd options now tStore (fs, w) = (Inr d, c, fs1, w1)"
    and "fst (getFromCache now (getTasksCacheKey options) fs) = None"
    and "present (t_startDate options)"
  shows "isReady fs1 \<and> cache fs1 (getTasksCacheKey options) = Some \<lparr>data = d, timestamp = tStore\<rparr>
       \<and> c = calls (withRetry rnd
                    (if present (t_endDate options)
                     then api_getEventsAndTasksForDateRange api (the (t_startDate options))
                            (the (t_endDate options))
                     else api_getEventsAndTasksForDate api (the (t_startDate options)))
                    cfg w)
       \<and> 0 \<le> maxRetries (finalConfig cfg)"
proof (cases "hasApi fs \<or> isReady fs")
  case False
  then show ?thesis using assms(1) by (simp add: fetchTasks_def ensureReady_fail)
next
  case True
  let ?fn = "if present (t_endDate options)
             then api_getEventsAndTasksForDateRange api (the (t_startDate options))
                    (the (t_endDate options))
             else api_getEventsAndTasksForDate api (the (t_startDate options))"
  let ?r = "withRetry rnd ?fn cfg w"
  obtain fs2 where g: "getFromCache now (getTasksCacheKey options) (fs\<lparr>isReady := True\<rparr>) = (None, fs2)"
    using assms(2) by (simp add: getFromCache_ready)
  have r2: "isReady fs2" using getFromCache_None [OF g] by simp
  have "fetchedTasks tStore (getTasksCacheKey options) fs2 ?r = (Inr d, c, fs1, w1)"
    using assms(1,3) unfolding fetchTasks_ready [OF True] g by (simp split: if_splits)
  from fetchedTasks_success [OF this]
  obtain v where c: "c = calls ?r" and f: "fs1 = setCache tStore (getTasksCacheKey options) d fs2"
    and o: "outcome ?r = Inr v" by blast
  have att: "0 \<le> maxRetries (finalConfig cfg)" using o by (rule withRetry_Inr_attempted)
  show ?thesis using c f r2 att by (simp add: setCache_def)
qed

text \<open>The combined fetches of the API client never throw.\<close>

lemma getEventsAndTasksForDateRange_returns:
  "\<exists>v w'. getEventsAndTasksForDateRange rt srv fromDate toDate w = (Inr v, w')"
  by (simp add: getEventsAndTasksForDateRange_def split: prod.split sum.split)

lemma getEventsAndTasksForDate_returns:
  "\<exists>v w'. getEventsAndTasksForDate rt srv date w = (Inr v, w')"
  by (simp add: getEventsAndTasksForDate_def split: prod.split sum.split)

lemma google_range_calls:
  "0 \<le> maxRetries (finalConfig cfg) \<Longrightarrow>
   calls (withRetry rnd (api_getEventsAndTasksForDateRange (GoogleCalendarAPI rt srv) a b) cfg w) = 1"
proof -
  assume att: "0 \<le> maxRetries (finalConfig cfg)"
  obtain v w' where "getEventsAndTasksForDateRange rt srv a b w = (Inr v, w')"
    using getEventsAndTasksForDateRange_returns by blast
  then have "api_getEventsAndTasksForDateRange (GoogleCalendarAPI rt srv) a b w = (Inr v, w')"
    by (simp add: GoogleCalendarAPI_def)
  then show ?thesis using att by (simp add: withRetry_returns)
qed

lemma google_date_calls:
  "0 \<le> maxRetries (finalConfig cfg) \<Longrightarrow>
   calls (withRetry rnd (api_getEventsAndTasksForDate (GoogleCalendarAPI rt srv) a) cfg w) = 1"
proof -
  assume att: "0 \<le> maxRetries (finalConfig cfg)"
  obtain v w' where "getEventsAndTasksForDate rt srv a w = (Inr v, w')"
    using getEventsAndTasksForDate_returns by blast
  then have "api_getEventsAndTasksForDate (GoogleCalendarAPI rt srv) a w = (Inr v, w')"
    by (simp add: GoogleCalendarAPI_def)
  then show ?thesis using att by (simp add: withRetry_returns)
qed

text \<open>
  C4 on the keys whose fetch reaches the API. For \<open>fetchEvents\<close>, and for \<open>fetchTasks\<close>
  when the options carry a start date, on the API client of this repository: a fetch
  that misses the cache and returns makes exactly one call of the API; a second fetch
  with the same key no later than 60 seconds after the entry was stored makes no call
  and returns the same data, the state unchanged; a second fetch later than that makes
  exactly one call again. The cache lookup never returns an entry older than 60 seconds.
\<close>

theorem facade_cache_round_trip:
  "(fst (getFromCache t0 (getCacheKey options) fs) = None \<and>
    fetchEvents (GoogleCalendarAPI rt srv) cfg rnd options t0 t1 (fs, w) = (Inr d, c1, fs1, w1) \<and>
    getCacheKey options' = getCacheKey options
    \<longrightarrow> c1 = 1
      \<and> (t2 - t1 \<le> CACHE_TTL \<longrightarrow>
           fetchEvents (GoogleCalendarAPI rt srv) cfg rnd' options' t2 t3 (fs1, w1)
             = (Inr d, 0, fs1, w1))
      \<and> (t2 - t1 > CACHE_TTL \<longrightarrow>
           fst (snd (fetchEvents (GoogleCalendarAPI rt srv) cfg rnd' options' t2 t3 (fs1, w1))) = 1))
   \<and> (fst (getFromCache u0 (getTasksCacheKey toptions) tfs) = None \<and>
      present (t_startDate toptions) \<and> present (t_startDate toptions') \<and>
      fetchTasks (GoogleCalendarAPI rt srv) tcfg trnd toptions u0 u1 (tfs, tw) = (Inr td, tc1, tfs1, tw1) \<and>
      getTasksCacheKey toptions' = getTasksCacheKey toptions
      \<longrightarrow> tc1 = 1
        \<and> (u2 - u1 \<le> CACHE_TTL \<longrightarrow>
             fetchTasks (GoogleCalendarAPI rt srv) tcfg trnd' toptions' u2 u3 (tfs1, tw1)
               = (Inr td, 0, tfs1, tw1))
        \<and> (u2 - u1 > CACHE_TTL \<longrightarrow>
             fst (snd (fetchTasks (GoogleCalendarAPI rt srv) tcfg trnd' toptions' u2 u3 (tfs1, tw1))) = 1))
   \<and> (fst (getFromCache now key cfs) = Some cached
      \<longrightarrow> (\<exists>e. cache cfs key = Some e \<and> data e = cached \<and> now - timestamp e \<le> CACHE_TTL))"
proof (intro conjI impI)
  assume a: "fst (getFromCache t0 (getCacheKey options) fs) = None \<and>
    fetchEvents (GoogleCalendarAPI rt srv) cfg rnd options t0 t1 (fs, w) = (Inr d, c1, fs1, w1) \<and>
    getCacheKey options' = getCacheKey options"
  let ?e = "\<lparr>data = d, timestamp = t1\<rparr>"
  from a fetchEvents_miss_success [of "GoogleCalendarAPI rt srv" cfg rnd options t0 t1 fs w d c1 fs1 w1]
  have rdy: "isReady fs1" and ent: "cache fs1 (getCacheKey options') = Some ?e"
    and c: "c1 = calls (withRetry rnd (api_getEventsAndTasksForDateRange (GoogleCalendarAPI rt srv)
                 (startDate options) (endDate options)) cfg w)"
    and att: "0 \<le> maxRetries (finalConfig cfg)"
    by simp_all
  show "c1 = 1" using c att by (simp add: google_range_calls)
  {
    assume "t2 - t1 \<le> CACHE_TTL"
    then show "fetchEvents (GoogleCalendarAPI rt srv) cfg rnd' options' t2 t3 (fs1, w1)
        = (Inr d, 0, fs1, w1)"
      using fetchEvents_hit [OF rdy ent, of t2] by simp
  }
  {
    assume "t2 - t1 > CACHE_TTL"
    then have "fst (getFromCache t2 (getCacheKey options') fs1) = None"
      using getFromCache_stale [OF ent, of t2] by simp
    then show "fst (snd (fetchEvents (GoogleCalendarAPI rt srv) cfg rnd' options' t2 t3 (fs1, w1))) = 1"
      using rdy att by (simp add: fetchEvents_miss_calls google_range_calls)
  }
next
  assume a: "fst (getFromCache u0 (getTasksCacheKey toptions) tfs) = None \<and>
      present (t_startDate toptions) \<and> present (t_startDate toptions') \<and>
      fetchTasks (GoogleCalendarAPI rt srv) tcfg trnd toptions u0 u1 (tfs, tw) = (Inr td, tc1, tfs1, tw1) \<and>
      getTasksCacheKey toptions' = getTasksCacheKey toptions"
  let ?e = "\<lparr>data = td, timestamp = u1\<rparr>"
  from a fetchTasks_miss_success [of "GoogleCalendarAPI rt srv" tcfg trnd toptions u0 u1 tfs tw td tc1 tfs1 tw1]
  have rdy: "isReady tfs1" and ent: "cache tfs1 (getTasksCacheKey toptions') = Some ?e"
    and c: "tc1 = calls (withRetry trnd
                    (if present (t_endDate toptions)
                     then api_getEventsAndTasksForDateRange (GoogleCalendarAPI rt srv)
                            (the (t_startDate toptions)) (the (t_endDate toptions))
                     else api_getEventsAndTasksForDate (GoogleCalendarAPI rt srv)
                            (the (t_startDate toptions)))
                    tcfg tw)"
    and att: "0 \<le> maxRetries (finalConfig tcfg)"
    by simp_all
  from a have p': "present (t_startDate toptions')" by simp
  show "tc1 = 1" using c att by (simp add: google_range_calls google_date_calls)
  {
    assume "u2 - u1 \<le> CACHE_TTL"
    then show "fetchTasks (GoogleCalendarAPI rt srv) tcfg trnd' toptions' u2 u3 (tfs1, tw1)
        = (Inr td, 0, tfs1, tw1)"
      using fetchTasks_hit [OF rdy ent, of u2] by simp
  }
  {
    assume "u2 - u1 > CACHE_TTL"
    then have "fst (getFromCache u2 (getTasksCacheKey toptions') tfs1) = None"
      using getFromCache_stale [OF ent, of u2] by simp
    then show "fst (snd (fetchTasks (GoogleCalendarAPI rt srv) tcfg trnd' toptions' u2 u3 (tfs1, tw1))) = 1"
      using rdy att p' by (simp add: fetchTasks_miss_calls google_range_calls google_date_calls)
  }
next
  assume "fst (getFromCache now key cfs) = Some cached"
  then show "\<exists>e. cache cfs key = Some e \<and> data e = cached \<and> now - timestamp e \<le> CACHE_TTL"
    by (rule getFromCache_Some)
qed

text \<open>
  C4 at \<open>fetchTasks\<close> without dates, the branch marked \<open>TODO: Implement fetching all
  tasks\<close>: two fetches with the key \<open>all-all-default\<close>, the second 120 seconds after the
  first has stored its entry, both miss the cache, and neither calls the API nor sends
  an HTTP request; each returns the empty list.
\<close>

theorem fetchTasks_without_dates_no_api_call:
  "(case fetchTasks (GoogleCalendarAPI exampleRuntime googleServer) defaultFacadeRetryConfig
           (\<lambda>k. 0) noDates 0 0 (newFacade, exampleState (JStr ''token'') JUndefined) of
      (r1, c1, fs1, w1) \<Rightarrow>
        r1 = Inr [] \<and> c1 = 0 \<and> getTasksCacheKey noDates = ''all-all-default'' \<and>
        map_option timestamp (cache fs1 ''all-all-default'') = Some 0 \<and>
        (case fetchTasks (GoogleCalendarAPI exampleRuntime googleServer) defaultFacadeRetryConfig
                (\<lambda>k. 0) noDates 120000 120000 (fs1, w1) of
           (r2, c2, fs2, w2) \<Rightarrow> r2 = Inr [] \<and> c2 = 0 \<and> requests w2 = []))"
  by (simp add: fetchTasks_def ensureReady_def initialize_def newFacade_def getFromCache_def
      getTasksCacheKey_def noDates_def strOr_def present_def setCache_def CACHE_TTL_def
      exampleState_def)


lemma example_api_range:
  "fst (getEventsAndTasksForDateRange exampleRuntime googleServer ''2024-01-10'' ''2024-01-10''
         (exampleState (JStr ''token'') JUndefined))
   = Inr (JObj [(''events'', JObj [(''items'',
                   JArr [JObj [(''id'', JStr ''e1''), (''summary'', JStr ''Standup'')]])]),
                (''tasks'', JObj [(''items'',
                   JArr [exampleTasks ! 0, exampleTasks ! 2, exampleTasks ! 3])])])"
  by (simp add: getEventsAndTasksForDateRange_def getEventsForDateRange_def
      getTasksForDateRange_def credentialsConfigured_def exampleState_def
      exampleCredentials_def makeRequest_def requestUrl_def apiRequest_def googleServer_def
      getProp_def orElse_def tasksOfList_def dueInWindow_def exampleTasks_def
      exampleRuntime_def exampleDates_def taskListsUrl_def tasksUrl_def TASKS_API_BASE_def
      eventsUrl_def CALENDAR_API_BASE_def)

lemma example_retry_config: "0 \<le> maxRetries (finalConfig defaultFacadeRetryConfig)"
  by (simp add: finalConfig_def defaultFacadeRetryConfig_def orDefault_def)

lemma example_fetchEvents:
  "fst (fetchEvents (GoogleCalendarAPI exampleRuntime googleServer) defaultFacadeRetryConfig
          (\<lambda>k. 0) tenthOfJanuary 1000 2000 (newFacade, exampleState (JStr ''token'') JUndefined))
   = Inr [JObj [(''id'', JStr ''e1''), (''summary'', JStr ''Standup''),
                (''description'', JUndefined), (''start'', JObj []), (''end'', JObj []),
                (''location'', JUndefined), (''attendees'', JUndefined),
                (''recurrence'', JUndefined), (''status'', JUndefined)]]"
proof -
  let ?st = "exampleState (JStr ''token'') JUndefined"
  let ?a = "getEventsAndTasksForDateRange exampleRuntime googleServer ''2024-01-10'' ''2024-01-10'' ?st"
  have "?a = (fst ?a, snd ?a)" by simp
  then have call: "api_getEventsAndTasksForDateRange (GoogleCalendarAPI exampleRuntime googleServer)
      (startDate tenthOfJanuary) (endDate tenthOfJanuary) ?st
      = (Inr (JObj [(''events'', JObj [(''items'',
                   JArr [JObj [(''id'', JStr ''e1''), (''summary'', JStr ''Standup'')]])]),
                (''tasks'', JObj [(''items'',
                   JArr [exampleTasks ! 0, exampleTasks ! 2, exampleTasks ! 3])])]), snd ?a)"
    unfolding example_api_range by (simp add: GoogleCalendarAPI_def tenthOfJanuary_def)
  have wr: "withRetry (\<lambda>k. 0)
      (api_getEventsAndTasksForDateRange (GoogleCalendarAPI exampleRuntime googleServer)
         (startDate tenthOfJanuary) (endDate tenthOfJanuary)) defaultFacadeRetryConfig ?st
      = \<lparr>outcome = Inr (JObj [(''events'', JObj [(''items'',
                   JArr [JObj [(''id'', JStr ''e1''), (''summary'', JStr ''Standup'')]])]),
                (''tasks'', JObj [(''items'',
                   JArr [exampleTasks ! 0, exampleTasks ! 2, exampleTasks ! 3])])]),
         calls = 1, delays = [], final = snd ?a\<rparr>"
    using call example_retry_config by (simp add: withRetry_returns)
  have h: "hasApi newFacade \<or> isReady newFacade" by (simp add: newFacade_def)
  show ?thesis
    unfolding fetchEvents_ready [OF h] wr
    by (simp add: newFacade_def
        getFromCache_def optProp_def orElse_def transformEvents_def transformEvent_def)
qed


lemma example_fetchTasks:
  "\<exists>td. fst (fetchTasks (GoogleCalendarAPI exampleRuntime googleServer) defaultFacadeRetryConfig
          (\<lambda>k. 0) tasksOfTenthOfJanuary 1000 2000
          (newFacade, exampleState (JStr ''token'') JUndefined)) = Inr td"
proof -
  let ?st = "exampleState (JStr ''token'') JUndefined"
  let ?a = "getEventsAndTasksForDateRange exampleRuntime googleServer ''2024-01-10'' ''2024-01-10'' ?st"
  have "?a = (fst ?a, snd ?a)" by simp
  then have call: "api_getEventsAndTasksForDateRange (GoogleCalendarAPI exampleRuntime googleServer)
      (the (t_startDate tasksOfTenthOfJanuary)) (the (t_endDate tasksOfTenthOfJanuary)) ?st
      = (Inr (JObj [(''events'', JObj [(''items'',
                   JArr [JObj [(''id'', JStr ''e1''), (''summary'', JStr ''Standup'')]])]),
                (''tasks'', JObj [(''items'',
                   JArr [exampleTasks ! 0, exampleTasks ! 2, exampleTasks ! 3])])]), snd ?a)"
    unfolding example_api_range by (simp add: GoogleCalendarAPI_def tasksOfTenthOfJanuary_def)
  have wr: "withRetry (\<lambda>k. 0)
      (api_getEventsAndTasksForDateRange (GoogleCalendarAPI exampleRuntime googleServer)
         (the (t_startDate tasksOfTenthOfJanuary)) (the (t_endDate tasksOfTenthOfJanuary)))
      defaultFacadeRetryConfig ?st
      = \<lparr>outcome = Inr (JObj [(''events'', JObj [(''items'',
                   JArr [JObj [(''id'', JStr ''e1''), (''summary'', JStr ''Standup'')]])]),
                (''tasks'', JObj [(''items'',
                   JArr [exampleTasks ! 0, exampleTasks ! 2, exampleTasks ! 3])])]),
         calls = 1, delays = [], final = snd ?a\<rparr>"
    using call example_retry_config by (simp add: withRetry_returns)
  have h: "hasApi newFacade \<or> isReady newFacade" by (simp add: newFacade_def)
  have p: "present (t_startDate tasksOfTenthOfJanuary) \<and> present (t_endDate tasksOfTenthOfJanuary)"
    by (simp add: present_def tasksOfTenthOfJanuary_def)
  show ?thesis
    unfolding fetchTasks_ready [OF h]
    using p
    by (simp add: wr newFacade_def getFromCache_def fetchedTasks_def optProp_def orElse_def
        transformTasks_def transformTask_def exampleTasks_def)
qed

theorem facade_cache_round_trip_witness:
  "fst (snd (fetchEvents (GoogleCalendarAPI exampleRuntime googleServer) defaultFacadeRetryConfig
          (\<lambda>k. 0) tenthOfJanuary 1000 2000 (newFacade, exampleState (JStr ''token'') JUndefined))) = 1
   \<and> fst (snd (fetchEvents (GoogleCalendarAPI exampleRuntime googleServer) defaultFacadeRetryConfig
          (\<lambda>k. 0) tenthOfJanuary 3000 4000
          (snd (snd (fetchEvents (GoogleCalendarAPI exampleRuntime googleServer)
             defaultFacadeRetryConfig (\<lambda>k. 0) tenthOfJanuary 1000 2000
             (newFacade, exampleState (JStr ''token'') JUndefined)))))) = 0
   \<and> fst (snd (fetchEvents (GoogleCalendarAPI exampleRuntime googleServer) defaultFacadeRetryConfig
          (\<lambda>k. 0) tenthOfJanuary 70000 70001
          (snd (snd (fetchEvents (GoogleCalendarAPI exampleRuntime googleServer)
             defaultFacadeRetryConfig (\<lambda>k. 0) tenthOfJanuary 1000 2000
             (newFacade, exampleState (JStr ''token'') JUndefined)))))) = 1
   \<and> fst (snd (fetchTasks (GoogleCalendarAPI exampleRuntime googleServer) defaultFacadeRetryConfig
          (\<lambda>k. 0) tasksOfTenthOfJanuary 1000 2000
          (newFacade, exampleState (JStr ''token'') JUndefined))) = 1
   \<and> fst (snd (fetchTasks (GoogleCalendarAPI exampleRuntime googleServer) defaultFacadeRetryConfig
          (\<lambda>k. 0) tasksOfTenthOfJanuary 3000 4000
          (snd (snd (fetchTasks (GoogleCalendarAPI exampleRuntime googleServer)
             defaultFacadeRetryConfig (\<lambda>k. 0) tasksOfTenthOfJanuary 1000 2000
             (newFacade, exampleState (JStr ''token'') JUndefined)))))) = 0
   \<and> fst (snd (fetchTasks (GoogleCalendarAPI exampleRuntime googleServer) defaultFacadeRetryConfig
          (\<lambda>k. 0) tasksOfTenthOfJanuary 70000 70001
          (snd (snd (fetchTasks (GoogleCalendarAPI exampleRuntime googleServer)
             defaultFacadeRetryConfig (\<lambda>k. 0) tasksOfTenthOfJanuary 1000 2000
             (newFacade, exampleState (JStr ''token'') JUndefined)))))) = 1
   \<and> (\<exists>e. cache (newFacade\<lparr>cache := [''k'' \<mapsto> \<lparr>data = [], timestamp = 0\<rparr>]\<rparr>) ''k'' = Some e
          \<and> (10::int) - timestamp e \<le> CACHE_TTL)"
proof -
  let ?api = "GoogleCalendarAPI exampleRuntime googleServer"
  let ?st = "exampleState (JStr ''token'') JUndefined"
  let ?x = "fetchEvents ?api defaultFacadeRetryConfig (\<lambda>k. 0) tenthOfJanuary 1000 2000 (newFacade, ?st)"
  let ?y = "fetchTasks ?api defaultFacadeRetryConfig (\<lambda>k. 0) tasksOfTenthOfJanuary 1000 2000
              (newFacade, ?st)"
  let ?cfs = "newFacade\<lparr>cache := [''k'' \<mapsto> \<lparr>data = [], timestamp = 0\<rparr>]\<rparr>"
  obtain d where d: "fst ?x = Inr d" using example_fetchEvents by blast
  obtain td where td: "fst ?y = Inr td" using example_fetchTasks by blast
  have x: "?x = (Inr d, fst (snd ?x), fst (snd (snd ?x)), snd (snd (snd ?x)))"
    using d by (simp add: prod_eq_iff)
  have y: "?y = (Inr td, fst (snd ?y), fst (snd (snd ?y)), snd (snd (snd ?y)))"
    using td by (simp add: prod_eq_iff)
  have miss: "fst (getFromCache 1000 (getCacheKey tenthOfJanuary) newFacade) = None"
    "fst (getFromCache 1000 (getTasksCacheKey tasksOfTenthOfJanuary) newFacade) = None"
    by (simp_all add: getFromCache_def newFacade_def)
  have p: "present (t_startDate tasksOfTenthOfJanuary)"
    by (simp add: present_def tasksOfTenthOfJanuary_def)
  have hit: "fst (getFromCache 10 ''k'' ?cfs) = Some []"
    by (simp add: getFromCache_def newFacade_def CACHE_TTL_def)
  have ttl: "(3000::int) - 2000 \<le> CACHE_TTL" "(70000::int) - 2000 > CACHE_TTL"
    by (simp_all add: CACHE_TTL_def)
  note inst = facade_cache_round_trip [where rt = exampleRuntime and srv = googleServer
      and cfg = defaultFacadeRetryConfig and tcfg = defaultFacadeRetryConfig
      and rnd = "\<lambda>k. 0" and rnd' = "\<lambda>k. 0" and trnd = "\<lambda>k. 0" and trnd' = "\<lambda>k. 0"
      and options = tenthOfJanuary and options' = tenthOfJanuary
      and toptions = tasksOfTenthOfJanuary and toptions' = tasksOfTenthOfJanuary
      and fs = newFacade and tfs = newFacade and w = ?st and tw = ?st
      and ?t0.0 = 1000 and ?t1.0 = 2000 and ?u0.0 = 1000 and ?u1.0 = 2000
      and d = d and td = td
      and ?c1.0 = "fst (snd ?x)" and ?fs1.0 = "fst (snd (snd ?x))" and ?w1.0 = "snd (snd (snd ?x))"
      and ?tc1.0 = "fst (snd ?y)" and ?tfs1.0 = "fst (snd (snd ?y))" and ?tw1.0 = "snd (snd (snd ?y))"
      and cfs = ?cfs and key = "''k''" and now = 10 and cached = "[]"]
  have e1: "fst (snd ?x) = 1"
    and e2: "fetchEvents ?api defaultFacadeRetryConfig (\<lambda>k. 0) tenthOfJanuary 3000 4000
               (fst (snd (snd ?x)), snd (snd (snd ?x))) = (Inr d, 0, fst (snd (snd ?x)), snd (snd (snd ?x)))"
    and e3: "fst (snd (fetchEvents ?api defaultFacadeRetryConfig (\<lambda>k. 0) tenthOfJanuary 70000 70001
               (fst (snd (snd ?x)), snd (snd (snd ?x))))) = 1"
    using inst [where ?t2.0 = 3000 and ?t3.0 = 4000] inst [where ?t2.0 = 70000 and ?t3.0 = 70001]
      miss(1) x ttl by blast+
  have f1: "fst (snd ?y) = 1"
    and f2: "fetchTasks ?api defaultFacadeRetryConfig (\<lambda>k. 0) tasksOfTenthOfJanuary 3000 4000
               (fst (snd (snd ?y)), snd (snd (snd ?y))) = (Inr td, 0, fst (snd (snd ?y)), snd (snd (snd ?y)))"
    and f3: "fst (snd (fetchTasks ?api defaultFacadeRetryConfig (\<lambda>k. 0) tasksOfTenthOfJanuary 70000 70001
               (fst (snd (snd ?y)), snd (snd (snd ?y))))) = 1"
    using inst [where ?u2.0 = 3000 and ?u3.0 = 4000] inst [where ?u2.0 = 70000 and ?u3.0 = 70001]
      miss(2) p y ttl by blast+
  have g: "\<exists>e. cache ?cfs ''k'' = Some e \<and> (10::int) - timestamp e \<le> CACHE_TTL"
    using inst hit by blast
  show ?thesis using e1 e2 e3 f1 f2 f3 g by simp
qed

lemma cleared_cache_misses:
  "cache fs = Map.empty \<Longrightarrow> getFromCache now key fs = (None, fs)"
  by (simp add: getFromCache_def)

lemma fetchEvents_after_clear:
  assumes "isReady fs" and "cache fs = Map.empty" and "0 \<le> maxRetries (finalConfig cfg)"
  shows "1 \<le> fst (snd (fetchEvents api cfg rnd options now tStore (fs, w)))"
proof -
  have m: "fst (getFromCache now (getCacheKey options) fs) = None"
    using assms(2) by (simp add: cleared_cache_misses)
  have r: "hasApi fs \<or> isReady fs" using assms(1) by simp
  have "0 < calls (withRetry rnd
           (api_getEventsAndTasksForDateRange api (startDate options) (endDate options)) cfg w)"
    using assms(3) by (rule withRetry_calls_ge)
  then show ?thesis unfolding fetchEvents_miss_calls [OF r m] by simp
qed

lemma fetchTasks_after_clear:
  assumes "isReady fs" and "cache fs = Map.empty" and "0 \<le> maxRetries (finalConfig cfg)"
    and "present (t_startDate options)"
  shows "1 \<le> fst (snd (fetchTasks api cfg rnd options now tStore (fs, w)))"
proof -
  have m: "fst (getFromCache now (getTasksCacheKey options) fs) = None"
    using assms(2) by (simp add: cleared_cache_misses)
  have r: "hasApi fs \<or> isReady fs" using assms(1) by simp
  have "0 < calls (withRetry rnd
           (if present (t_endDate options)
                     then api_getEventsAndTasksForDateRange api (the (t_startDate options))
                            (the (t_endDate options))
                     else api_getEventsAndTasksForDate api (the (t_startDate options))) cfg w)"
    using assms(3) by (rule withRetry_calls_ge)
  then show ?thesis unfolding fetchTasks_miss_calls [OF r m assms(4)] by simp
qed

lemma event_mutation_success:
  assumes "op = facadeCreateEvent api cfg rnd event calId
      \<or> op = facadeUpdateEvent api cfg rnd eventId updates calId
      \<or> op = facadeDeleteEvent api cfg rnd eventId calId"
    and "op (fs, w) = (Inr v, c, fs1, w1)"
  shows "cache fs1 = Map.empty \<and> isReady fs1 \<and> 0 \<le> maxRetries (finalConfig cfg)"
  using assms(1)
proof (elim disjE)
  assume "op = facadeCreateEvent api cfg rnd event calId"
  then have "mutate ''GoogleCalendarFacade'' ''Failed to create event'' transformEvent cfg rnd
       (createEventBody event) (\<lambda>apiEvent. api_createEvent api apiEvent calId) (fs, w)
      = (Inr v, c, fs1, w1)"
    using assms(2) by (simp add: facadeCreateEvent_def)
  then show ?thesis by (rule mutate_success)
next
  assume "op = facadeUpdateEvent api cfg rnd eventId updates calId"
  then have "mutate ''GoogleCalendarFacade'' ''Failed to update event'' transformEvent cfg rnd
       (updateEventBody updates) (\<lambda>apiEvent. api_updateEvent api eventId apiEvent calId) (fs, w)
      = (Inr v, c, fs1, w1)"
    using assms(2) by (simp add: facadeUpdateEvent_def)
  then show ?thesis by (rule mutate_success)
next
  assume "op = facadeDeleteEvent api cfg rnd eventId calId"
  then have "mutate ''GoogleCalendarFacade'' ''Failed to delete event'' (\<lambda>result. Inr JUndefined)
       cfg rnd (Inr JUndefined) (\<lambda>none. api_deleteEvent api eventId calId) (fs, w)
      = (Inr v, c, fs1, w1)"
    using assms(2) by (simp add: facadeDeleteEvent_def)
  then show ?thesis by (rule mutate_success)
qed


lemma task_mutation_success:
  assumes "op = facadeCreateTask api cfg rnd task listId
      \<or> op = facadeUpdateTask api cfg rnd taskId updates listId
      \<or> op = facadeCompleteTask api cfg rnd taskId nowIso
      \<or> op = facadeDeleteTask api cfg rnd taskId listId"
    and "op (fs, w) = (Inr v, c, fs1, w1)"
  shows "cache fs1 = Map.empty \<and> isReady fs1 \<and> 0 \<le> maxRetries (finalConfig cfg)"
  using assms(1)
proof (elim disjE)
  assume "op = facadeCreateTask api cfg rnd task listId"
  then have "mutate ''GoogleTasksFacade'' ''Failed to create task'' transformTask cfg rnd
       (createTaskBody task) (\<lambda>apiTask. api_createTask api apiTask listId) (fs, w)
      = (Inr v, c, fs1, w1)"
    using assms(2) by (simp add: facadeCreateTask_def)
  then show ?thesis by (rule mutate_success)
next
  assume "op = facadeUpdateTask api cfg rnd taskId updates listId"
  then have "mutate ''GoogleTasksFacade'' ''Failed to update task'' transformTask cfg rnd
       (updateTaskBody updates) (\<lambda>apiTask. api_updateTask api taskId apiTask listId) (fs, w)
      = (Inr v, c, fs1, w1)"
    using assms(2) by (simp add: facadeUpdateTask_def)
  then show ?thesis by (rule mutate_success)
next
  assume "op = facadeCompleteTask api cfg rnd taskId nowIso"
  then have "mutate ''GoogleTasksFacade'' ''Failed to update task'' transformTask cfg rnd
       (updateTaskBody (JObj [(''status'', JStr ''completed''), (''completed'', JStr nowIso)]))
       (\<lambda>apiTask. api_updateTask api taskId apiTask ''@default'') (fs, w)
      = (Inr v, c, fs1, w1)"
    using assms(2) by (simp add: facadeCompleteTask_def facadeUpdateTask_def)
  then show ?thesis by (rule mutate_success)
next
  assume "op = facadeDeleteTask api cfg rnd taskId listId"
  then have "mutate ''GoogleTasksFacade'' ''Failed to delete task'' (\<lambda>result. Inr JUndefined)
       cfg rnd (Inr JUndefined) (\<lambda>none. api_deleteTask api taskId listId) (fs, w)
      = (Inr v, c, fs1, w1)"
    using assms(2) by (simp add: facadeDeleteTask_def)
  then show ?thesis by (rule mutate_success)
qed

text \<open>
  C5 on the keys whose fetch reaches the API. When a create, update, complete or delete
  method of a facade returns, the cache of that facade is empty: a lookup of any key at
  any time misses, whatever the age of the entry it held, and the next \<open>fetchEvents\<close>,
  and the next \<open>fetchTasks\<close> whose options carry a start date, call the API again.
\<close>

theorem mutation_clears_cache:
  "(op \<in> {facadeCreateEvent api cfg rnd event calId,
           facadeUpdateEvent api cfg rnd eventId updates calId,
           facadeDeleteEvent api cfg rnd eventId calId} \<and>
    op (fs, w) = (Inr v, c, fs1, w1)
    \<longrightarrow> cache fs1 = Map.empty
      \<and> (\<forall>now key. getFromCache now key fs1 = (None, fs1))
      \<and> 1 \<le> fst (snd (fetchEvents api cfg rnd' options t t' (fs1, w1))))
   \<and> (taskOp \<in> {facadeCreateTask api cfg rnd task listId,
               facadeUpdateTask api cfg rnd taskId tupdates listId,
               facadeCompleteTask api cfg rnd taskId nowIso,
               facadeDeleteTask api cfg rnd taskId listId} \<and>
      taskOp (tfs, tw) = (Inr tv, tc, tfs1, tw1)
      \<longrightarrow> cache tfs1 = Map.empty
        \<and> (\<forall>now key. getFromCache now key tfs1 = (None, tfs1))
        \<and> (present (t_startDate toptions) \<longrightarrow>
              1 \<le> fst (snd (fetchTasks api cfg rnd' toptions t t' (tfs1, tw1)))))"
proof (intro conjI impI allI)
  assume a: "op \<in> {facadeCreateEvent api cfg rnd event calId,
           facadeUpdateEvent api cfg rnd eventId updates calId,
           facadeDeleteEvent api cfg rnd eventId calId} \<and>
    op (fs, w) = (Inr v, c, fs1, w1)"
  then have d: "op = facadeCreateEvent api cfg rnd event calId
      \<or> op = facadeUpdateEvent api cfg rnd eventId updates calId
      \<or> op = facadeDeleteEvent api cfg rnd eventId calId"
    and r: "op (fs, w) = (Inr v, c, fs1, w1)" by simp_all
  have s: "cache fs1 = Map.empty \<and> isReady fs1 \<and> 0 \<le> maxRetries (finalConfig cfg)"
    using d r by (rule event_mutation_success)
  show "cache fs1 = Map.empty" using s by simp
  show "getFromCache now key fs1 = (None, fs1)" for now key
    using s by (simp add: cleared_cache_misses)
  show "1 \<le> fst (snd (fetchEvents api cfg rnd' options t t' (fs1, w1)))"
    using s by (intro fetchEvents_after_clear) simp_all
next
  assume a: "taskOp \<in> {facadeCreateTask api cfg rnd task listId,
               facadeUpdateTask api cfg rnd taskId tupdates listId,
               facadeCompleteTask api cfg rnd taskId nowIso,
               facadeDeleteTask api cfg rnd taskId listId} \<and>
      taskOp (tfs, tw) = (Inr tv, tc, tfs1, tw1)"
  then have d: "taskOp = facadeCreateTask api cfg rnd task listId
      \<or> taskOp = facadeUpdateTask api cfg rnd taskId tupdates listId
      \<or> taskOp = facadeCompleteTask api cfg rnd taskId nowIso
      \<or> taskOp = facadeDeleteTask api cfg rnd taskId listId"
    and r: "taskOp (tfs, tw) = (Inr tv, tc, tfs1, tw1)" by simp_all
  have s: "cache tfs1 = Map.empty \<and> isReady tfs1 \<and> 0 \<le> maxRetries (finalConfig cfg)"
    using d r by (rule task_mutation_success)
  show "cache tfs1 = Map.empty" using s by simp
  show "getFromCache now key tfs1 = (None, tfs1)" for now key
    using s by (simp add: cleared_cache_misses)
  assume "present (t_startDate toptions)"
  then show "1 \<le> fst (snd (fetchTasks api cfg rnd' toptions t t' (tfs1, tw1)))"
    using s by (intro fetchTasks_after_clear) simp_all
qed

lemma example_createEvent:
  "\<exists>v. fst (facadeCreateEvent (GoogleCalendarAPI exampleRuntime acceptingServer)
          defaultFacadeRetryConfig (\<lambda>k. 0) (JObj [(''summary'', JStr ''Lunch'')]) ''primary''
          (warmFacade, exampleState (JStr ''token'') JUndefined)) = Inr v"
proof -
  let ?api = "GoogleCalendarAPI exampleRuntime acceptingServer"
  let ?st = "exampleState (JStr ''token'') JUndefined"
  let ?a = "JObj [(''summary'', JStr ''Lunch''), (''description'', JUndefined), (''start'', JUndefined),
                (''end'', JUndefined), (''location'', JUndefined), (''attendees'', JUndefined),
                (''recurrence'', JUndefined)]"
  have b: "createEventBody (JObj [(''summary'', JStr ''Lunch'')]) = Inr ?a"
    by (simp add: createEventBody_def pick_def)
  have call: "api_createEvent ?api ?a ''primary'' ?st
      = (Inr (JObj [(''id'', JStr ''created'')]), snd (api_createEvent ?api ?a ''primary'' ?st))"
    by (simp add: GoogleCalendarAPI_def createEvent_def credentialsConfigured_def exampleState_def
        exampleCredentials_def makeRequest_def requestUrl_def acceptingServer_def)
  have wr: "withRetry (\<lambda>k. 0) (api_createEvent ?api ?a ''primary'') defaultFacadeRetryConfig ?st
      = \<lparr>outcome = Inr (JObj [(''id'', JStr ''created'')]), calls = 1, delays = [],
         final = snd (api_createEvent ?api ?a ''primary'' ?st)\<rparr>"
    using call example_retry_config by (simp add: withRetry_returns)
  have h: "hasApi warmFacade \<or> isReady warmFacade" by (simp add: warmFacade_def)
  show ?thesis
    unfolding facadeCreateEvent_def b mutate_ready [OF h] wr
    by (simp add: transformEvent_def)
qed

lemma example_completeTask:
  "\<exists>v. fst (facadeCompleteTask (GoogleCalendarAPI exampleRuntime acceptingServer)
          defaultFacadeRetryConfig (\<lambda>k. 0) ''t1'' ''2024-01-10T00:00:00.000Z''
          (warmFacade, exampleState (JStr ''token'') JUndefined)) = Inr v"
proof -
  let ?api = "GoogleCalendarAPI exampleRuntime acceptingServer"
  let ?st = "exampleState (JStr ''token'') JUndefined"
  let ?a = "JObj [(''title'', JUndefined), (''notes'', JUndefined), (''status'', JStr ''completed''),
                  (''due'', JUndefined), (''completed'', JStr ''2024-01-10T00:00:00.000Z'')]"
  have b: "updateTaskBody (JObj [(''status'', JStr ''completed''),
             (''completed'', JStr ''2024-01-10T00:00:00.000Z'')]) = Inr ?a"
    by (simp add: updateTaskBody_def pick_def)
  have call: "api_updateTask ?api ''t1'' ?a ''@default'' ?st
      = (Inr (JObj [(''id'', JStr ''created'')]), snd (api_updateTask ?api ''t1'' ?a ''@default'' ?st))"
    by (simp add: GoogleCalendarAPI_def updateTask_def credentialsConfigured_def exampleState_def
        exampleCredentials_def makeRequest_def requestUrl_def acceptingServer_def)
  have wr: "withRetry (\<lambda>k. 0) (api_updateTask ?api ''t1'' ?a ''@default'') defaultFacadeRetryConfig ?st
      = \<lparr>outcome = Inr (JObj [(''id'', JStr ''created'')]), calls = 1, delays = [],
         final = snd (api_updateTask ?api ''t1'' ?a ''@default'' ?st)\<rparr>"
    using call example_retry_config by (simp add: withRetry_returns)
  have h: "hasApi warmFacade \<or> isReady warmFacade" by (simp add: warmFacade_def)
  show ?thesis
    unfolding facadeCompleteTask_def facadeUpdateTask_def b mutate_ready [OF h] wr
    by (simp add: transformTask_def)
qed

theorem mutation_clears_cache_witness:
  "getFromCache 10 (getCacheKey tenthOfJanuary)
       (fst (snd (snd (facadeCreateEvent (GoogleCalendarAPI exampleRuntime acceptingServer)
          defaultFacadeRetryConfig (\<lambda>k. 0) (JObj [(''summary'', JStr ''Lunch'')]) ''primary''
          (warmFacade, exampleState (JStr ''token'') JUndefined)))))
     = (None,
        fst (snd (snd (facadeCreateEvent (GoogleCalendarAPI exampleRuntime acceptingServer)
          defaultFacadeRetryConfig (\<lambda>k. 0) (JObj [(''summary'', JStr ''Lunch'')]) ''primary''
          (warmFacade, exampleState (JStr ''token'') JUndefined)))))
   \<and> 1 \<le> fst (snd (fetchEvents (GoogleCalendarAPI exampleRuntime acceptingServer)
          defaultFacadeRetryConfig (\<lambda>k. 0) tenthOfJanuary 10 11
          (snd (snd (facadeCreateEvent (GoogleCalendarAPI exampleRuntime acceptingServer)
             defaultFacadeRetryConfig (\<lambda>k. 0) (JObj [(''summary'', JStr ''Lunch'')]) ''primary''
             (warmFacade, exampleState (JStr ''token'') JUndefined))))))
   \<and> 1 \<le> fst (snd (fetchTasks (GoogleCalendarAPI exampleRuntime acceptingServer)
          defaultFacadeRetryConfig (\<lambda>k. 0) tasksOfTenthOfJanuary 10 11
          (snd (snd (facadeCompleteTask (GoogleCalendarAPI exampleRuntime acceptingServer)
             defaultFacadeRetryConfig (\<lambda>k. 0) ''t1'' ''2024-01-10T00:00:00.000Z''
             (warmFacade, exampleState (JStr ''token'') JUndefined))))))"
proof -
  let ?api = "GoogleCalendarAPI exampleRuntime acceptingServer"
  let ?st = "exampleState (JStr ''token'') JUndefined"
  let ?ev = "JObj [(''summary'', JStr ''Lunch'')]"
  let ?x = "facadeCreateEvent ?api defaultFacadeRetryConfig (\<lambda>k. 0) ?ev ''primary'' (warmFacade, ?st)"
  let ?y = "facadeCompleteTask ?api defaultFacadeRetryConfig (\<lambda>k. 0) ''t1''
              ''2024-01-10T00:00:00.000Z'' (warmFacade, ?st)"
  obtain v where v: "fst ?x = Inr v" using example_createEvent by blast
  obtain tv where tv: "fst ?y = Inr tv" using example_completeTask by blast
  have x: "?x = (Inr v, fst (snd ?x), fst (snd (snd ?x)), snd (snd (snd ?x)))"
    using v by (simp add: prod_eq_iff)
  have y: "?y = (Inr tv, fst (snd ?y), fst (snd (snd ?y)), snd (snd (snd ?y)))"
    using tv by (simp add: prod_eq_iff)
  have p: "present (t_startDate tasksOfTenthOfJanuary)"
    by (simp add: present_def tasksOfTenthOfJanuary_def)
  note inst = mutation_clears_cache [where api = ?api and cfg = defaultFacadeRetryConfig
      and rnd = "\<lambda>k. 0" and rnd' = "\<lambda>k. 0" and fs = warmFacade and tfs = warmFacade
      and w = ?st and tw = ?st and event = ?ev and calId = "''primary''"
      and taskId = "''t1''" and nowIso = "''2024-01-10T00:00:00.000Z''"
      and op = "facadeCreateEvent ?api defaultFacadeRetryConfig (\<lambda>k. 0) ?ev ''primary''"
      and v = v and c = "fst (snd ?x)" and ?fs1.0 = "fst (snd (snd ?x))"
      and ?w1.0 = "snd (snd (snd ?x))"
      and taskOp = "facadeCompleteTask ?api defaultFacadeRetryConfig (\<lambda>k. 0) ''t1''
                      ''2024-01-10T00:00:00.000Z''"
      and tv = tv and tc = "fst (snd ?y)" and ?tfs1.0 = "fst (snd (snd ?y))"
      and ?tw1.0 = "snd (snd (snd ?y))"
      and options = tenthOfJanuary and toptions = tasksOfTenthOfJanuary and t = 10 and t' = 11]
  have a: "getFromCache 10 (getCacheKey tenthOfJanuary) (fst (snd (snd ?x)))
             = (None, fst (snd (snd ?x)))"
    and b: "1 \<le> fst (snd (fetchEvents ?api defaultFacadeRetryConfig (\<lambda>k. 0) tenthOfJanuary 10 11
               (fst (snd (snd ?x)), snd (snd (snd ?x)))))"
    using inst x by simp_all
  have c: "1 \<le> fst (snd (fetchTasks ?api defaultFacadeRetryConfig (\<lambda>k. 0) tasksOfTenthOfJanuary 10 11
               (fst (snd (snd ?y)), snd (snd (snd ?y)))))"
    using inst y p by simp
  show ?thesis using a b c by simp
qed

text \<open>
  C5 at \<open>fetchTasks\<close> without dates, the branch marked \<open>TODO: Implement fetching all
  tasks\<close>. A fetch without dates stores an entry under the key \<open>all-all-default\<close>; then
  \<open>createTask\<close> succeeds with one call of the API and one HTTP request, and the cache is
  empty. The next fetch without dates, 10 ms later, misses the cache, as the claim says,
  but it does not fetch again: it makes no call of the API, sends no HTTP request and
  returns the empty list, without the task just created.
\<close>

theorem fetchTasks_after_createTask_no_api_call:
  "(case fetchTasks (GoogleCalendarAPI exampleRuntime acceptingServer) defaultFacadeRetryConfig
           (\<lambda>k. 0) noDates 0 0 (newFacade, exampleState (JStr ''token'') JUndefined) of
      (r0, c0, fs0, w0) \<Rightarrow>
        r0 = Inr [] \<and> map_option timestamp (cache fs0 (getTasksCacheKey noDates)) = Some 0 \<and>
        (case facadeCreateTask (GoogleCalendarAPI exampleRuntime acceptingServer)
                defaultFacadeRetryConfig (\<lambda>k. 0) (JObj [(''title'', JStr ''Buy milk'')])
                ''@default'' (fs0, w0) of
           (r1, c1, fs1, w1) \<Rightarrow>
             r1 = Inr (JObj [(''id'', JStr ''created''), (''title'', JStr ''Untitled''),
                             (''notes'', JUndefined), (''status'', JStr ''needsAction''),
                             (''due'', JUndefined), (''completed'', JUndefined),
                             (''parent'', JUndefined), (''position'', JUndefined),
                             (''links'', JUndefined)]) \<and>
             c1 = 1 \<and> length (requests w1) = 1 \<and> cache fs1 = Map.empty \<and>
             fst (getFromCache 10 (getTasksCacheKey noDates) fs1) = None \<and>
             (case fetchTasks (GoogleCalendarAPI exampleRuntime acceptingServer)
                     defaultFacadeRetryConfig (\<lambda>k. 0) noDates 10 10 (fs1, w1) of
                (r2, c2, fs2, w2) \<Rightarrow> r2 = Inr [] \<and> c2 = 0 \<and> requests w2 = requests w1)))"
  by (simp add: fetchTasks_def facadeCreateTask_def mutate_def ensureReady_def initialize_def
      newFacade_def getFromCache_def getTasksCacheKey_def noDates_def strOr_def present_def
      setCache_def clearCache_def CACHE_TTL_def createTaskBody_def pick_def Let_def
      withRetry_def withRetry_loop.simps finalConfig_def orDefault_def defaultFacadeRetryConfig_def
      GoogleCalendarAPI_def createTask_def credentialsConfigured_def exampleState_def
      exampleCredentials_def makeRequest_def requestUrl_def acceptingServer_def
      transformTask_def orElse_def)

lemma event_mutation_failure:
  assumes "hasApi fs"
    and "(op, request, call) = (facadeCreateEvent api cfg rnd event calId, createEventBody event,
                                \<lambda>a. api_createEvent api a calId)
       \<or> (op, request, call) = (facadeUpdateEvent api cfg rnd eventId updates calId,
                                  updateEventBody updates, \<lambda>a. api_updateEvent api eventId a calId)
       \<or> (op, request, call) = (facadeDeleteEvent api cfg rnd eventId calId, Inr JUndefined,
                                  \<lambda>a. api_deleteEvent api eventId calId)"
    and "request = Inr a" and "outcome (withRetry rnd (call a) cfg w) = Inl e"
  shows "\<exists>err. op (fs, w) = (Inl err, calls (withRetry rnd (call a) cfg w),
                              fs\<lparr>isReady := True\<rparr>, final (withRetry rnd (call a) cfg w))"
  using assms(2)
proof (elim disjE)
  assume "(op, request, call) = (facadeCreateEvent api cfg rnd event calId, createEventBody event,
                                \<lambda>a. api_createEvent api a calId)"
  then have o: "op = facadeCreateEvent api cfg rnd event calId"
    and q: "createEventBody event = Inr a"
    and k: "outcome (withRetry rnd (api_createEvent api a calId) cfg w) = Inl e"
    using assms(3,4) by auto
  show ?thesis
    unfolding o facadeCreateEvent_def
    using mutate_api_failure [OF assms(1) q, of rnd "\<lambda>a. api_createEvent api a calId" cfg w e] k o
      \<open>(op, request, call) = _\<close>
    by auto
next
  assume h: "(op, request, call) = (facadeUpdateEvent api cfg rnd eventId updates calId,
                                  updateEventBody updates, \<lambda>a. api_updateEvent api eventId a calId)"
  then have o: "op = facadeUpdateEvent api cfg rnd eventId updates calId"
    and q: "updateEventBody updates = Inr a"
    and k: "outcome (withRetry rnd (api_updateEvent api eventId a calId) cfg w) = Inl e"
    using assms(3,4) by auto
  show ?thesis
    unfolding o facadeUpdateEvent_def
    using mutate_api_failure [OF assms(1) q, of rnd "\<lambda>a. api_updateEvent api eventId a calId" cfg w e] k h
    by auto
next
  assume h: "(op, request, call) = (facadeDeleteEvent api cfg rnd eventId calId, Inr JUndefined,
                                  \<lambda>a. api_deleteEvent api eventId calId)"
  then have o: "op = facadeDeleteEvent api cfg rnd eventId calId"
    and q: "(Inr JUndefined :: js_error + json) = Inr a"
    and k: "outcome (withRetry rnd (api_deleteEvent api eventId calId) cfg w) = Inl e"
    using assms(3,4) by auto
  show ?thesis
    unfolding o facadeDeleteEvent_def
    using mutate_api_failure [OF assms(1) q, of rnd "\<lambda>a. api_deleteEvent api eventId calId" cfg w e] k h
    by auto
qed

lemma task_mutation_failure:
  assumes "hasApi fs"
    and "(op, request, call) = (facadeCreateTask api cfg rnd task listId, createTaskBody task,
                                \<lambda>a. api_createTask api a listId)
       \<or> (op, request, call) = (facadeUpdateTask api cfg rnd taskId updates listId,
                                  updateTaskBody updates, \<lambda>a. api_updateTask api taskId a listId)
       \<or> (op, request, call) = (facadeDeleteTask api cfg rnd taskId listId, Inr JUndefined,
                                  \<lambda>a. api_deleteTask api taskId listId)"
    and "request = Inr a" and "outcome (withRetry rnd (call a) cfg w) = Inl e"
  shows "\<exists>err. op (fs, w) = (Inl err, calls (withRetry rnd (call a) cfg w),
                              fs\<lparr>isReady := True\<rparr>, final (withRetry rnd (call a) cfg w))"
  using assms(2)
proof (elim disjE)
  assume h: "(op, request, call) = (facadeCreateTask api cfg rnd task listId, createTaskBody task,
                                \<lambda>a. api_createTask api a listId)"
  then have o: "op = facadeCreateTask api cfg rnd task listId"
    and q: "createTaskBody task = Inr a"
    and k: "outcome (withRetry rnd (api_createTask api a listId) cfg w) = Inl e"
    using assms(3,4) by auto
  show ?thesis
    unfolding o facadeCreateTask_def
    using mutate_api_failure [OF assms(1) q, of rnd "\<lambda>a. api_createTask api a listId" cfg w e] k h
    by auto
next
  assume h: "(op, request, call) = (facadeUpdateTask api cfg rnd taskId updates listId,
                                  updateTaskBody updates, \<lambda>a. api_updateTask api taskId a listId)"
  then have o: "op = facadeUpdateTask api cfg rnd taskId updates listId"
    and q: "updateTaskBody updates = Inr a"
    and k: "outcome (withRetry rnd (api_updateTask api taskId a listId) cfg w) = Inl e"
    using assms(3,4) by auto
  show ?thesis
    unfolding o facadeUpdateTask_def
    using mutate_api_failure [OF assms(1) q, of rnd "\<lambda>a. api_updateTask api taskId a listId" cfg w e] k h
    by auto
next
  assume h: "(op, request, call) = (facadeDeleteTask api cfg rnd taskId listId, Inr JUndefined,
                                  \<lambda>a. api_deleteTask api taskId listId)"
  then have o: "op = facadeDeleteTask api cfg rnd taskId listId"
    and q: "(Inr JUndefined :: js_error + json) = Inr a"
    and k: "outcome (withRetry rnd (api_deleteTask api taskId listId) cfg w) = Inl e"
    using assms(3,4) by auto
  show ?thesis
    unfolding o facadeDeleteTask_def
    using mutate_api_failure [OF assms(1) q, of rnd "\<lambda>a. api_deleteTask api taskId listId" cfg w e] k h
    by auto
qed

text \<open>
  C10. When the API call of a create, update or delete method of a facade fails, that
  is, when \<open>withRetry\<close> around it throws, the method throws and the cache of the facade is
  the cache from before the call; a fetch of a cached key within the TTL then still
  returns the cached data, without calling the API.
\<close>

theorem failed_mutation_keeps_cache:
  "(hasApi fs \<and>
    (op, request, call) \<in>
      {(facadeCreateEvent api cfg rnd event calId, createEventBody event,
        \<lambda>a. api_createEvent api a calId),
       (facadeUpdateEvent api cfg rnd eventId updates calId, updateEventBody updates,
        \<lambda>a. api_updateEvent api eventId a calId),
       (facadeDeleteEvent api cfg rnd eventId calId, Inr JUndefined,
        \<lambda>a. api_deleteEvent api eventId calId)} \<and>
    request = Inr a \<and> outcome (withRetry rnd (call a) cfg w) = Inl e \<and>
    op (fs, w) = (r, c, fs1, w1)
    \<longrightarrow> (\<exists>err. r = Inl err) \<and> cache fs1 = cache fs
      \<and> (cache fs (getCacheKey options) = Some entry \<and> now - timestamp entry \<le> CACHE_TTL
            \<longrightarrow> fetchEvents api cfg rnd' options now t' (fs1, w1) = (Inr (data entry), 0, fs1, w1)))
   \<and> (hasApi tfs \<and>
      (taskOp, trequest, tcall) \<in>
        {(facadeCreateTask api cfg rnd task listId, createTaskBody task,
          \<lambda>a. api_createTask api a listId),
         (facadeUpdateTask api cfg rnd taskId tupdates listId, updateTaskBody tupdates,
          \<lambda>a. api_updateTask api taskId a listId),
         (facadeDeleteTask api cfg rnd taskId listId, Inr JUndefined,
          \<lambda>a. api_deleteTask api taskId listId)} \<and>
      trequest = Inr ta \<and> outcome (withRetry rnd (tcall ta) cfg tw) = Inl te \<and>
      taskOp (tfs, tw) = (tr, tc, tfs1, tw1)
      \<longrightarrow> (\<exists>err. tr = Inl err) \<and> cache tfs1 = cache tfs
        \<and> (cache tfs (getTasksCacheKey toptions) = Some tentry \<and>
             tnow - timestamp tentry \<le> CACHE_TTL
              \<longrightarrow> fetchTasks api cfg rnd' toptions tnow t' (tfs1, tw1)
                    = (Inr (data tentry), 0, tfs1, tw1)))"
proof (intro conjI impI)
  assume a: "hasApi fs \<and>
    (op, request, call) \<in>
      {(facadeCreateEvent api cfg rnd event calId, createEventBody event,
        \<lambda>a. api_createEvent api a calId),
       (facadeUpdateEvent api cfg rnd eventId updates calId, updateEventBody updates,
        \<lambda>a. api_updateEvent api eventId a calId),
       (facadeDeleteEvent api cfg rnd eventId calId, Inr JUndefined,
        \<lambda>a. api_deleteEvent api eventId calId)} \<and>
    request = Inr a \<and> outcome (withRetry rnd (call a) cfg w) = Inl e \<and>
    op (fs, w) = (r, c, fs1, w1)"
  then have d: "(op, request, call) = (facadeCreateEvent api cfg rnd event calId, createEventBody event,
                                \<lambda>a. api_createEvent api a calId)
       \<or> (op, request, call) = (facadeUpdateEvent api cfg rnd eventId updates calId,
                                  updateEventBody updates, \<lambda>a. api_updateEvent api eventId a calId)
       \<or> (op, request, call) = (facadeDeleteEvent api cfg rnd eventId calId, Inr JUndefined,
                                  \<lambda>a. api_deleteEvent api eventId calId)"
    by (simp only: insert_iff empty_iff) blast
  from a have h: "hasApi fs"
    and q: "request = Inr a" and k: "outcome (withRetry rnd (call a) cfg w) = Inl e"
    and res: "op (fs, w) = (r, c, fs1, w1)"
    by blast+
  from event_mutation_failure [OF h d q k] res
  obtain err where r: "r = Inl err" and f: "fs1 = fs\<lparr>isReady := True\<rparr>" by auto
  show "\<exists>err. r = Inl err" using r by blast
  show "cache fs1 = cache fs" using f by simp
  assume "cache fs (getCacheKey options) = Some entry \<and> now - timestamp entry \<le> CACHE_TTL"
  then show "fetchEvents api cfg rnd' options now t' (fs1, w1) = (Inr (data entry), 0, fs1, w1)"
    using f by (intro fetchEvents_hit) simp_all
next
  assume a: "hasApi tfs \<and>
      (taskOp, trequest, tcall) \<in>
        {(facadeCreateTask api cfg rnd task listId, createTaskBody task,
          \<lambda>a. api_createTask api a listId),
         (facadeUpdateTask api cfg rnd taskId tupdates listId, updateTaskBody tupdates,
          \<lambda>a. api_updateTask api taskId a listId),
         (facadeDeleteTask api cfg rnd taskId listId, Inr JUndefined,
          \<lambda>a. api_deleteTask api taskId listId)} \<and>
      trequest = Inr ta \<and> outcome (withRetry rnd (tcall ta) cfg tw) = Inl te \<and>
      taskOp (tfs, tw) = (tr, tc, tfs1, tw1)"
  then have d: "(taskOp, trequest, tcall) = (facadeCreateTask api cfg rnd task listId,
                                         createTaskBody task, \<lambda>a. api_createTask api a listId)
       \<or> (taskOp, trequest, tcall) = (facadeUpdateTask api cfg rnd taskId tupdates listId,
                                  updateTaskBody tupdates, \<lambda>a. api_updateTask api taskId a listId)
       \<or> (taskOp, trequest, tcall) = (facadeDeleteTask api cfg rnd taskId listId, Inr JUndefined,
                                  \<lambda>a. api_deleteTask api taskId listId)"
    by (simp only: insert_iff empty_iff) blast
  from a have h: "hasApi tfs"
    and q: "trequest = Inr ta" and k: "outcome (withRetry rnd (tcall ta) cfg tw) = Inl te"
    and res: "taskOp (tfs, tw) = (tr, tc, tfs1, tw1)"
    by blast+
  from task_mutation_failure [OF h d q k] res
  obtain err where r: "tr = Inl err" and f: "tfs1 = tfs\<lparr>isReady := True\<rparr>" by auto
  show "\<exists>err. tr = Inl err" using r by blast
  show "cache tfs1 = cache tfs" using f by simp
  assume "cache tfs (getTasksCacheKey toptions) = Some tentry \<and>
             tnow - timestamp tentry \<le> CACHE_TTL"
  then show "fetchTasks api cfg rnd' toptions tnow t' (tfs1, tw1) = (Inr (data tentry), 0, tfs1, tw1)"
    using f by (intro fetchTasks_hit) simp_all
qed

lemma example_unavailable_event:
  "outcome (withRetry (\<lambda>k. 0)
      (api_createEvent (GoogleCalendarAPI exampleRuntime unavailableServer)
         (JObj [(''summary'', JStr ''Lunch''), (''description'', JUndefined), (''start'', JUndefined),
                (''end'', JUndefined), (''location'', JUndefined), (''attendees'', JUndefined),
                (''recurrence'', JUndefined)]) ''primary'')
      defaultFacadeRetryConfig (exampleState (JStr ''token'') JUndefined))
   = Inl (JsError ''Request failed, status 503'' (Some 503))"
  by (simp add: withRetry_def withRetry_loop.simps finalConfig_def orDefault_def
      defaultFacadeRetryConfig_def DEFAULT_RETRY_CONFIG_def defaultIsRetryable_def
      toLowerCase_def lowerChar_def GoogleCalendarAPI_def createEvent_def
      credentialsConfigured_def exampleState_def exampleCredentials_def makeRequest_def
      requestUrl_def unavailableServer_def)

lemma example_unavailable_task:
  "outcome (withRetry (\<lambda>k. 0)
      (api_deleteTask (GoogleCalendarAPI exampleRuntime unavailableServer) ''t1'' ''@default'')
      defaultFacadeRetryConfig (exampleState (JStr ''token'') JUndefined))
   = Inl (JsError ''Request failed, status 503'' (Some 503))"
  by (simp add: withRetry_def withRetry_loop.simps finalConfig_def orDefault_def
      defaultFacadeRetryConfig_def DEFAULT_RETRY_CONFIG_def defaultIsRetryable_def
      toLowerCase_def lowerChar_def GoogleCalendarAPI_def deleteTask_def
      credentialsConfigured_def exampleState_def exampleCredentials_def makeRequest_def
      requestUrl_def unavailableServer_def)

theorem failed_mutation_keeps_cache_witness:
  "fetchEvents (GoogleCalendarAPI exampleRuntime unavailableServer) defaultFacadeRetryConfig
       (\<lambda>k. 0) tenthOfJanuary 10 11
       (snd (snd (facadeCreateEvent (GoogleCalendarAPI exampleRuntime unavailableServer)
          defaultFacadeRetryConfig (\<lambda>k. 0) (JObj [(''summary'', JStr ''Lunch'')]) ''primary''
          (warmFacade, exampleState (JStr ''token'') JUndefined))))
     = (Inr [JStr ''cached''], 0,
        snd (snd (facadeCreateEvent (GoogleCalendarAPI exampleRuntime unavailableServer)
          defaultFacadeRetryConfig (\<lambda>k. 0) (JObj [(''summary'', JStr ''Lunch'')]) ''primary''
          (warmFacade, exampleState (JStr ''token'') JUndefined))))
   \<and> fetchTasks (GoogleCalendarAPI exampleRuntime unavailableServer) defaultFacadeRetryConfig
       (\<lambda>k. 0) tasksOfTenthOfJanuary 10 11
       (snd (snd (facadeDeleteTask (GoogleCalendarAPI exampleRuntime unavailableServer)
          defaultFacadeRetryConfig (\<lambda>k. 0) ''t1'' ''@default''
          (warmFacade, exampleState (JStr ''token'') JUndefined))))
     = (Inr [JStr ''cached''], 0,
        snd (snd (facadeDeleteTask (GoogleCalendarAPI exampleRuntime unavailableServer)
          defaultFacadeRetryConfig (\<lambda>k. 0) ''t1'' ''@default''
          (warmFacade, exampleState (JStr ''token'') JUndefined))))"
proof -
  let ?api = "GoogleCalendarAPI exampleRuntime unavailableServer"
  let ?st = "exampleState (JStr ''token'') JUndefined"
  let ?ev = "JObj [(''summary'', JStr ''Lunch'')]"
  let ?a = "JObj [(''summary'', JStr ''Lunch''), (''description'', JUndefined), (''start'', JUndefined),
                (''end'', JUndefined), (''location'', JUndefined), (''attendees'', JUndefined),
                (''recurrence'', JUndefined)]"
  let ?x = "facadeCreateEvent ?api defaultFacadeRetryConfig (\<lambda>k. 0) ?ev ''primary'' (warmFacade, ?st)"
  let ?y = "facadeDeleteTask ?api defaultFacadeRetryConfig (\<lambda>k. 0) ''t1'' ''@default'' (warmFacade, ?st)"
  let ?entry = "\<lparr>data = [JStr ''cached''], timestamp = 0\<rparr>"
  have h: "hasApi warmFacade" by (simp add: warmFacade_def)
  have b: "createEventBody ?ev = Inr ?a" by (simp add: createEventBody_def pick_def)
  have c1: "cache warmFacade (getCacheKey tenthOfJanuary) = Some ?entry"
    by (simp add: warmFacade_def getCacheKey_def getTasksCacheKey_def tenthOfJanuary_def
        tasksOfTenthOfJanuary_def strOr_def)
  have c2: "cache warmFacade (getTasksCacheKey tasksOfTenthOfJanuary) = Some ?entry"
    by (simp add: warmFacade_def)
  have ttl: "(10::int) - timestamp ?entry \<le> CACHE_TTL" by (simp add: CACHE_TTL_def)
  have x: "?x = (fst ?x, fst (snd ?x), fst (snd (snd ?x)), snd (snd (snd ?x)))" by simp
  have y: "?y = (fst ?y, fst (snd ?y), fst (snd (snd ?y)), snd (snd (snd ?y)))" by simp
  note inst = failed_mutation_keeps_cache [where api = ?api and cfg = defaultFacadeRetryConfig
      and rnd = "\<lambda>k. 0" and rnd' = "\<lambda>k. 0" and fs = warmFacade and tfs = warmFacade
      and w = ?st and tw = ?st and event = ?ev and calId = "''primary''"
      and taskId = "''t1''" and listId = "''@default''"
      and op = "facadeCreateEvent ?api defaultFacadeRetryConfig (\<lambda>k. 0) ?ev ''primary''"
      and request = "createEventBody ?ev" and call = "\<lambda>a. api_createEvent ?api a ''primary''"
      and a = ?a and e = "JsError ''Request failed, status 503'' (Some 503)"
      and r = "fst ?x" and c = "fst (snd ?x)" and ?fs1.0 = "fst (snd (snd ?x))"
      and ?w1.0 = "snd (snd (snd ?x))"
      and taskOp = "facadeDeleteTask ?api defaultFacadeRetryConfig (\<lambda>k. 0) ''t1'' ''@default''"
      and trequest = "Inr JUndefined" and tcall = "\<lambda>a. api_deleteTask ?api ''t1'' ''@default''"
      and ta = JUndefined and te = "JsError ''Request failed, status 503'' (Some 503)"
      and tr = "fst ?y" and tc = "fst (snd ?y)" and ?tfs1.0 = "fst (snd (snd ?y))"
      and ?tw1.0 = "snd (snd (snd ?y))"
      and options = tenthOfJanuary and toptions = tasksOfTenthOfJanuary
      and entry = ?entry and tentry = ?entry and now = 10 and tnow = 10 and t' = 11]
  have e: "fetchEvents ?api defaultFacadeRetryConfig (\<lambda>k. 0) tenthOfJanuary 10 11
       (fst (snd (snd ?x)), snd (snd (snd ?x)))
     = (Inr (data ?entry), 0, fst (snd (snd ?x)), snd (snd (snd ?x)))"
    using inst h b example_unavailable_event x c1 ttl by simp
  have t: "fetchTasks ?api defaultFacadeRetryConfig (\<lambda>k. 0) tasksOfTenthOfJanuary 10 11
       (fst (snd (snd ?y)), snd (snd (snd ?y)))
     = (Inr (data ?entry), 0, fst (snd (snd ?y)), snd (snd (snd ?y)))"
    using inst h example_unavailable_task y c2 ttl by simp
  show ?thesis using e t by simp
qed

section \<open>Properties of the OAuth listener\<close>

lemma start_idle:
  assumes "server st = None" and "listening st = None"
  shows "flowState (closeCalls st) (started st) (startOAuthFlow st)"
  using assms by (simp add: flowState_def startOAuthFlow_def Let_def)

lemma closeServer_waiting:
  "server s = Some h \<Longrightarrow> listening s = Some h \<Longrightarrow>
   closeServer s = s\<lparr>closeCalls := closeCalls s @ [h], listening := None, server := None\<rparr>"
  by (simp add: closeServer_def)

lemma closeServer_closed: "server s = None \<Longrightarrow> closeServer s = s"
  by (simp add: closeServer_def)

lemma settle_pending:
  "promises s h = Some Pending \<Longrightarrow> settle h v s = s\<lparr>promises := (promises s)(h \<mapsto> v)\<rparr>"
  by (simp add: settle_def)

lemma settle_settled: "settled s h \<Longrightarrow> settle h v s = s"
  by (auto simp: settle_def settled_def)

lemma settled_after:
  "v \<noteq> Pending \<Longrightarrow> settled (s\<lparr>promises := (promises s)(h \<mapsto> v)\<rparr>) h"
  by (cases v) (simp_all add: settled_def)

text \<open>What the callback does to a flow that is waiting.\<close>

lemma handleCallback_waiting:
  assumes "promises s h = Some Pending" and "server s = Some h" and "listening s = Some h"
    and "req_url req \<noteq> []"
  shows "\<exists>v pgs ex. v \<noteq> Pending \<and>
           handleCallback rt srv c h req s =
             s\<lparr>pages := pgs, closeCalls := closeCalls s @ [h], listening := None, server := None,
               exchanges := ex, promises := (promises s)(h \<mapsto> v)\<rparr>"
proof -
  let ?code = "case map_of (query req) ''code'' of None \<Rightarrow> JUndefined | Some v \<Rightarrow> v"
  let ?error = "case map_of (query req) ''error'' of None \<Rightarrow> JUndefined | Some v \<Rightarrow> v"
  have cl: "\<And>p. closeServer (s\<lparr>pages := p\<rparr>) =
      s\<lparr>pages := p, closeCalls := closeCalls s @ [h], listening := None, server := None\<rparr>"
    using assms(2,3) by (simp add: closeServer_def)
  consider (err) "truthy ?error" | (code) "\<not> truthy ?error" "truthy ?code"
    | (none) "\<not> truthy ?error" "\<not> truthy ?code" by blast
  then show ?thesis
  proof cases
    case err
    then have "handleCallback rt srv c h req s =
        s\<lparr>pages := pages s @ [400], closeCalls := closeCalls s @ [h], listening := None,
          server := None, exchanges := exchanges s,
          promises := (promises s)(h \<mapsto> Rejected (JsError (''Authorization failed: '' @ toStr rt ?error) None))\<rparr>"
      using assms(1,4) by (simp add: handleCallback_def Let_def cl settle_def)
    then show ?thesis by blast
  next
    case none
    then have "handleCallback rt srv c h req s =
        s\<lparr>pages := pages s @ [400], closeCalls := closeCalls s @ [h], listening := None,
          server := None, exchanges := exchanges s,
          promises := (promises s)(h \<mapsto> Rejected (JsError ''No authorization code received'' None))\<rparr>"
      using assms(1,4) by (simp add: handleCallback_def Let_def cl settle_def)
    then show ?thesis by blast
  next
    case code
    show ?thesis
    proof (cases "srv (exchanges s) (exchangeRequest rt c ?code)")
      case (Inl e)
      then have "handleCallback rt srv c h req s =
          s\<lparr>pages := pages s @ [200], closeCalls := closeCalls s @ [h], listening := None,
            server := None, exchanges := exchanges s @ [exchangeRequest rt c ?code],
            promises := (promises s)(h \<mapsto> Rejected e)\<rparr>"
        using assms(1,4) code
        by (simp add: handleCallback_def Let_def cl settle_def exchangeCodeForTokens_def)
      then show ?thesis by blast
    next
      case (Inr tokens)
      then have "handleCallback rt srv c h req s =
          s\<lparr>pages := pages s @ [200], closeCalls := closeCalls s @ [h], listening := None,
            server := None, exchanges := exchanges s @ [exchangeRequest rt c ?code],
            promises := (promises s)(h \<mapsto> Resolved tokens)\<rparr>"
        using assms(1,4) code
        by (simp add: handleCallback_def Let_def cl settle_def exchangeCodeForTokens_def)
      then show ?thesis by blast
    qed
  qed
qed


lemma handleCallback_settled:
  assumes "settled s h" and "server s = None"
  shows "\<exists>pgs ex. handleCallback rt srv c h req s = s\<lparr>pages := pgs, exchanges := ex\<rparr>"
proof -
  let ?code = "case map_of (query req) ''code'' of None \<Rightarrow> JUndefined | Some v \<Rightarrow> v"
  let ?error = "case map_of (query req) ''error'' of None \<Rightarrow> JUndefined | Some v \<Rightarrow> v"
  have np: "promises s h \<noteq> Some Pending" using assms(1) by (auto simp: settled_def)
  have cl: "\<And>p. closeServer (s\<lparr>pages := p\<rparr>) = s\<lparr>pages := p\<rparr>"
    using assms(2) by (simp add: closeServer_def)
  have same: "s = s\<lparr>pages := pages s, exchanges := exchanges s\<rparr>" by simp
  consider (nourl) "req_url req = []" | (err) "req_url req \<noteq> []" "truthy ?error"
    | (code) "req_url req \<noteq> []" "\<not> truthy ?error" "truthy ?code"
    | (none) "req_url req \<noteq> []" "\<not> truthy ?error" "\<not> truthy ?code" by blast
  then show ?thesis
  proof cases
    case nourl
    then have "handleCallback rt srv c h req s = s" by (simp add: handleCallback_def)
    then show ?thesis using same by metis
  next
    case err
    then have "handleCallback rt srv c h req s = s\<lparr>pages := pages s @ [400], exchanges := exchanges s\<rparr>"
      using np by (simp add: handleCallback_def Let_def cl settle_def)
    then show ?thesis by blast
  next
    case none
    then have "handleCallback rt srv c h req s = s\<lparr>pages := pages s @ [400], exchanges := exchanges s\<rparr>"
      using np by (simp add: handleCallback_def Let_def cl settle_def)
    then show ?thesis by blast
  next
    case code
    then have "handleCallback rt srv c h req s =
        s\<lparr>pages := pages s @ [200], exchanges := exchanges s @ [exchangeRequest rt c ?code]\<rparr>"
      using np
      by (cases "srv (exchanges s) (exchangeRequest rt c ?code)")
         (simp_all add: handleCallback_def Let_def cl settle_def exchangeCodeForTokens_def)
    then show ?thesis by blast
  qed
qed

lemma requestListener_flowState:
  assumes "flowState closed0 h s"
  shows "flowState closed0 h (requestListener rt srv c h req s)
       \<and> (isCallback req \<longrightarrow> settled (requestListener rt srv c h req s) h)
       \<and> (settled s h \<longrightarrow> settled (requestListener rt srv c h req s) h)"
proof (cases "isCallback req")
  case False
  then have "requestListener rt srv c h req s = s"
    by (auto simp add: requestListener_def isCallback_def)
  then show ?thesis using assms False by simp
next
  case True
  then have rl: "requestListener rt srv c h req s = handleCallback rt srv c h req s"
    and u: "req_url req \<noteq> []"
    by (simp_all add: requestListener_def isCallback_def)
  from assms consider
      (waiting) "started s = Suc h" "promises s h = Some Pending" "server s = Some h"
        "listening s = Some h" "closeCalls s = closed0"
    | (finished) "started s = Suc h" "settled s h" "server s = None" "listening s = None"
        "closeCalls s = closed0 @ [h]"
    by (auto simp: flowState_def)
  then show ?thesis
  proof cases
    case waiting
    from handleCallback_waiting [OF waiting(2,3,4) u, of rt srv c]
    obtain v pgs ex where v: "v \<noteq> Pending"
      and hc: "handleCallback rt srv c h req s =
             s\<lparr>pages := pgs, closeCalls := closeCalls s @ [h], listening := None, server := None,
               exchanges := ex, promises := (promises s)(h \<mapsto> v)\<rparr>"
      by blast
    have st: "settled (handleCallback rt srv c h req s) h"
      unfolding hc using v by (cases v) (simp_all add: settled_def)
    have "flowState closed0 h (handleCallback rt srv c h req s)"
      using st waiting(1,5) unfolding flowState_def by (simp add: hc)
    then show ?thesis using st rl by simp
  next
    case finished
    from handleCallback_settled [OF finished(2,3), of rt srv c req]
    obtain pgs ex where hc: "handleCallback rt srv c h req s = s\<lparr>pages := pgs, exchanges := ex\<rparr>"
      by blast
    have st: "settled (handleCallback rt srv c h req s) h"
      using finished(2) unfolding hc by (simp add: settled_def)
    have "flowState closed0 h (handleCallback rt srv c h req s)"
      using st finished unfolding flowState_def by (simp add: hc)
    then show ?thesis using st rl by simp
  qed
qed

lemma requests_flowState:
  "flowState closed0 h s \<Longrightarrow>
   flowState closed0 h (foldl (\<lambda>s req. requestListener rt srv c h req s) s reqs)
   \<and> (settled s h \<or> (\<exists>req \<in> set reqs. isCallback req)
        \<longrightarrow> settled (foldl (\<lambda>s req. requestListener rt srv c h req s) s reqs) h)"
proof (induction reqs arbitrary: s)
  case Nil
  then show ?case by simp
next
  case (Cons req reqs)
  let ?s = "requestListener rt srv c h req s"
  from requestListener_flowState [OF Cons.prems, of rt srv c req]
  have f: "flowState closed0 h ?s"
    and cb: "isCallback req \<longrightarrow> settled ?s h"
    and keep: "settled s h \<longrightarrow> settled ?s h"
    by blast+
  from Cons.IH [OF f] cb keep show ?case by auto
qed

lemma first_callback:
  assumes "server st = None" and "listening st = None" and "isCallback req"
  shows "promises (requestListener rt srv c (started st) req (startOAuthFlow st)) (started st) =
     Some (if truthy (queryParam req ''error'') then
             Rejected (JsError (''Authorization failed: '' @ toStr rt (queryParam req ''error'')) None)
           else if truthy (queryParam req ''code'') then
             (case srv (exchanges st) (exchangeRequest rt c (queryParam req ''code'')) of
                Inl e \<Rightarrow> Rejected e
              | Inr tokens \<Rightarrow> Resolved tokens)
           else Rejected (JsError ''No authorization code received'' None))"
  using assms
  by (simp add: requestListener_def isCallback_def handleCallback_def startOAuthFlow_def Let_def
      closeServer_def settle_def exchangeCodeForTokens_def queryParam_def split: sum.split)

text \<open>
  C9. A flow started on an idle \<open>OAuthServer\<close> (no server stored, the port free) binds the
  port. Whatever requests its listener then receives, once the promise of the flow is
  settled, \<open>close()\<close> has been called on the listener exactly once, the port is free and
  \<open>this.server\<close> is \<open>null\<close>, so that a next \<open>startOAuthFlow\<close> binds the port. The promise is
  settled as soon as one request for \<open>/callback\<close> has arrived: rejected when the query has
  an \<open>error\<close>, resolved or rejected with the result of the token exchange when it has a
  \<open>code\<close>, and rejected when it has neither.
\<close>

theorem oauth_listener_torn_down_once:
  assumes "server st = None" and "listening st = None" and "started st \<notin> set (closeCalls st)"
  shows "listening (startOAuthFlow st) = Some (started st)
     \<and> (settled (deliver rt srv c (started st) reqs (startOAuthFlow st)) (started st) \<longrightarrow>
          closeCalls (deliver rt srv c (started st) reqs (startOAuthFlow st))
            = closeCalls st @ [started st]
        \<and> count_list (closeCalls (deliver rt srv c (started st) reqs (startOAuthFlow st)))
            (started st) = 1
        \<and> listening (deliver rt srv c (started st) reqs (startOAuthFlow st)) = None
        \<and> server (deliver rt srv c (started st) reqs (startOAuthFlow st)) = None
        \<and> listening (startOAuthFlow (deliver rt srv c (started st) reqs (startOAuthFlow st)))
            = Some (Suc (started st)))
     \<and> ((\<exists>req \<in> set reqs. isCallback req) \<longrightarrow>
          settled (deliver rt srv c (started st) reqs (startOAuthFlow st)) (started st))
     \<and> (isCallback req \<longrightarrow>
          promises (requestListener rt srv c (started st) req (startOAuthFlow st)) (started st) =
            Some (if truthy (queryParam req ''error'') then
                    Rejected (JsError (''Authorization failed: '' @
                                        toStr rt (queryParam req ''error'')) None)
                  else if truthy (queryParam req ''code'') then
                    (case srv (exchanges st) (exchangeRequest rt c (queryParam req ''code'')) of
                       Inl e \<Rightarrow> Rejected e
                     | Inr tokens \<Rightarrow> Resolved tokens)
                  else Rejected (JsError ''No authorization code received'' None)))"
proof -
  let ?h = "started st"
  let ?run = "deliver rt srv c ?h reqs (startOAuthFlow st)"
  have f0: "flowState (closeCalls st) ?h (startOAuthFlow st)"
    using assms(1,2) by (rule start_idle)
  from requests_flowState [OF f0, of rt srv c reqs]
  have f: "flowState (closeCalls st) ?h ?run"
    and live: "(\<exists>req \<in> set reqs. isCallback req) \<longrightarrow> settled ?run ?h"
    unfolding deliver_def by blast+
  have l0: "listening (startOAuthFlow st) = Some ?h"
    using f0 by (auto simp: flowState_def settled_def startOAuthFlow_def Let_def assms(2))
  {
    assume s: "settled ?run ?h"
    then have np: "promises ?run ?h \<noteq> Some Pending" by (auto simp: settled_def)
    from f np have c: "closeCalls ?run = closeCalls st @ [?h]"
      and li: "listening ?run = None" and se: "server ?run = None" and stt: "started ?run = Suc ?h"
      by (auto simp: flowState_def)
    have cnt: "count_list (closeCalls ?run) ?h = 1"
      unfolding c using assms(3) by (simp add: count_list_0_iff)
    have nxt: "listening (startOAuthFlow ?run) = Some (Suc ?h)"
      using li stt by (simp add: startOAuthFlow_def Let_def)
    note c cnt li se nxt
  }
  then show ?thesis using l0 live first_callback [OF assms(1,2), of req rt srv c] by blast
qed


theorem oauth_listener_torn_down_once_witness:
  "closeCalls (deliver exampleRuntime rotatingServer exampleOAuthCredentials 0 browserRequests
                 (startOAuthFlow newOAuthServer)) = [0]
   \<and> listening (deliver exampleRuntime rotatingServer exampleOAuthCredentials 0 browserRequests
                 (startOAuthFlow newOAuthServer)) = None
   \<and> listening (startOAuthFlow
         (deliver exampleRuntime rotatingServer exampleOAuthCredentials 0 browserRequests
            (startOAuthFlow newOAuthServer))) = Some 1
   \<and> promises (requestListener exampleRuntime rotatingServer exampleOAuthCredentials 0
                  (browserRequests ! 1) (startOAuthFlow newOAuthServer)) 0
       = Some (Resolved (JObj [(''access_token'', JStr ''new-access''),
                               (''refresh_token'', JStr ''rotated'')]))"
proof -
  have idle: "server newOAuthServer = None" "listening newOAuthServer = None"
    "started newOAuthServer \<notin> set (closeCalls newOAuthServer)"
    by (simp_all add: newOAuthServer_def)
  have z: "started newOAuthServer = 0" "closeCalls newOAuthServer = []"
    "exchanges newOAuthServer = []"
    by (simp_all add: newOAuthServer_def)
  have cb: "\<exists>req \<in> set browserRequests. isCallback req" "isCallback (browserRequests ! 1)"
    by (simp_all add: browserRequests_def isCallback_def)
  have q: "\<not> truthy (queryParam (browserRequests ! 1) ''error'')"
    "queryParam (browserRequests ! 1) ''code'' = JStr ''abc''"
    by (simp_all add: browserRequests_def queryParam_def)
  have ex: "rotatingServer [] (exchangeRequest exampleRuntime exampleOAuthCredentials (JStr ''abc''))
      = Inr (JObj [(''access_token'', JStr ''new-access''), (''refresh_token'', JStr ''rotated'')])"
    by (simp add: rotatingServer_def exchangeRequest_def)
  from oauth_listener_torn_down_once [OF idle, of exampleRuntime rotatingServer
      exampleOAuthCredentials browserRequests "browserRequests ! 1"]
  show ?thesis using cb q ex unfolding z by simp
qed

end
